(* ===== verification/Prelude.thy ===== *)
theory Prelude
  imports Complex_Main "HOL-Library.Word"
begin

text \<open>
  Shared vocabulary of the ATUS2 development: the value types of the C++ code
  (\<open>fftw_complex\<close> as a pair, \<open>CPoint<3>\<close> as a triple), the C semantics of integer
  division and remainder (truncation towards zero, a trap on a zero divisor), a
  bind for computations that may trap, the C \<open>for\<close> loop as a recursive function with
  its equivalence to \<^const>\<open>fold\<close>, and the lemmas on element-wise buffer updates
  that carry the proofs about the OpenMP loops of \<open>rft_3d.cpp\<close>.
\<close>

named_theorems cint_simps "C integer arithmetic on non-negative operands"
named_theorems loop_simps "for-loops and element-wise buffer updates"

section \<open>Value types\<close>

text \<open>\<open>fftw_complex\<close> is \<open>double[2]\<close>: the pair (real part, imaginary part).
  Doubles are modelled as exact reals; rounding is not modelled.\<close>

type_synonym cplx = "real \<times> real"

text \<open>\<open>CPoint<3>\<close>, the frequency or coordinate triple returned by \<open>Get_k\<close>/\<open>Get_x\<close>.\<close>

type_synonym point3 = "real \<times> real \<times> real"

abbreviation re :: "cplx \<Rightarrow> real" where "re z \<equiv> fst z"
abbreviation im :: "cplx \<Rightarrow> real" where "im z \<equiv> snd z"

text \<open>\<open>CPoint<3>::operator*\<close>, the scalar product (\<open>k*k\<close> in \<open>rft_3d::Laplace\<close>).\<close>

definition dot3 :: "point3 \<Rightarrow> point3 \<Rightarrow> real" where
  "dot3 a b = (case a of (a0, a1, a2) \<Rightarrow> case b of (b0, b1, b2) \<Rightarrow> a0 * b0 + a1 * b1 + a2 * b2)"

text \<open>The complex number a pair stands for.\<close>

definition to_complex :: "cplx \<Rightarrow> complex" where
  "to_complex z = Complex (re z) (im z)"

section \<open>Faults\<close>

text \<open>What the C code does where it has no defined result: an integer division by
  zero traps (SIGFPE), a read outside an array and a signed \<open>int\<close> overflow are
  undefined behaviour.\<close>

datatype c_fault = Div_by_zero | Out_of_bounds | Int_overflow

definition bind_e :: "'e + 'a \<Rightarrow> ('a \<Rightarrow> 'e + 'b) \<Rightarrow> 'e + 'b" where
  "bind_e m f = (case m of Inl e \<Rightarrow> Inl e | Inr a \<Rightarrow> f a)"

section \<open>C integer division\<close>

text \<open>C99 \<open>/\<close> and \<open>%\<close> on signed integers truncate towards zero, unlike HOL's
  \<open>div\<close>/\<open>mod\<close>, which round towards minus infinity.\<close>

definition c_div :: "int \<Rightarrow> int \<Rightarrow> int" where
  "c_div a b = sgn a * sgn b * (\<bar>a\<bar> div \<bar>b\<bar>)"

definition c_mod :: "int \<Rightarrow> int \<Rightarrow> int" where
  "c_mod a b = a - b * c_div a b"

text \<open>The checked forms trap on a zero divisor.\<close>

definition c_div_chk :: "int \<Rightarrow> int \<Rightarrow> c_fault + int" where
  "c_div_chk a b = (if b = 0 then Inl Div_by_zero else Inr (c_div a b))"

definition c_mod_chk :: "int \<Rightarrow> int \<Rightarrow> c_fault + int" where
  "c_mod_chk a b = (if b = 0 then Inl Div_by_zero else Inr (c_mod a b))"

section \<open>The C for loop\<close>

text \<open>\<open>for (l = i; l < n; l++) body\<close>: the loop over a state, one iteration per index.\<close>

function for_upto :: "nat \<Rightarrow> nat \<Rightarrow> (nat \<Rightarrow> 'a \<Rightarrow> 'a) \<Rightarrow> 'a \<Rightarrow> 'a" where
  "for_upto i n body s = (if i < n then for_upto (Suc i) n body (body i s) else s)"
  by pat_completeness auto
termination
  by (relation "measure (\<lambda>(i, n, _, _). n - i)") auto

declare for_upto.simps [simp del]

text \<open>The same loop when an iteration may trap: the first fault ends it.\<close>

function for_upto_e :: "nat \<Rightarrow> nat \<Rightarrow> (nat \<Rightarrow> 'a \<Rightarrow> 'e + 'a) \<Rightarrow> 'a \<Rightarrow> 'e + 'a" where
  "for_upto_e i n body s =
     (if i < n then bind_e (body i s) (for_upto_e (Suc i) n body) else Inr s)"
  by pat_completeness auto
termination
  by (relation "measure (\<lambda>(i, n, _, _). n - i)") auto

declare for_upto_e.simps [simp del]

section \<open>Element-wise buffer updates\<close>

text \<open>The body of every OpenMP \<open>parallel for\<close> of \<open>rft_3d.cpp\<close> reads and writes the
  element at its own index only: \<open>buf[i] = f(i, buf[i])\<close>.\<close>

definition pointwise_upd :: "(nat \<Rightarrow> 'a \<Rightarrow> 'a) \<Rightarrow> nat \<Rightarrow> 'a list \<Rightarrow> 'a list" where
  "pointwise_upd f i xs = xs[i := f i (xs ! i)]"

section \<open>Lemmas\<close>

subsection \<open>Value types and faults\<close>

lemma dot3_simp [simp]: "dot3 (a0, a1, a2) (b0, b1, b2) = a0 * b0 + a1 * b1 + a2 * b2"
  by (simp add: dot3_def)

lemma to_complex_inject [simp]: "to_complex a = to_complex b \<longleftrightarrow> a = b"
  by (cases a, cases b) (simp add: to_complex_def)

lemma bind_e_Inr [simp]: "bind_e (Inr a) f = f a"
  and bind_e_Inl [simp]: "bind_e (Inl e) f = Inl e"
  by (simp_all add: bind_e_def)

lemma bind_e_eq_Inr_iff: "bind_e m f = Inr b \<longleftrightarrow> (\<exists>a. m = Inr a \<and> f a = Inr b)"
  by (cases m) simp_all

subsection \<open>C integer division on non-negative operands\<close>

lemma c_div_nonneg [cint_simps]: "0 \<le> a \<Longrightarrow> 0 \<le> b \<Longrightarrow> c_div a b = a div b"
  by (cases "a = 0"; cases "b = 0") (simp_all add: c_div_def)

lemma c_mod_nonneg [cint_simps]: "0 \<le> a \<Longrightarrow> 0 \<le> b \<Longrightarrow> c_mod a b = a mod b"
  by (simp add: c_mod_def c_div_nonneg minus_div_mult_eq_mod [symmetric] mult.commute)

lemma c_div_chk_nonneg [cint_simps]: "0 \<le> a \<Longrightarrow> 0 < b \<Longrightarrow> c_div_chk a b = Inr (a div b)"
  by (simp add: c_div_chk_def c_div_nonneg)

lemma c_mod_chk_nonneg [cint_simps]: "0 \<le> a \<Longrightarrow> 0 < b \<Longrightarrow> c_mod_chk a b = Inr (a mod b)"
  by (simp add: c_mod_chk_def c_mod_nonneg)

lemma c_chk_zero [simp]: "c_div_chk a 0 = Inl Div_by_zero" "c_mod_chk a 0 = Inl Div_by_zero"
  by (simp_all add: c_div_chk_def c_mod_chk_def)

subsection \<open>Loops\<close>

lemma for_upto_fold [loop_simps]: "for_upto i n body s = fold body [i..<n] s"
proof (induction i n body s rule: for_upto.induct)
  case (1 i n body s)
  show ?case
  proof (cases "i < n")
    case True
    with "1.IH" show ?thesis
      by (simp add: for_upto.simps [of i n] upt_conv_Cons)
  next
    case False
    then show ?thesis by (simp add: for_upto.simps [of i n])
  qed
qed

text \<open>A loop whose iterations never trap computes the plain loop.\<close>

lemma for_upto_e_total [loop_simps]:
  assumes "\<And>j s. i \<le> j \<Longrightarrow> j < n \<Longrightarrow> body j s = Inr (g j s)"
  shows "for_upto_e i n body s = Inr (for_upto i n g s)"
  using assms
proof (induction i n body s rule: for_upto_e.induct)
  case (1 i n body s)
  show ?case
  proof (cases "i < n")
    case True
    then have "body i s = Inr (g i s)" by (simp add: "1.prems")
    moreover have "for_upto_e (Suc i) n body (g i s) = Inr (for_upto (Suc i) n g (g i s))"
      using True by (intro "1.IH") (simp_all add: "1.prems")
    ultimately show ?thesis using True
      by (simp add: for_upto_e.simps [of i n] for_upto.simps [of i n])
  next
    case False
    then show ?thesis by (simp add: for_upto_e.simps [of i n] for_upto.simps [of i n])
  qed
qed

text \<open>A loop whose iterations either return or fault with \<open>e\<close> returns or faults
  with \<open>e\<close>; a loop whose iterations all return returns.\<close>

lemma for_upto_e_cases:
  assumes "\<And>j s. i \<le> j \<Longrightarrow> j < n \<Longrightarrow> (\<exists>s'. body j s = Inr s') \<or> body j s = Inl e"
  shows "(\<exists>s'. for_upto_e i n body s = Inr s') \<or> for_upto_e i n body s = Inl e"
  using assms
proof (induction i n body s rule: for_upto_e.induct)
  case (1 i n body s)
  show ?case
  proof (cases "i < n")
    case True
    then consider (ok) s1 where "body i s = Inr s1" | (err) "body i s = Inl e"
      using "1.prems" by blast
    then show ?thesis
    proof cases
      case ok
      then have "(\<exists>s'. for_upto_e (Suc i) n body s1 = Inr s') \<or> for_upto_e (Suc i) n body s1 = Inl e"
        using True by (intro "1.IH") (simp_all add: "1.prems")
      then show ?thesis using ok True by (simp add: for_upto_e.simps [of i n])
    qed (use True in \<open>simp add: for_upto_e.simps [of i n]\<close>)
  qed (simp add: for_upto_e.simps [of i n])
qed

lemma for_upto_e_Inr:
  assumes "\<And>j s. i \<le> j \<Longrightarrow> j < n \<Longrightarrow> \<exists>s'. body j s = Inr s'"
  shows "\<exists>s'. for_upto_e i n body s = Inr s'"
proof -
  have "body j s = Inr (projr (body j s))" if h: "i \<le> j" "j < n" for j s
  proof -
    obtain s' where "body j s = Inr s'" using assms [OF h] by blast
    then show ?thesis by simp
  qed
  then have "for_upto_e i n body s = Inr (for_upto i n (\<lambda>j s. projr (body j s)) s)"
    by (rule for_upto_e_total)
  then show ?thesis by blast
qed

text \<open>A loop whose first iteration traps traps.\<close>

lemma for_upto_e_fault:
  "i < n \<Longrightarrow> body i s = Inl e \<Longrightarrow> for_upto_e i n body s = Inl e"
  by (simp add: for_upto_e.simps [of i n])

subsection \<open>Element-wise updates\<close>

lemma length_pointwise_upd [simp]: "length (pointwise_upd f i xs) = length xs"
  by (simp add: pointwise_upd_def)

lemma nth_pointwise_upd [loop_simps]:
  "j < length xs \<Longrightarrow> pointwise_upd f i xs ! j = (if j = i then f i (xs ! i) else xs ! j)"
  by (simp add: pointwise_upd_def nth_list_update)

lemma length_fold_pointwise_upd [simp]: "length (fold (pointwise_upd f) is xs) = length xs"
  by (induction "is" arbitrary: xs) simp_all

text \<open>Updates at distinct indices touch disjoint elements: after any sequence of
  them, each element has been updated once if its index was visited, and is
  untouched otherwise. The order of the sequence plays no role.\<close>

lemma fold_pointwise_upd [loop_simps]:
  assumes "distinct is" "set is \<subseteq> {..<length xs}"
  shows "fold (pointwise_upd f) is xs =
           map (\<lambda>j. if j \<in> set is then f j (xs ! j) else xs ! j) [0..<length xs]"
  using assms
proof (induction "is" arbitrary: xs)
  case Nil
  then show ?case by (simp add: map_nth)
next
  case (Cons i "is")
  let ?xs' = "pointwise_upd f i xs"
  have "fold (pointwise_upd f) is ?xs' =
          map (\<lambda>j. if j \<in> set is then f j (?xs' ! j) else ?xs' ! j) [0..<length xs]"
    using Cons by simp
  moreover have "i \<notin> set is" using Cons.prems by auto
  ultimately show ?case
    by (auto simp: nth_pointwise_upd intro!: map_cong)
qed

lemma fold_pointwise_upd_all [loop_simps]:
  assumes "distinct is" "set is = {..<length xs}"
  shows "fold (pointwise_upd f) is xs = map (\<lambda>j. f j (xs ! j)) [0..<length xs]"
  using fold_pointwise_upd [of "is" xs f] assms by simp

text \<open>An update that does not depend on the index is a \<^const>\<open>map\<close>, in any order
  and in particular in the order of the C loop.\<close>

lemma fold_pointwise_upd_map [loop_simps]:
  assumes "distinct is" "set is = {..<length xs}"
  shows "fold (pointwise_upd (\<lambda>_. g)) is xs = map g xs"
proof -
  have "map (\<lambda>j. g (xs ! j)) [0..<length xs] = map g (map ((!) xs) [0..<length xs])" by simp
  then show ?thesis using fold_pointwise_upd_all [OF assms, of "\<lambda>_. g"] by (simp add: map_nth)
qed

lemma for_upto_pointwise_upd_map [loop_simps]:
  "length xs = n \<Longrightarrow> for_upto 0 n (pointwise_upd (\<lambda>_. g)) xs = map g xs"
  by (simp add: for_upto_fold fold_pointwise_upd_map atLeast0LessThan)

end
