(* ===== verification/Grid.thy ===== *)
theory Grid
  imports Prelude
begin

text \<open>
  The grid and buffer context of \<open>Fourier::rft_3d\<close>. Its fields live in the base
  class \<open>cft_base\<close>, which is not among the repository's sources: they are modelled
  from the specification (section 3) and from their use in \<open>rft_3d.cpp\<close>. The
  context splits into the immutable geometry (\<open>rft_ctx\<close>), the mutable buffers and
  direction flag (\<open>rft_state\<close>), and the two FFTW plans, which the model takes as
  an interface (\<open>fftw_plans\<close>) with the contract FFTW documents. The exact FFTW
  transforms on three small grids meet that contract and serve the concrete instances.
\<close>

section \<open>Geometry\<close>

text \<open>The members \<open>m_dim_x\<close> \dots \<open>m_shift_z\<close> of \<open>cft_base\<close> that \<open>rft_3d.cpp\<close> reads.
  Integer members are \<open>int64_t\<close> in the code; the model keeps them as \<^typ>\<open>int\<close> and
  bounds them by \<open>2^63\<close> in \<open>ctx_wf\<close>.\<close>

record rft_ctx =
  dim_x :: int
  dim_y :: int
  dim_z :: int
  red_dim :: int
  dim :: int
  dim_fs :: int
  dx :: real
  dy :: real
  dz :: real
  dkx :: real
  dky :: real
  dkz :: real
  shift_x :: int
  shift_y :: int
  shift_z :: int

text \<open>What \<open>cft_base\<close>'s construction guarantees: positive extents, the packed length
  \<open>Rz = Nz/2 + 1\<close> of the Hermitian half-spectrum, the two element counts, centering
  shifts that are not negative, and counts that fit an \<open>int64_t\<close>.\<close>

definition ctx_wf :: "rft_ctx \<Rightarrow> bool" where
  "ctx_wf c \<longleftrightarrow>
     0 < dim_x c \<and> 0 < dim_y c \<and> 0 < dim_z c \<and>
     red_dim c = dim_z c div 2 + 1 \<and>
     dim c = dim_x c * dim_y c * dim_z c \<and>
     dim_fs c = dim_x c * dim_y c * red_dim c \<and>
     0 \<le> shift_x c \<and> 0 \<le> shift_y c \<and> 0 \<le> shift_z c \<and>
     dim c < 2 ^ 63 \<and> dim_fs c < 2 ^ 63"

text \<open>Discrete Fourier reciprocity between the spacing and the frequency spacing,
  \<open>dk = 2\<pi> / (N d)\<close> on every axis.\<close>

definition ctx_reciprocal :: "rft_ctx \<Rightarrow> bool" where
  "ctx_reciprocal c \<longleftrightarrow>
     dx c * dkx c * of_int (dim_x c) = 2 * pi \<and>
     dy c * dky c * of_int (dim_y c) = 2 * pi \<and>
     dz c * dkz c * of_int (dim_z c) = 2 * pi"

text \<open>The context a header describes, as \<open>cft_base\<close> sets it up: shifts at the middle
  of each axis and frequency spacings reciprocal to the spacings.\<close>

definition mk_ctx :: "int \<Rightarrow> int \<Rightarrow> int \<Rightarrow> real \<Rightarrow> real \<Rightarrow> real \<Rightarrow> rft_ctx" where
  "mk_ctx nx ny nz hx hy hz =
     \<lparr>dim_x = nx, dim_y = ny, dim_z = nz, red_dim = nz div 2 + 1,
      dim = nx * ny * nz, dim_fs = nx * ny * (nz div 2 + 1),
      dx = hx, dy = hy, dz = hz,
      dkx = 2 * pi / (of_int nx * hx), dky = 2 * pi / (of_int ny * hy),
      dkz = 2 * pi / (of_int nz * hz),
      shift_x = nx div 2, shift_y = ny div 2, shift_z = nz div 2\<rparr>"

section \<open>Buffers and direction flag\<close>

text \<open>\<open>m_in_real\<close> (the real field, \<open>dim\<close> doubles), \<open>m_out\<close> (the packed spectrum,
  \<open>dim_fs\<close> complex values) and \<open>m_isign\<close>, the direction of the last transform.\<close>

record rft_state =
  in_real :: "real list"
  out :: "cplx list"
  isign :: int

definition state_wf :: "rft_ctx \<Rightarrow> rft_state \<Rightarrow> bool" where
  "state_wf c s \<longleftrightarrow> length (in_real s) = nat (dim c) \<and> length (out s) = nat (dim_fs c)"

section \<open>The FFTW plans\<close>

text \<open>\<open>m_forwardPlan\<close> (\<open>fftw_plan_dft_r2c_3d\<close>, \<open>m_in_real \<rightarrow> m_out\<close>) and
  \<open>m_backwardPlan\<close> (\<open>fftw_plan_dft_c2r_3d\<close>, \<open>m_out \<rightarrow> m_in_real\<close>). A c2r transform
  may overwrite its input array, so the backward plan returns the new real buffer and
  what is left in the complex one.\<close>

record fftw_plans =
  r2c :: "real list \<Rightarrow> cplx list"
  c2r :: "cplx list \<Rightarrow> real list \<times> cplx list"

text \<open>The plans write buffers of the sizes they were planned for.\<close>

definition plans_wf :: "rft_ctx \<Rightarrow> fftw_plans \<Rightarrow> bool" where
  "plans_wf c p \<longleftrightarrow>
     (\<forall>x. length (r2c p x) = nat (dim_fs c)) \<and>
     (\<forall>y. length (fst (c2r p y)) = nat (dim c) \<and> length (snd (c2r p y)) = nat (dim_fs c))"

text \<open>FFTW computes unnormalised transforms: a forward transform followed by a
  backward one multiplies the field by the number of grid points. Both transforms are
  linear. This is the contract the normalisation of \<open>rft_3d::ft\<close> relies on.\<close>

definition cscale :: "real \<Rightarrow> cplx \<Rightarrow> cplx" where
  "cscale a z = (a * re z, a * im z)"

definition cadd :: "cplx \<Rightarrow> cplx \<Rightarrow> cplx" where
  "cadd a b = (re a + re b, im a + im b)"

definition plans_fftw :: "rft_ctx \<Rightarrow> fftw_plans \<Rightarrow> bool" where
  "plans_fftw c p \<longleftrightarrow>
     (\<forall>x. length x = nat (dim c) \<longrightarrow>
          fst (c2r p (r2c p x)) = map (\<lambda>v. of_int (dim c) * v) x) \<and>
     (\<forall>a y. fst (c2r p (map (cscale a) y)) = map (\<lambda>v. a * v) (fst (c2r p y))) \<and>
     (\<forall>y z. length y = length z \<longrightarrow>
          fst (c2r p (map2 cadd y z)) = map2 (+) (fst (c2r p y)) (fst (c2r p z)))"

section \<open>FFTW on the smallest grids\<close>

text \<open>The transforms FFTW computes on a \<open>1 \<times> 1 \<times> 1\<close> grid (the identity) and on a
  \<open>1 \<times> 1 \<times> 2\<close> grid (sum and difference; the packed spectrum has \<open>Rz = 2\<close> bins, both
  real, and c2r reads only their real parts). They discharge the plan contract for the
  concrete instances below. Elements beyond a buffer's end read as \<open>0\<close>.\<close>

definition real_at :: "real list \<Rightarrow> nat \<Rightarrow> real" where
  "real_at x j = (if j < length x then x ! j else 0)"

definition re_at :: "cplx list \<Rightarrow> nat \<Rightarrow> real" where
  "re_at y j = (if j < length y then re (y ! j) else 0)"

definition fftw_111 :: fftw_plans where
  "fftw_111 = \<lparr>r2c = (\<lambda>x. [(real_at x 0, 0)]),
               c2r = (\<lambda>y. ([re_at y 0], [(re_at y 0, 0)]))\<rparr>"

definition fftw_112 :: fftw_plans where
  "fftw_112 = \<lparr>r2c = (\<lambda>x. [(real_at x 0 + real_at x 1, 0), (real_at x 0 - real_at x 1, 0)]),
               c2r = (\<lambda>y. ([re_at y 0 + re_at y 1, re_at y 0 - re_at y 1],
                             [(re_at y 0, 0), (re_at y 1, 0)]))\<rparr>"

text \<open>The transform FFTW computes on a \<open>2 \<times> 1 \<times> 2\<close> grid: every exponential is \<open>\<plusminus>1\<close>,
  so r2c is the Hadamard transform of the four samples (offset \<open>2 a + c\<close> for \<open>x\<close> index
  \<open>a\<close> and \<open>z\<close> index \<open>c\<close>), and c2r, a complex DFT along \<open>x\<close> followed by a length-2
  c2r along \<open>z\<close> that reads the real parts of its two bins, is the Hadamard transform
  of the real parts. Here the \<open>x\<close> index 1 has the non-zero frequency \<open>-dkx\<close>.\<close>

definition hadamard4 :: "real \<Rightarrow> real \<Rightarrow> real \<Rightarrow> real \<Rightarrow> real list" where
  "hadamard4 a b c d = [a + b + c + d, a - b + c - d, a + b - c - d, a - b - c + d]"

definition fftw_212 :: fftw_plans where
  "fftw_212 = \<lparr>r2c = (\<lambda>x. map (\<lambda>v. (v, 0)) (hadamard4 (real_at x 0) (real_at x 1) (real_at x 2) (real_at x 3))),
               c2r = (\<lambda>y. (hadamard4 (re_at y 0) (re_at y 1) (re_at y 2) (re_at y 3),
                             map (\<lambda>j. (re_at y j, 0)) [0..<4]))\<rparr>"

section \<open>Lemmas\<close>

text \<open>The facts of \<open>ctx_wf\<close> the component proofs use.\<close>

lemma ctx_wf_pos:
  assumes "ctx_wf c"
  shows "0 < dim_x c" "0 < dim_y c" "0 < dim_z c" "0 < red_dim c" "0 \<le> shift_x c"
    "0 \<le> shift_y c" "0 \<le> shift_z c" "dim_fs c = dim_x c * dim_y c * red_dim c"
    "dim c = dim_x c * dim_y c * dim_z c" "0 < dim c" "0 < dim_fs c"
  using assms by (simp_all add: ctx_wf_def)

lemma ctx_wf_bounds:
  assumes "ctx_wf c"
  shows "dim c < 2 ^ 63" "dim_fs c < 2 ^ 63"
  using assms unfolding ctx_wf_def by blast+

text \<open>The constructor establishes both invariants.\<close>

lemma mk_ctx_wf:
  assumes "0 < nx" "0 < ny" "0 < nz" "nx * ny * nz < 2 ^ 63"
  shows "ctx_wf (mk_ctx nx ny nz hx hy hz)"
proof -
  have h: "nz div 2 + 1 \<le> nz" using assms(3) by linarith
  have "nx * ny * (nz div 2 + 1) \<le> nx * ny * nz"
    using assms(1,2) h by (intro mult_left_mono) simp_all
  then have "nx * ny * (nz div 2 + 1) < 2 ^ 63" using assms(4) by linarith
  then show ?thesis using assms by (simp add: ctx_wf_def mk_ctx_def)
qed

lemma mk_ctx_reciprocal:
  "0 < nx \<Longrightarrow> 0 < ny \<Longrightarrow> 0 < nz \<Longrightarrow> hx \<noteq> 0 \<Longrightarrow> hy \<noteq> 0 \<Longrightarrow> hz \<noteq> 0 \<Longrightarrow>
   ctx_reciprocal (mk_ctx nx ny nz hx hy hz)"
  by (simp add: ctx_reciprocal_def mk_ctx_def)

lemma red_dim_ge2: "ctx_wf c \<Longrightarrow> 2 \<le> dim_z c \<Longrightarrow> 2 \<le> red_dim c"
  by (simp add: ctx_wf_def)

subsection \<open>The smallest grids\<close>

lemma re_at_cscale [simp]: "re_at (map (cscale a) y) j = a * re_at y j"
  by (simp add: re_at_def cscale_def)

lemma re_at_cadd [simp]: "length y = length z \<Longrightarrow> re_at (map2 cadd y z) j = re_at y j + re_at z j"
  by (simp add: re_at_def cadd_def)

lemma fftw_111_ok: "plans_wf (mk_ctx 1 1 1 h h' h'') fftw_111 \<and> plans_fftw (mk_ctx 1 1 1 h h' h'') fftw_111"
proof -
  have "fst (c2r fftw_111 (r2c fftw_111 x)) = map (\<lambda>v. 1 * v) x" if "length x = 1" for x
    using that by (auto simp: fftw_111_def re_at_def real_at_def length_Suc_conv)
  then show ?thesis
    by (simp add: plans_wf_def plans_fftw_def mk_ctx_def) (simp add: fftw_111_def)
qed

lemma fftw_112_ok: "plans_wf (mk_ctx 1 1 2 h h' h'') fftw_112 \<and> plans_fftw (mk_ctx 1 1 2 h h' h'') fftw_112"
proof -
  have "fst (c2r fftw_112 (r2c fftw_112 x)) = map (\<lambda>v. 2 * v) x" if "length x = 2" for x
    using that by (auto simp: fftw_112_def re_at_def real_at_def length_Suc_conv numeral_2_eq_2)
  then show ?thesis
    by (simp add: plans_wf_def plans_fftw_def mk_ctx_def) (simp add: fftw_112_def algebra_simps)
qed

lemma fftw_212_ok: "plans_wf (mk_ctx 2 1 2 h h' h'') fftw_212 \<and> plans_fftw (mk_ctx 2 1 2 h h' h'') fftw_212"
proof -
  have "fst (c2r fftw_212 (r2c fftw_212 x)) = map (\<lambda>v. 4 * v) x" if l: "length x = 4" for x
  proof -
    obtain a b c d where "x = [a, b, c, d]"
      using l by (auto simp: length_Suc_conv numeral_eq_Suc)
    then show ?thesis by (simp add: fftw_212_def hadamard4_def re_at_def real_at_def)
  qed
  then show ?thesis
    by (simp add: plans_wf_def plans_fftw_def mk_ctx_def) (simp add: fftw_212_def hadamard4_def algebra_simps)
qed

end
