(* ===== verification/Index_Map.thy ===== *)
theory Index_Map
  imports Grid
begin

text \<open>
  The index/coordinate mapper of \<open>rft_3d.cpp\<close>: \<open>rft_3d::Get_k\<close> turns an offset into
  the packed spectrum \<open>m_out\<close> into the frequency triple of its bin, \<open>rft_3d::Get_x\<close>
  an offset into the real buffer \<open>m_in_real\<close> into the coordinate triple of its grid
  point. Both first split the offset into a row-major index triple (\<open>z\<close> fastest) with
  C's truncating \<open>/\<close>; \<open>Get_k\<close> then folds the \<open>x\<close> and \<open>y\<close> indices into a range
  centred on zero and reduces the \<open>z\<close> index modulo \<open>Rz - 1\<close> with C's \<open>%\<close>. Every
  division may trap on a zero divisor, so both return \<^typ>\<open>c_fault + point3\<close>.

  The reference definitions \<open>split3\<close> (the row-major split by HOL's \<open>div\<close>/\<open>mod\<close>) and
  \<open>fold_centered\<close> state what the code computes; the lemmas show that the code agrees
  with them on a well-formed context, that the split is a bijection onto the index box
  (both round trips), that no intermediate leaves \<open>[0, dim_fs)\<close> (so none overflows
  \<open>int64_t\<close>), that the fold is a bijection onto \<open>[-s, N - s)\<close> congruent to the index,
  and exactly which offsets \<open>Get_k\<close> sends to the same frequency.
\<close>

section \<open>Reference definitions\<close>

text \<open>Row-major split of an offset into \<open>(i, j, k)\<close> with \<open>0 \<le> j < b\<close>, \<open>0 \<le> k < c\<close>.\<close>

definition split3 :: "int \<Rightarrow> int \<Rightarrow> int \<Rightarrow> int \<times> int \<times> int" where
  "split3 b c l = (l div (b * c), l mod (b * c) div c, l mod c)"

text \<open>Folding an unsigned index into the signed range \<open>[-s, n - s)\<close>.\<close>

definition fold_centered :: "int \<Rightarrow> int \<Rightarrow> int \<Rightarrow> int" where
  "fold_centered n s i = (i + s) mod n - s"

text \<open>The frequency of the bin with index triple \<open>(i, j, k)\<close>, as the code computes it
  when no division traps.\<close>

definition freq_of :: "rft_ctx \<Rightarrow> int \<times> int \<times> int \<Rightarrow> point3" where
  "freq_of c ijk = (case ijk of (i, j, k) \<Rightarrow>
     (dkx c * of_int (fold_centered (dim_x c) (shift_x c) i),
      dky c * of_int (fold_centered (dim_y c) (shift_y c) j),
      dkz c * of_int (k mod (red_dim c - 1))))"

section \<open>The code\<close>

text \<open>Lines 75--77 of \<open>Get_k\<close>: \<open>i = l / m_dim_y / m_red_dim\<close>,
  \<open>j = (l - i*m_dim_y*m_red_dim) / m_red_dim\<close>, \<open>k = l - i*m_dim_y*m_red_dim - j*m_red_dim\<close>.\<close>

definition k_index :: "rft_ctx \<Rightarrow> int \<Rightarrow> c_fault + int \<times> int \<times> int" where
  "k_index c l =
     bind_e (c_div_chk l (dim_y c)) (\<lambda>q.
     bind_e (c_div_chk q (red_dim c)) (\<lambda>i.
     bind_e (c_div_chk (l - i * dim_y c * red_dim c) (red_dim c)) (\<lambda>j.
     Inr (i, j, l - i * dim_y c * red_dim c - j * red_dim c))))"

text \<open>\<open>rft_3d::Get_k\<close>: \<open>kx = m_dkx*((i+m_shift_x)%m_dim_x - m_shift_x)\<close>, the same for
  \<open>y\<close>, and \<open>kz = m_dkz*(k%(m_red_dim-1))\<close>.\<close>

definition Get_k :: "rft_ctx \<Rightarrow> int \<Rightarrow> c_fault + point3" where
  "Get_k c l =
     bind_e (k_index c l) (\<lambda>(i, j, k).
     bind_e (c_mod_chk (i + shift_x c) (dim_x c)) (\<lambda>a.
     bind_e (c_mod_chk (j + shift_y c) (dim_y c)) (\<lambda>b.
     bind_e (c_mod_chk k (red_dim c - 1)) (\<lambda>e.
     Inr (dkx c * of_int (a - shift_x c), dky c * of_int (b - shift_y c), dkz c * of_int e)))))"



section \<open>Arithmetic of the row-major layout\<close>

lemma zdiv_less_of_less_mult:
  fixes l m a :: int
  assumes "0 < m" "l < a * m"
  shows "l div m < a"
proof (rule ccontr)
  assume "\<not> l div m < a"
  then have "a * m \<le> l div m * m" using assms(1) by (simp add: mult_right_mono)
  also have "\<dots> \<le> l" using div_mult_mod_eq [of l m] pos_mod_sign [of m l] assms(1) by linarith
  finally show False using assms(2) by simp
qed

text \<open>The three steps of the code's split, each as the reference computes it.\<close>

lemma split_steps:
  fixes l b c :: int
  assumes "0 \<le> l" "0 < b" "0 < c"
  shows "l div b div c = l div (b * c)"
    and "l - l div (b * c) * b * c = l mod (b * c)"
    and "l mod (b * c) - l mod (b * c) div c * c = l mod c"
proof -
  show "l div b div c = l div (b * c)" using assms by (simp add: zdiv_zmult2_eq)
  show "l - l div (b * c) * b * c = l mod (b * c)"
    by (simp add: minus_div_mult_eq_mod [symmetric] mult.assoc mult.commute)
  have "l mod (b * c) mod c = l mod c" by (simp add: mod_mod_cancel)
  then show "l mod (b * c) - l mod (b * c) div c * c = l mod c"
    by (simp add: minus_div_mult_eq_mod [symmetric])
qed

lemma split3_compose:
  fixes i j k b c :: int
  assumes "0 \<le> j" "j < b" "0 \<le> k" "k < c"
  shows "split3 b c ((i * b + j) * c + k) = (i, j, k)"
proof -
  have c0: "0 < c" using assms by simp
  have jc: "j * c + k < b * c"
  proof -
    have "j * c + k < (j + 1) * c" using assms by (simp add: distrib_right)
    also have "\<dots> \<le> b * c" using assms c0 by (intro mult_right_mono) simp_all
    finally show ?thesis .
  qed
  have l: "(i * b + j) * c + k = i * (b * c) + (j * c + k)" by (simp add: algebra_simps)
  have "((i * b + j) * c + k) div (b * c) = i" and "((i * b + j) * c + k) mod (b * c) = j * c + k"
    using jc assms c0 by (simp_all only: l) simp_all
  moreover have "((i * b + j) * c + k) mod c = k" using assms by simp
  moreover have "(j * c + k) div c = j" using assms by simp
  ultimately show ?thesis by (simp add: split3_def)
qed

lemma split3_range:
  fixes a b c l :: int
  assumes "0 \<le> l" "l < a * b * c" "0 < b" "0 < c"
  shows "case split3 b c l of (i, j, k) \<Rightarrow>
           0 \<le> i \<and> i < a \<and> 0 \<le> j \<and> j < b \<and> 0 \<le> k \<and> k < c \<and> (i * b + j) * c + k = l"
proof -
  have bc: "0 < b * c" using assms by simp
  have "l div (b * c) < a" using assms bc by (intro zdiv_less_of_less_mult) (simp_all add: mult.assoc)
  moreover have "l mod (b * c) div c < b"
    using assms bc by (intro zdiv_less_of_less_mult) simp_all
  moreover have "(l div (b * c) * b + l mod (b * c) div c) * c + l mod c = l"
  proof -
    have "l mod (b * c) div c * c + l mod c = l mod (b * c)"
      using div_mult_mod_eq [of "l mod (b * c)" c] by (simp add: mod_mod_cancel)
    then have "(l div (b * c) * b + l mod (b * c) div c) * c + l mod c
                 = l div (b * c) * (b * c) + l mod (b * c)"
      by (simp add: algebra_simps)
    then show ?thesis using div_mult_mod_eq [of l "b * c"] by simp
  qed
  ultimately show ?thesis using assms bc by (simp add: split3_def pos_imp_zdiv_nonneg_iff)
qed

lemma k_index_eq:
  "0 < dim_y c \<Longrightarrow> 0 < red_dim c \<Longrightarrow> 0 \<le> l \<Longrightarrow>
   k_index c l = Inr (split3 (dim_y c) (red_dim c) l)"
  by (simp add: k_index_def split3_def split_steps cint_simps pos_imp_zdiv_nonneg_iff)

section \<open>The frequency map\<close>

lemma Get_k_eq:
  assumes "ctx_wf c" "2 \<le> dim_z c" "0 \<le> l"
  shows "Get_k c l = Inr (freq_of c (split3 (dim_y c) (red_dim c) l))"
proof -
  note pos = ctx_wf_pos [OF assms(1)]
  have r: "0 < red_dim c - 1" using red_dim_ge2 [OF assms(1,2)] by simp
  have "0 \<le> l div (dim_y c * red_dim c)" "0 \<le> l mod (dim_y c * red_dim c) div red_dim c"
    "0 \<le> l mod red_dim c"
    using pos assms(3) by (simp_all add: pos_imp_zdiv_nonneg_iff)
  then show ?thesis using pos r assms(3)
    by (simp add: Get_k_def k_index_eq split3_def freq_of_def fold_centered_def cint_simps)
qed

lemma Get_k_fault:
  assumes "ctx_wf c" "dim_z c = 1" "0 \<le> l"
  shows "Get_k c l = Inl Div_by_zero"
proof -
  note pos = ctx_wf_pos [OF assms(1)]
  have "red_dim c - 1 = 0" using assms(1,2) by (simp add: ctx_wf_def)
  moreover have "0 \<le> l div (dim_y c * red_dim c)" "0 \<le> l mod (dim_y c * red_dim c) div red_dim c"
    using pos assms(3) by (simp_all add: pos_imp_zdiv_nonneg_iff)
  ultimately show ?thesis using pos assms(3)
    by (simp add: Get_k_def k_index_eq split3_def cint_simps)
qed


lemma fold_centered_range:
  "0 < n \<Longrightarrow> - s \<le> fold_centered n s i \<and> fold_centered n s i < n - s"
  by (simp add: fold_centered_def)

lemma fold_centered_cong: "fold_centered n s i mod n = i mod n"
  by (simp add: fold_centered_def mod_diff_left_eq)

lemma fold_centered_inj_iff:
  assumes "0 \<le> i" "i < n" "0 \<le> i'" "i' < n"
  shows "fold_centered n s i = fold_centered n s i' \<longleftrightarrow> i = i'"
proof
  assume "fold_centered n s i = fold_centered n s i'"
  then have "fold_centered n s i mod n = fold_centered n s i' mod n" by simp
  then show "i = i'" using assms by (simp add: fold_centered_cong)
qed simp


lemma mod_pred_eq_iff:
  fixes k k' r :: int
  assumes "0 \<le> k" "k < r" "0 \<le> k'" "k' < r" "2 \<le> r"
  shows "k mod (r - 1) = k' mod (r - 1) \<longleftrightarrow> k = k' \<or> {k, k'} = {0, r - 1}"
proof -
  have m: "x mod (r - 1) = (if x = r - 1 then 0 else x)" if "0 \<le> x" "x < r" for x
    using that assms(5) by auto
  show ?thesis using m [OF assms(1,2)] m [OF assms(3,4)] assms by (auto simp: doubleton_eq_iff)
qed





section \<open>Properties\<close>

text \<open>C5: two offsets of the packed spectrum get the same frequency from \<open>Get_k\<close>
  exactly when they share the \<open>x\<close> and \<open>y\<close> indices and their \<open>z\<close> indices are equal
  or are the lowest and the highest packed bin, \<open>0\<close> and \<open>Rz - 1\<close>. For odd \<open>Nz\<close> the
  highest bin is not a Nyquist bin, yet it gets the frequency \<open>0\<close>.\<close>

theorem Get_k_eq_iff:
  assumes "ctx_wf c" "2 \<le> dim_z c" "dkx c \<noteq> 0" "dky c \<noteq> 0" "dkz c \<noteq> 0"
    and "0 \<le> l" "l < dim_fs c" "0 \<le> l'" "l' < dim_fs c"
  shows "Get_k c l = Get_k c l' \<longleftrightarrow>
           (case (split3 (dim_y c) (red_dim c) l, split3 (dim_y c) (red_dim c) l') of
              ((i, j, k), (i', j', k')) \<Rightarrow>
                i = i' \<and> j = j' \<and> (k = k' \<or> {k, k'} = {0, red_dim c - 1}))"
proof -
  note pos = ctx_wf_pos [OF assms(1)]
  have R: "2 \<le> red_dim c" using red_dim_ge2 [OF assms(1,2)] .
  obtain i j k where s: "split3 (dim_y c) (red_dim c) l = (i, j, k)"
    by (cases "split3 (dim_y c) (red_dim c) l") auto
  obtain i' j' k' where s': "split3 (dim_y c) (red_dim c) l' = (i', j', k')"
    by (cases "split3 (dim_y c) (red_dim c) l'") auto
  have r: "0 \<le> i" "i < dim_x c" "0 \<le> j" "j < dim_y c" "0 \<le> k" "k < red_dim c"
    using split3_range [of l "dim_x c" "dim_y c" "red_dim c"] assms(6,7) pos s by simp_all
  have r': "0 \<le> i'" "i' < dim_x c" "0 \<le> j'" "j' < dim_y c" "0 \<le> k'" "k' < red_dim c"
    using split3_range [of l' "dim_x c" "dim_y c" "red_dim c"] assms(8,9) pos s' by simp_all
  have "Get_k c l = Get_k c l' \<longleftrightarrow>
          fold_centered (dim_x c) (shift_x c) i = fold_centered (dim_x c) (shift_x c) i' \<and>
          fold_centered (dim_y c) (shift_y c) j = fold_centered (dim_y c) (shift_y c) j' \<and>
          k mod (red_dim c - 1) = k' mod (red_dim c - 1)"
    using assms(3-5) by (simp add: Get_k_eq [OF assms(1,2,6)] Get_k_eq [OF assms(1,2,8)] s s' freq_of_def)
  also have "\<dots> \<longleftrightarrow> i = i' \<and> j = j' \<and> (k = k' \<or> {k, k'} = {0, red_dim c - 1})"
    using r r' R by (simp add: fold_centered_inj_iff mod_pred_eq_iff)
  finally show ?thesis by (simp add: s s')
qed

theorem Get_k_eq_iff_witness:
  "ctx_wf (mk_ctx 2 2 5 1 1 1) \<and> Get_k (mk_ctx 2 2 5 1 1 1) 0 = Get_k (mk_ctx 2 2 5 1 1 1) 2"
proof -
  let ?c = "mk_ctx 2 2 5 1 1 1"
  have wf: "ctx_wf ?c" by (rule mk_ctx_wf) simp_all
  have "Get_k ?c 0 = Get_k ?c 2 \<longleftrightarrow>
          (case (split3 (dim_y ?c) (red_dim ?c) 0, split3 (dim_y ?c) (red_dim ?c) 2) of
              ((i, j, k), (i', j', k')) \<Rightarrow>
                i = i' \<and> j = j' \<and> (k = k' \<or> {k, k'} = {0, red_dim ?c - 1}))"
    by (rule Get_k_eq_iff [OF wf]) (simp_all add: mk_ctx_def)
  then show ?thesis using wf by (simp add: mk_ctx_def split3_def)
qed

text \<open>C8: on a grid with \<open>Nz \<ge> 2\<close>, \<open>Get_k\<close> never traps; the \<open>x\<close> and \<open>y\<close> frequencies
  are \<open>dk\<close> times an integer in \<open>[-shift, N - shift)\<close> congruent to the bin's index
  modulo \<open>N\<close>, and the \<open>z\<close> frequency is \<open>dkz\<close> times the \<open>z\<close> index reduced modulo
  \<open>Rz - 1\<close>.\<close>

theorem Get_k_centered:
  assumes "ctx_wf c" "2 \<le> dim_z c" "0 \<le> l"
  shows "case split3 (dim_y c) (red_dim c) l of (i, j, k) \<Rightarrow>
           \<exists>a b. Get_k c l = Inr (dkx c * of_int a, dky c * of_int b,
                                  dkz c * of_int (k mod (red_dim c - 1))) \<and>
             - shift_x c \<le> a \<and> a < dim_x c - shift_x c \<and> a mod dim_x c = i mod dim_x c \<and>
             - shift_y c \<le> b \<and> b < dim_y c - shift_y c \<and> b mod dim_y c = j mod dim_y c"
proof -
  note pos = ctx_wf_pos [OF assms(1)]
  obtain i j k where s: "split3 (dim_y c) (red_dim c) l = (i, j, k)"
    by (cases "split3 (dim_y c) (red_dim c) l") auto
  define a where "a = fold_centered (dim_x c) (shift_x c) i"
  define b where "b = fold_centered (dim_y c) (shift_y c) j"
  have "Get_k c l = Inr (dkx c * of_int a, dky c * of_int b, dkz c * of_int (k mod (red_dim c - 1)))"
    by (simp add: Get_k_eq [OF assms] s freq_of_def a_def b_def)
  moreover have "- shift_x c \<le> a \<and> a < dim_x c - shift_x c" "a mod dim_x c = i mod dim_x c"
    using pos by (simp_all only: a_def fold_centered_range fold_centered_cong)
  moreover have "- shift_y c \<le> b \<and> b < dim_y c - shift_y c" "b mod dim_y c = j mod dim_y c"
    using pos by (simp_all only: b_def fold_centered_range fold_centered_cong)
  ultimately show ?thesis unfolding s prod.case by blast
qed

theorem Get_k_centered_witness:
  "ctx_wf (mk_ctx 4 4 4 1 1 1) \<and> (\<exists>a b. Get_k (mk_ctx 4 4 4 1 1 1) 47 =
     Inr (dkx (mk_ctx 4 4 4 1 1 1) * of_int a, dky (mk_ctx 4 4 4 1 1 1) * of_int b,
          dkz (mk_ctx 4 4 4 1 1 1) * of_int 0) \<and> -2 \<le> a \<and> a < 2 \<and> -2 \<le> b \<and> b < 2)"
proof -
  let ?c = "mk_ctx 4 4 4 1 1 1"
  have wf: "ctx_wf ?c" by (rule mk_ctx_wf) simp_all
  have s: "split3 (dim_y ?c) (red_dim ?c) 47 = (3, 3, 2)" by (simp add: mk_ctx_def split3_def)
  have "case split3 (dim_y ?c) (red_dim ?c) 47 of (i, j, k) \<Rightarrow>
           \<exists>a b. Get_k ?c 47 = Inr (dkx ?c * of_int a, dky ?c * of_int b,
                                  dkz ?c * of_int (k mod (red_dim ?c - 1))) \<and>
             - shift_x ?c \<le> a \<and> a < dim_x ?c - shift_x ?c \<and> a mod dim_x ?c = i mod dim_x ?c \<and>
             - shift_y ?c \<le> b \<and> b < dim_y ?c - shift_y ?c \<and> b mod dim_y ?c = j mod dim_y ?c"
    by (rule Get_k_centered [OF wf]) (simp_all add: mk_ctx_def)
  then obtain a b where "Get_k ?c 47 = Inr (dkx ?c * of_int a, dky ?c * of_int b, dkz ?c * of_int 0)"
      "-2 \<le> a" "a < 2" "-2 \<le> b" "b < 2"
    unfolding s prod.case by (auto simp: mk_ctx_def)
  then show ?thesis using wf by blast
qed

text \<open>C9: the split of \<open>Get_k\<close> inverts the row-major layout: the offset of an index
  triple in the packed box splits back into that triple.\<close>

theorem k_index_roundtrip:
  assumes "ctx_wf c" "0 \<le> i" "0 \<le> j" "j < dim_y c" "0 \<le> k" "k < red_dim c"
  shows "k_index c ((i * dim_y c + j) * red_dim c + k) = Inr (i, j, k)"
proof -
  note pos = ctx_wf_pos [OF assms(1)]
  have "0 \<le> (i * dim_y c + j) * red_dim c + k" using assms pos by simp
  then show ?thesis using assms pos by (simp add: k_index_eq split3_compose)
qed

theorem k_index_roundtrip_witness:
  "ctx_wf (mk_ctx 4 4 4 1 1 1) \<and> k_index (mk_ctx 4 4 4 1 1 1) 47 = Inr (3, 3, 2)"
proof -
  have wf: "ctx_wf (mk_ctx 4 4 4 1 1 1)" by (rule mk_ctx_wf) simp_all
  have "k_index (mk_ctx 4 4 4 1 1 1) ((3 * dim_y (mk_ctx 4 4 4 1 1 1) + 3) * red_dim (mk_ctx 4 4 4 1 1 1) + 2)
          = Inr (3, 3, 2)"
    by (rule k_index_roundtrip [OF wf]) (simp_all add: mk_ctx_def)
  then show ?thesis using wf by (simp add: mk_ctx_def)
qed

text \<open>C10: every offset of the packed spectrum splits without trapping into an index
  triple inside the box \<open>Nx \<times> Ny \<times> Rz\<close> whose row-major offset it is.\<close>

theorem k_index_onto:
  assumes "ctx_wf c" "0 \<le> l" "l < dim_fs c"
  shows "\<exists>i j k. k_index c l = Inr (i, j, k) \<and> 0 \<le> i \<and> i < dim_x c \<and> 0 \<le> j \<and> j < dim_y c \<and>
           0 \<le> k \<and> k < red_dim c \<and> (i * dim_y c + j) * red_dim c + k = l"
proof -
  note pos = ctx_wf_pos [OF assms(1)]
  obtain i j k where s: "split3 (dim_y c) (red_dim c) l = (i, j, k)"
    by (cases "split3 (dim_y c) (red_dim c) l") auto
  have "case split3 (dim_y c) (red_dim c) l of (i, j, k) \<Rightarrow>
          0 \<le> i \<and> i < dim_x c \<and> 0 \<le> j \<and> j < dim_y c \<and> 0 \<le> k \<and> k < red_dim c \<and>
          (i * dim_y c + j) * red_dim c + k = l"
    using assms pos by (intro split3_range) simp_all
  then show ?thesis using s pos assms(2) by (simp add: k_index_eq)
qed

theorem k_index_onto_witness:
  "ctx_wf (mk_ctx 4 4 4 1 1 1) \<and> (\<exists>i j k. k_index (mk_ctx 4 4 4 1 1 1) 47 = Inr (i, j, k) \<and>
     0 \<le> i \<and> i < 4 \<and> 0 \<le> j \<and> j < 4 \<and> 0 \<le> k \<and> k < 3)"
proof -
  have wf: "ctx_wf (mk_ctx 4 4 4 1 1 1)" by (rule mk_ctx_wf) simp_all
  have "\<exists>i j k. k_index (mk_ctx 4 4 4 1 1 1) 47 = Inr (i, j, k) \<and> 0 \<le> i \<and>
          i < dim_x (mk_ctx 4 4 4 1 1 1) \<and> 0 \<le> j \<and> j < dim_y (mk_ctx 4 4 4 1 1 1) \<and>
          0 \<le> k \<and> k < red_dim (mk_ctx 4 4 4 1 1 1) \<and>
          (i * dim_y (mk_ctx 4 4 4 1 1 1) + j) * red_dim (mk_ctx 4 4 4 1 1 1) + k = 47"
    by (rule k_index_onto [OF wf]) (simp_all add: mk_ctx_def)
  then show ?thesis using wf by (auto simp: mk_ctx_def)
qed

text \<open>C11: for an offset of the packed spectrum every intermediate of the split
  (\<open>i*m_dim_y*m_red_dim\<close>, \<open>j*m_red_dim\<close> and the differences) lies in \<open>[0, l]\<close>, and
  \<open>l < 2^63\<close>: none of the \<open>int64_t\<close> computations of \<open>Get_k\<close> overflows.\<close>

theorem k_index_no_overflow:
  assumes "ctx_wf c" "0 \<le> l" "l < dim_fs c" "k_index c l = Inr (i, j, k)"
  shows "0 \<le> i * dim_y c * red_dim c \<and> i * dim_y c * red_dim c \<le> l \<and>
         0 \<le> j * red_dim c \<and> j * red_dim c \<le> l - i * dim_y c * red_dim c \<and>
         0 \<le> k \<and> l < 2 ^ 63"
proof -
  note pos = ctx_wf_pos [OF assms(1)]
  have s: "split3 (dim_y c) (red_dim c) l = (i, j, k)"
    using assms(4) k_index_eq [of c l] pos assms(2) by simp
  have r: "0 \<le> i" "0 \<le> j" "0 \<le> k" "(i * dim_y c + j) * red_dim c + k = l"
    using split3_range [of l "dim_x c" "dim_y c" "red_dim c"] assms(2,3) pos s by simp_all
  define A where "A = i * dim_y c * red_dim c"
  define B where "B = j * red_dim c"
  have "0 \<le> A" "0 \<le> B" using r pos by (simp_all add: A_def B_def)
  moreover have "A + B + k = l" using r(4) by (simp add: A_def B_def algebra_simps)
  moreover have "dim_fs c < 2 ^ 63" using ctx_wf_bounds [OF assms(1)] by simp
  ultimately show ?thesis using r(3) assms(3) unfolding A_def [symmetric] B_def [symmetric] by linarith
qed

theorem k_index_no_overflow_witness:
  "ctx_wf (mk_ctx 4 4 4 1 1 1) \<and> k_index (mk_ctx 4 4 4 1 1 1) 47 = Inr (3, 3, 2) \<and>
   0 \<le> (3::int) * 4 * 3 \<and> (3::int) * 4 * 3 \<le> 47"
proof -
  have wf: "ctx_wf (mk_ctx 4 4 4 1 1 1)" by (rule mk_ctx_wf) simp_all
  have k: "k_index (mk_ctx 4 4 4 1 1 1) 47 = Inr (3, 3, 2)"
    by (simp add: k_index_def mk_ctx_def cint_simps)
  have "0 \<le> 3 * dim_y (mk_ctx 4 4 4 1 1 1) * red_dim (mk_ctx 4 4 4 1 1 1) \<and>
        3 * dim_y (mk_ctx 4 4 4 1 1 1) * red_dim (mk_ctx 4 4 4 1 1 1) \<le> 47"
    using k_index_no_overflow [OF wf _ _ k] by (simp add: mk_ctx_def)
  then show ?thesis using wf k by (simp add: mk_ctx_def)
qed



end
