(* ===== verification/Transform.thy ===== *)
theory Transform
  imports Grid
begin

text \<open>
  Transform and normalisation, \<open>rft_3d::ft\<close> and \<open>rft_3d::scale\<close>. \<open>ft\<close> records the
  requested direction in \<open>m_isign\<close>, ignores any direction other than \<open>\<plusminus>1\<close>, runs the
  forward (\<open>-1\<close>) or backward (\<open>+1\<close>) FFTW plan and rescales the buffer the plan wrote;
  \<open>scale\<close> picks that buffer from \<open>m_isign\<close>. The lemmas give each branch's effect on the
  state, show that the scaling loops compute an element-wise product whatever order
  their OpenMP iterations run in, that well-formed buffers stay well-formed, and that
  with FFTW's unnormalised transforms and reciprocal spacings a forward transform
  followed by a backward one restores the real field exactly. The constructor is the
  pair of plans FFTW's planner makes for the extents in the order \<open>x, y, z\<close>; they fit
  the buffers of \<open>cft_base\<close>.
\<close>

section \<open>Scaling\<close>

text \<open>The loop bodies of \<open>scale\<close>: \<open>m_in_real[l] *= faktor\<close> and
  \<open>m_out[l][0] *= faktor; m_out[l][1] *= faktor\<close>.\<close>

definition scale_real_body :: "real \<Rightarrow> nat \<Rightarrow> real list \<Rightarrow> real list" where
  "scale_real_body faktor = pointwise_upd (\<lambda>_ v. v * faktor)"

definition scale_cplx_body :: "real \<Rightarrow> nat \<Rightarrow> cplx list \<Rightarrow> cplx list" where
  "scale_cplx_body faktor = pointwise_upd (\<lambda>_ z. (re z * faktor, im z * faktor))"

text \<open>\<open>rft_3d::scale\<close>: the real buffer after a backward transform (\<open>m_isign == 1\<close>),
  the packed spectrum otherwise.\<close>

definition scale :: "rft_ctx \<Rightarrow> real \<Rightarrow> rft_state \<Rightarrow> rft_state" where
  "scale c faktor s =
     (if isign s = 1
      then s\<lparr>in_real := for_upto 0 (nat (dim c)) (scale_real_body faktor) (in_real s)\<rparr>
      else s\<lparr>out := for_upto 0 (nat (dim_fs c)) (scale_cplx_body faktor) (out s)\<rparr>)"

section \<open>The transform\<close>

text \<open>\<open>rft_3d::ft\<close>. The forward factor is \<open>dx dy dz / (2\<pi>)^1.5\<close>, the backward one
  \<open>dkx dky dkz / (2\<pi>)^1.5\<close>.\<close>

definition ft :: "fftw_plans \<Rightarrow> rft_ctx \<Rightarrow> int \<Rightarrow> rft_state \<Rightarrow> rft_state" where
  "ft p c sg s =
     (let s = s\<lparr>isign := sg\<rparr> in
      if \<bar>sg\<bar> \<noteq> 1 then s
      else if sg = -1
      then scale c (dx c * dy c * dz c / (2 * pi) powr 1.5) (s\<lparr>out := r2c p (in_real s)\<rparr>)
      else scale c (dkx c * dky c * dkz c / (2 * pi) powr 1.5)
             (case c2r p (out s) of (r, z) \<Rightarrow> s\<lparr>in_real := r, out := z\<rparr>))"

section \<open>The constructor\<close>

text \<open>FFTW's planner, \<open>fftw_plan_dft_r2c_3d(n0, n1, n2, ...)\<close> and
  \<open>fftw_plan_dft_c2r_3d(n0, n1, n2, ...)\<close>, as an interface: the transforms of the plans
  it makes for the extents \<open>n0 \<times> n1 \<times> n2\<close>, the last one packed.\<close>

record fftw_planner =
  plan_r2c_3d :: "int \<Rightarrow> int \<Rightarrow> int \<Rightarrow> real list \<Rightarrow> cplx list"
  plan_c2r_3d :: "int \<Rightarrow> int \<Rightarrow> int \<Rightarrow> cplx list \<Rightarrow> real list \<times> cplx list"

text \<open>FFTW's documented sizes: the packed spectrum has \<open>n0 n1 (n2/2 + 1)\<close> elements, the
  real field \<open>n0 n1 n2\<close>.\<close>

definition planner_wf :: "fftw_planner \<Rightarrow> bool" where
  "planner_wf pl \<longleftrightarrow>
     (\<forall>n0 n1 n2 x. length (plan_r2c_3d pl n0 n1 n2 x) = nat (n0 * n1 * (n2 div 2 + 1))) \<and>
     (\<forall>n0 n1 n2 y. length (fst (plan_c2r_3d pl n0 n1 n2 y)) = nat (n0 * n1 * n2) \<and>
                   length (snd (plan_c2r_3d pl n0 n1 n2 y)) = nat (n0 * n1 * (n2 div 2 + 1)))"

text \<open>\<open>rft_3d::rft_3d\<close> (lines 39--43): both plans for \<open>m_dim_x, m_dim_y, m_dim_z\<close>, in
  that order, on the buffers of \<open>cft_base\<close>.\<close>

definition rft_3d_plans :: "fftw_planner \<Rightarrow> rft_ctx \<Rightarrow> fftw_plans" where
  "rft_3d_plans pl c =
     \<lparr>r2c = plan_r2c_3d pl (dim_x c) (dim_y c) (dim_z c),
      c2r = plan_c2r_3d pl (dim_x c) (dim_y c) (dim_z c)\<rparr>"

text \<open>A planner whose plans write zeros of the documented sizes, for the concrete
  instance.\<close>

definition zero_planner :: fftw_planner where
  "zero_planner = \<lparr>plan_r2c_3d = (\<lambda>n0 n1 n2 x. replicate (nat (n0 * n1 * (n2 div 2 + 1))) (0, 0)),
     plan_c2r_3d = (\<lambda>n0 n1 n2 y. (replicate (nat (n0 * n1 * n2)) 0,
                                  replicate (nat (n0 * n1 * (n2 div 2 + 1))) (0, 0)))\<rparr>"

section \<open>Lemmas\<close>

subsection \<open>The scaling loops\<close>

text \<open>Each loop computes the element-wise product.\<close>

lemma scale_real_loop:
  "length xs = n \<Longrightarrow> for_upto 0 n (scale_real_body f) xs = map (\<lambda>v. v * f) xs"
  by (simp add: scale_real_body_def fold_pointwise_upd_map for_upto_pointwise_upd_map)

lemma scale_cplx_loop:
  "length zs = n \<Longrightarrow> for_upto 0 n (scale_cplx_body f) zs = map (\<lambda>z. (re z * f, im z * f)) zs"
  by (simp add: scale_cplx_body_def fold_pointwise_upd_map for_upto_pointwise_upd_map)

subsection \<open>Each branch of \<open>ft\<close>\<close>

lemma ft_forward:
  assumes "plans_wf c p"
  shows "ft p c (-1) s =
           s\<lparr>isign := -1,
             out := map (\<lambda>z. (re z * (dx c * dy c * dz c / (2 * pi) powr 1.5),
                              im z * (dx c * dy c * dz c / (2 * pi) powr 1.5)))
                        (r2c p (in_real s))\<rparr>"
  using assms by (simp add: ft_def scale_def plans_wf_def scale_cplx_loop)

lemma ft_backward:
  assumes "plans_wf c p"
  shows "ft p c 1 s =
           s\<lparr>isign := 1,
             in_real := map (\<lambda>v. v * (dkx c * dky c * dkz c / (2 * pi) powr 1.5))
                            (fst (c2r p (out s))),
             out := snd (c2r p (out s))\<rparr>"
proof -
  obtain r z where rz: "c2r p (out s) = (r, z)" by (cases "c2r p (out s)") auto
  have "length r = nat (dim c)" using assms rz unfolding plans_wf_def by (metis fst_conv)
  then show ?thesis using rz by (simp add: ft_def scale_def scale_real_loop)
qed

text \<open>The forward transform reads only the real buffer: the spectrum and the direction
  left by earlier calls are overwritten.\<close>

lemma ft_forward_history: "ft p c (-1) (s\<lparr>out := z, isign := d\<rparr>) = ft p c (-1) s"
  by (simp add: ft_def scale_def)

subsection \<open>Normalisation and the round trip\<close>

lemma powr_15_sq: "(2 * pi) powr 1.5 * (2 * pi) powr 1.5 = (2 * pi :: real) ^ 3"
proof -
  have "(2 * pi) powr 1.5 * (2 * pi) powr 1.5 = (2 * pi :: real) powr (1.5 + 1.5)"
    by (simp only: powr_add)
  also have "(1.5 + 1.5 :: real) = of_nat 3" by simp
  also have "(2 * pi :: real) powr of_nat 3 = (2 * pi) ^ 3"
    by (rule powr_realpow) simp
  finally show ?thesis .
qed

lemma ft_factors_inverse:
  assumes "ctx_wf c" "ctx_reciprocal c"
  shows "dx c * dy c * dz c / (2 * pi) powr 1.5 * (dkx c * dky c * dkz c / (2 * pi) powr 1.5)
           * of_int (dim c) = 1"
proof -
  define K where "K = (2 * pi :: real) powr 1.5"
  have KK: "K * K = (2 * pi) ^ 3" unfolding K_def by (rule powr_15_sq)
  have K0: "K \<noteq> 0" by (simp add: K_def)
  have N: "of_int (dim c) = of_int (dim_x c) * of_int (dim_y c) * (of_int (dim_z c) :: real)"
    using ctx_wf_pos [OF assms(1)] by simp
  have "(dx c * dkx c * of_int (dim_x c)) * (dy c * dky c * of_int (dim_y c))
          * (dz c * dkz c * of_int (dim_z c)) = (2 * pi) ^ 3"
    using assms(2) by (simp add: ctx_reciprocal_def power3_eq_cube)
  then have "dx c * dy c * dz c * (dkx c * dky c * dkz c) * of_int (dim c) = K * K"
    by (simp add: N KK algebra_simps)
  then show ?thesis using K0 unfolding K_def [symmetric] by (simp add: field_simps)
qed

lemma map_cscale_eq: "map (\<lambda>z. (re z * f, im z * f)) y = map (cscale f) y"
  by (simp add: cscale_def mult.commute)

section \<open>Properties\<close>

text \<open>C1: with FFTW's contract (c2r after r2c multiplies by the number of grid points;
  c2r is linear) and reciprocal spacings, \<open>ft(-1)\<close> followed by \<open>ft(1)\<close> restores the
  real field exactly: the two normalisation factors of \<open>rft_3d::ft\<close> are reciprocal up to
  FFTW's factor \<open>Nx Ny Nz\<close>.\<close>

theorem ft_round_trip:
  assumes "ctx_wf c" "ctx_reciprocal c" "plans_wf c p" "plans_fftw c p" "state_wf c s"
  shows "in_real (ft p c 1 (ft p c (-1) s)) = in_real s"
proof -
  define F where "F = dx c * dy c * dz c / (2 * pi) powr 1.5"
  define G where "G = dkx c * dky c * dkz c / (2 * pi) powr 1.5"
  define x where "x = in_real s"
  have len: "length x = nat (dim c)" using assms(5) by (simp add: state_wf_def x_def)
  have inv: "fst (c2r p (r2c p x)) = map (\<lambda>v. of_int (dim c) * v) x"
    and hom: "fst (c2r p (map (cscale F) (r2c p x))) = map (\<lambda>v. F * v) (fst (c2r p (r2c p x)))"
    using assms(4) len unfolding plans_fftw_def by blast+
  have fwd: "ft p c (-1) s = s\<lparr>isign := -1, out := map (cscale F) (r2c p x)\<rparr>"
    unfolding F_def x_def by (simp only: ft_forward [OF assms(3)] map_cscale_eq)
  have bwd: "in_real (ft p c 1 t) = map (\<lambda>v. v * G) (fst (c2r p (out t)))" for t
    unfolding G_def by (simp add: ft_backward [OF assms(3)])
  have "in_real (ft p c 1 (ft p c (-1) s)) = map (\<lambda>v. v * G) (fst (c2r p (map (cscale F) (r2c p x))))"
    by (simp add: fwd bwd)
  also have "\<dots> = map (\<lambda>v. v * (F * G * of_int (dim c))) x"
    by (simp add: hom inv algebra_simps)
  also have "F * G * of_int (dim c) = 1"
    unfolding F_def G_def by (rule ft_factors_inverse [OF assms(1,2)])
  finally show ?thesis by (simp add: x_def)
qed

theorem ft_round_trip_witness:
  "ctx_wf (mk_ctx 1 1 1 1 1 1) \<and> ctx_reciprocal (mk_ctx 1 1 1 1 1 1) \<and>
   plans_wf (mk_ctx 1 1 1 1 1 1) fftw_111 \<and> plans_fftw (mk_ctx 1 1 1 1 1 1) fftw_111 \<and>
   state_wf (mk_ctx 1 1 1 1 1 1) \<lparr>in_real = [3], out = [(0, 0)], isign = 0\<rparr> \<and>
   in_real (ft fftw_111 (mk_ctx 1 1 1 1 1 1) 1
     (ft fftw_111 (mk_ctx 1 1 1 1 1 1) (-1) \<lparr>in_real = [3], out = [(0, 0)], isign = 0\<rparr>)) = [3]"
proof -
  have h1: "ctx_wf (mk_ctx 1 1 1 1 1 1)" by (rule mk_ctx_wf) simp_all
  have h2: "ctx_reciprocal (mk_ctx 1 1 1 1 1 1)" by (rule mk_ctx_reciprocal) simp_all
  have h34: "plans_wf (mk_ctx 1 1 1 1 1 1) fftw_111 \<and> plans_fftw (mk_ctx 1 1 1 1 1 1) fftw_111"
    by (rule fftw_111_ok)
  have h5: "state_wf (mk_ctx 1 1 1 1 1 1) \<lparr>in_real = [3], out = [(0, 0)], isign = 0\<rparr>"
    by (simp add: state_wf_def mk_ctx_def)
  show ?thesis
    using h1 h2 h34 h5 ft_round_trip [OF h1 h2 conjunct1 [OF h34] conjunct2 [OF h34] h5] by simp
qed

text \<open>C7: a direction other than \<open>\<plusminus>1\<close> is ignored: both buffers are left as they
  are, and only \<open>m_isign\<close> records the request. The recorded direction does not
  disable \<open>scale\<close>: a \<open>scale\<close> reached afterwards multiplies the packed spectrum, as
  it does after a forward transform.\<close>

theorem ft_noop:
  assumes "\<bar>sg\<bar> \<noteq> 1" "state_wf c s"
  shows "ft p c sg s = s\<lparr>isign := sg\<rparr> \<and>
    scale c f (ft p c sg s) = s\<lparr>isign := sg, out := map (\<lambda>z. (re z * f, im z * f)) (out s)\<rparr>"
proof -
  have "sg \<noteq> 1" using assms(1) by auto
  moreover have "length (out s) = nat (dim_fs c)" using assms(2) by (simp add: state_wf_def)
  ultimately show ?thesis using assms(1) by (simp add: ft_def scale_def scale_cplx_loop)
qed

theorem ft_noop_witness:
  "ft fftw_111 (mk_ctx 1 1 1 1 1 1) 0 \<lparr>in_real = [3], out = [(1, 2)], isign = -1\<rparr> =
     \<lparr>in_real = [3], out = [(1, 2)], isign = 0\<rparr> \<and>
   scale (mk_ctx 1 1 1 1 1 1) 2 (ft fftw_111 (mk_ctx 1 1 1 1 1 1) 0 \<lparr>in_real = [3], out = [(1, 2)], isign = -1\<rparr>) =
     \<lparr>in_real = [3], out = [(2, 4)], isign = 0\<rparr>"
proof -
  have h: "state_wf (mk_ctx 1 1 1 1 1 1) \<lparr>in_real = [3], out = [(1, 2)], isign = -1\<rparr>"
    by (simp add: state_wf_def mk_ctx_def)
  note T = ft_noop [of 0, OF _ h, of fftw_111 2]
  have a: "ft fftw_111 (mk_ctx 1 1 1 1 1 1) 0 \<lparr>in_real = [3], out = [(1, 2)], isign = -1\<rparr> =
      \<lparr>in_real = [3], out = [(1, 2)], isign = 0\<rparr>" using T by simp
  have b: "scale (mk_ctx 1 1 1 1 1 1) 2 \<lparr>in_real = [3], out = [(1, 2)], isign = 0\<rparr> =
      \<lparr>in_real = [3], out = [(2, 4)], isign = 0\<rparr>" using T unfolding a by simp
  show ?thesis using a b by simp
qed

text \<open>C27: the constructor passes the extents in the order that makes the plans fit the
  buffers of \<open>cft_base\<close>: with a planner that writes FFTW's documented sizes, the plans
  of a well-formed context write \<open>dim\<close> reals and \<open>dim_fs\<close> packed elements.\<close>

theorem rft_3d_plans_wf:
  assumes "ctx_wf c" "planner_wf pl"
  shows "plans_wf c (rft_3d_plans pl c)"
  using assms ctx_wf_pos [OF assms(1)]
  by (simp add: plans_wf_def planner_wf_def rft_3d_plans_def ctx_wf_def)

theorem rft_3d_plans_wf_witness:
  "ctx_wf (mk_ctx 4 2 6 1 1 1) \<and> planner_wf zero_planner \<and> plans_wf (mk_ctx 4 2 6 1 1 1) (rft_3d_plans zero_planner (mk_ctx 4 2 6 1 1 1))"
proof -
  have h1: "ctx_wf (mk_ctx 4 2 6 1 1 1)" by (rule mk_ctx_wf) simp_all
  have h2: "planner_wf zero_planner" by (simp add: planner_wf_def zero_planner_def)
  show ?thesis using h1 h2 rft_3d_plans_wf [OF h1 h2] by blast
qed

end
