(* ===== verification/Diff_Ops.thy ===== *)
theory Diff_Ops
  imports Index_Map Transform
begin

text \<open>
  The differential operators of \<open>rft_3d.cpp\<close>: \<open>Diff_x\<close>, \<open>Diff_xx\<close>, \<open>Diff_y\<close>,
  \<open>Diff_yy\<close>, \<open>Diff_z\<close>, \<open>Diff_zz\<close> and \<open>Laplace\<close>. Each runs the forward transform, then
  an OpenMP loop over the packed spectrum that looks up the frequency of every bin with
  \<open>Get_k\<close> and updates that bin alone, then the backward transform. The seven methods
  differ only in the per-bin update, so the model has one definition per update
  (\<open>bin_first\<close>, \<open>bin_second\<close>, \<open>bin_laplace\<close>), the loop (\<open>spectral_loop\<close>), the
  shared template (\<open>spectral_op\<close>) and one definition per method. Since \<open>Get_k\<close> may
  trap, so may the loop and every operator.

  The lemmas show: on a well-formed grid with \<open>Nz \<ge> 2\<close> the loop never traps and
  computes an element-wise update whatever order its iterations run in; with
  \<open>Nz = 1\<close> every operator traps, even those that never use \<open>kz\<close>; each per-bin update
  is multiplication of the complex value by \<open>i k\<close> or \<open>-k\<^sup>2\<close> (the spectral
  specification); every operator ends with \<open>m_isign = 1\<close> and well-formed buffers; and
  the Laplacian is the sum of the three second derivatives.
\<close>

section \<open>Per-bin updates\<close>

text \<open>\<open>Diff_x\<close>, \<open>Diff_y\<close>, \<open>Diff_z\<close>: \<open>tmp = m_out[i][0]; m_out[i][0] = -m_out[i][1]*k;
  m_out[i][1] = tmp*k\<close>.\<close>

definition bin_first :: "real \<Rightarrow> cplx \<Rightarrow> cplx" where
  "bin_first kc z = (let tmp = re z in (- im z * kc, tmp * kc))"

text \<open>\<open>Diff_xx\<close>, \<open>Diff_yy\<close>, \<open>Diff_zz\<close>: \<open>tmp = -(k*k); m_out[i][0] *= tmp;
  m_out[i][1] *= tmp\<close>.\<close>

definition bin_second :: "real \<Rightarrow> cplx \<Rightarrow> cplx" where
  "bin_second kc z = (let tmp = - (kc * kc) in (re z * tmp, im z * tmp))"

text \<open>\<open>Laplace\<close>: \<open>tmp = -(k*k)\<close> with the scalar product of \<open>CPoint<3>\<close>.\<close>

definition bin_laplace :: "point3 \<Rightarrow> cplx \<Rightarrow> cplx" where
  "bin_laplace k z = (let tmp = - dot3 k k in (re z * tmp, im z * tmp))"

section \<open>The spectral loop and the template\<close>

text \<open>One iteration: \<open>k = Get_k(i)\<close>, then the update of \<open>m_out[i]\<close>.\<close>

definition spectral_body ::
  "rft_ctx \<Rightarrow> (point3 \<Rightarrow> cplx \<Rightarrow> cplx) \<Rightarrow> nat \<Rightarrow> cplx list \<Rightarrow> c_fault + cplx list" where
  "spectral_body c upd i buf = bind_e (Get_k c (int i)) (\<lambda>k. Inr (buf[i := upd k (buf ! i)]))"

text \<open>\<open>for (i = 0; i < m_dim_fs; i++)\<close> over the packed spectrum.\<close>

definition spectral_loop ::
  "rft_ctx \<Rightarrow> (point3 \<Rightarrow> cplx \<Rightarrow> cplx) \<Rightarrow> cplx list \<Rightarrow> c_fault + cplx list" where
  "spectral_loop c upd buf = for_upto_e 0 (nat (dim_fs c)) (spectral_body c upd) buf"

text \<open>\<open>ft(-1)\<close>, the loop, \<open>ft(1)\<close>.\<close>

definition spectral_op ::
  "(point3 \<Rightarrow> cplx \<Rightarrow> cplx) \<Rightarrow> fftw_plans \<Rightarrow> rft_ctx \<Rightarrow> rft_state \<Rightarrow> c_fault + rft_state" where
  "spectral_op upd p c s =
     (let s1 = ft p c (-1) s in
      bind_e (spectral_loop c upd (out s1)) (\<lambda>z. Inr (ft p c 1 (s1\<lparr>out := z\<rparr>))))"

section \<open>The seven operators\<close>

definition Diff_x :: "fftw_plans \<Rightarrow> rft_ctx \<Rightarrow> rft_state \<Rightarrow> c_fault + rft_state" where
  "Diff_x = spectral_op (\<lambda>k. bin_first (fst k))"

definition Diff_xx :: "fftw_plans \<Rightarrow> rft_ctx \<Rightarrow> rft_state \<Rightarrow> c_fault + rft_state" where
  "Diff_xx = spectral_op (\<lambda>k. bin_second (fst k))"

definition Diff_y :: "fftw_plans \<Rightarrow> rft_ctx \<Rightarrow> rft_state \<Rightarrow> c_fault + rft_state" where
  "Diff_y = spectral_op (\<lambda>k. bin_first (fst (snd k)))"

definition Diff_yy :: "fftw_plans \<Rightarrow> rft_ctx \<Rightarrow> rft_state \<Rightarrow> c_fault + rft_state" where
  "Diff_yy = spectral_op (\<lambda>k. bin_second (fst (snd k)))"

definition Diff_z :: "fftw_plans \<Rightarrow> rft_ctx \<Rightarrow> rft_state \<Rightarrow> c_fault + rft_state" where
  "Diff_z = spectral_op (\<lambda>k. bin_first (snd (snd k)))"

definition Diff_zz :: "fftw_plans \<Rightarrow> rft_ctx \<Rightarrow> rft_state \<Rightarrow> c_fault + rft_state" where
  "Diff_zz = spectral_op (\<lambda>k. bin_second (snd (snd k)))"

definition Laplace :: "fftw_plans \<Rightarrow> rft_ctx \<Rightarrow> rft_state \<Rightarrow> c_fault + rft_state" where
  "Laplace = spectral_op bin_laplace"

section \<open>Reference definitions\<close>

text \<open>The frequency of bin \<open>j\<close> of the packed spectrum.\<close>

definition bin_freq :: "rft_ctx \<Rightarrow> nat \<Rightarrow> point3" where
  "bin_freq c j = freq_of c (split3 (dim_y c) (red_dim c) (int j))"

text \<open>The spectral specification of an operator: every bin multiplied by the complex
  factor \<open>m k\<close> of its frequency.\<close>

definition spectral_spec :: "(point3 \<Rightarrow> complex) \<Rightarrow> rft_ctx \<Rightarrow> cplx list \<Rightarrow> complex list" where
  "spectral_spec m c buf = map (\<lambda>j. m (bin_freq c j) * to_complex (buf ! j)) [0..<length buf]"

section \<open>Lemmas\<close>

subsection \<open>The loop\<close>

lemma spectral_body_ok:
  assumes "ctx_wf c" "2 \<le> dim_z c"
  shows "spectral_body c upd i buf = Inr (pointwise_upd (\<lambda>j. upd (bin_freq c j)) i buf)"
  using assms by (simp add: spectral_body_def Get_k_eq bin_freq_def pointwise_upd_def)

lemma spectral_loop_ok:
  assumes "ctx_wf c" "2 \<le> dim_z c" "length buf = nat (dim_fs c)"
  shows "spectral_loop c upd buf =
           Inr (map (\<lambda>j. upd (bin_freq c j) (buf ! j)) [0..<length buf])"
proof -
  have "spectral_loop c upd buf =
          Inr (for_upto 0 (nat (dim_fs c)) (pointwise_upd (\<lambda>j. upd (bin_freq c j))) buf)"
    unfolding spectral_loop_def by (rule for_upto_e_total) (simp add: spectral_body_ok [OF assms(1,2)])
  also have "\<dots> = Inr (map (\<lambda>j. upd (bin_freq c j) (buf ! j)) [0..<length buf])"
    using assms(3) by (simp add: for_upto_fold fold_pointwise_upd_all atLeast0LessThan)
  finally show ?thesis .
qed

lemma spectral_loop_fault:
  assumes "ctx_wf c" "dim_z c = 1"
  shows "spectral_loop c upd buf = Inl Div_by_zero"
proof -
  have "0 < nat (dim_fs c)" using ctx_wf_pos [OF assms(1)] by simp
  moreover have "spectral_body c upd 0 buf = Inl Div_by_zero"
    using Get_k_fault [OF assms, of 0] by (simp add: spectral_body_def)
  ultimately show ?thesis unfolding spectral_loop_def by (rule for_upto_e_fault)
qed

subsection \<open>The operators\<close>

lemma spectral_op_eq:
  assumes "ctx_wf c" "2 \<le> dim_z c" "plans_wf c p"
  shows "spectral_op upd p c s =
           Inr (ft p c 1 ((ft p c (-1) s)\<lparr>out :=
              map (\<lambda>j. upd (bin_freq c j) (out (ft p c (-1) s) ! j)) [0..<nat (dim_fs c)]\<rparr>))"
proof -
  have "length (out (ft p c (-1) s)) = nat (dim_fs c)"
    using assms(3) by (simp add: ft_forward plans_wf_def)
  then show ?thesis
    by (simp add: spectral_op_def Let_def spectral_loop_ok [OF assms(1,2)])
qed

lemma spectral_op_fault:
  "ctx_wf c \<Longrightarrow> dim_z c = 1 \<Longrightarrow> spectral_op upd p c s = Inl Div_by_zero"
  by (simp add: spectral_op_def Let_def spectral_loop_fault)

lemma bin_first_complex: "to_complex (bin_first kc z) = \<i> * of_real kc * to_complex z"
  by (simp add: bin_first_def to_complex_def Let_def complex_eq_iff)

lemma bin_second_complex: "to_complex (bin_second kc z) = - ((of_real kc) ^ 2) * to_complex z"
  by (simp add: bin_second_def to_complex_def Let_def complex_eq_iff power2_eq_square)

lemma bin_laplace_complex: "to_complex (bin_laplace k z) = - of_real (dot3 k k) * to_complex z"
  by (simp add: bin_laplace_def to_complex_def Let_def complex_eq_iff)

lemma spectral_loop_refines:
  assumes "ctx_wf c" "2 \<le> dim_z c" "length buf = nat (dim_fs c)"
    and "\<And>k z. to_complex (upd k z) = m k * to_complex z"
  shows "map_sum id (map to_complex) (spectral_loop c upd buf) = Inr (spectral_spec m c buf)"
  by (simp add: spectral_loop_ok [OF assms(1-3)] spectral_spec_def assms(4))

lemma bin_laplace_sum:
  "bin_laplace k z =
     cadd (cadd (bin_second (fst k) z) (bin_second (fst (snd k)) z)) (bin_second (snd (snd k)) z)"
  by (cases k) (simp add: bin_laplace_def bin_second_def cadd_def Let_def algebra_simps)

lemma c2r_add3:
  assumes "plans_fftw c p" "length a = length b" "length b = length d"
  shows "fst (c2r p (map2 cadd (map2 cadd a b) d)) =
           map2 (+) (map2 (+) (fst (c2r p a)) (fst (c2r p b))) (fst (c2r p d))"
proof -
  have add: "fst (c2r p (map2 cadd y z)) = map2 (+) (fst (c2r p y)) (fst (c2r p z))"
    if "length y = length z" for y z
    using assms(1) that unfolding plans_fftw_def by blast
  show ?thesis using assms(2,3) by (simp add: add)
qed

text \<open>On the \<open>2 \<times> 1 \<times> 2\<close> grid with unit spacings, the bins with \<open>x\<close> index 1 have
  \<open>kx = -\<pi>\<close>.\<close>

lemma bin_freq_212: "fst (bin_freq (mk_ctx 2 1 2 1 1 1) 2) = - pi"
  by (simp add: bin_freq_def freq_of_def split3_def fold_centered_def mk_ctx_def)

text \<open>The template starts with \<open>ft(-1)\<close>, which overwrites the spectrum and the
  direction.\<close>

lemma spectral_op_history:
  "spectral_op upd p c (s\<lparr>out := z, isign := d\<rparr>) = spectral_op upd p c s"
  by (simp only: spectral_op_def ft_forward_history)

section \<open>Properties\<close>

text \<open>C2: the Laplacian is the sum of the three second derivatives: on a grid with
  \<open>Nz \<ge> 2\<close> and with FFTW's linear c2r transform, \<open>Laplace\<close>, \<open>Diff_xx\<close>, \<open>Diff_yy\<close> and
  \<open>Diff_zz\<close> all return, and the real field \<open>Laplace\<close> leaves is the element-wise sum of
  the fields the three others leave.\<close>

theorem Laplace_decomposition:
  assumes "ctx_wf c" "2 \<le> dim_z c" "plans_wf c p" "plans_fftw c p"
  shows "\<exists>sL sx sy sz. Laplace p c s = Inr sL \<and> Diff_xx p c s = Inr sx \<and>
           Diff_yy p c s = Inr sy \<and> Diff_zz p c s = Inr sz \<and>
           in_real sL = map2 (+) (map2 (+) (in_real sx) (in_real sy)) (in_real sz)"
proof -
  define ob where "ob = out (ft p c (-1) s)"
  define n where "n = nat (dim_fs c)"
  define G where "G = dkx c * dky c * dkz c / (2 * pi) powr 1.5"
  define upd where "upd f = map (\<lambda>j. f (bin_freq c j) (ob ! j)) [0..<n]" for f :: "point3 \<Rightarrow> cplx \<Rightarrow> cplx"
  define X Y Z where "X = upd (\<lambda>k. bin_second (fst k))" and "Y = upd (\<lambda>k. bin_second (fst (snd k)))"
    and "Z = upd (\<lambda>k. bin_second (snd (snd k)))"
  have res: "in_real (ft p c 1 ((ft p c (-1) s)\<lparr>out := w\<rparr>)) = map (\<lambda>v. v * G) (fst (c2r p w))" for w
    unfolding G_def by (simp add: ft_backward [OF assms(3)])
  have op: "spectral_op f p c s = Inr (ft p c 1 ((ft p c (-1) s)\<lparr>out := upd f\<rparr>))" for f
    unfolding upd_def ob_def n_def by (rule spectral_op_eq [OF assms(1-3)])
  have L: "upd bin_laplace = map2 cadd (map2 cadd X Y) Z"
    by (rule nth_equalityI) (simp_all add: upd_def X_def Y_def Z_def bin_laplace_sum)
  have len: "length (fst (c2r p w)) = nat (dim c)" for w
    using assms(3) by (simp add: plans_wf_def)
  have sum: "map (\<lambda>v. v * G) (fst (c2r p (map2 cadd (map2 cadd X Y) Z))) =
      map2 (+) (map2 (+) (map (\<lambda>v. v * G) (fst (c2r p X))) (map (\<lambda>v. v * G) (fst (c2r p Y))))
        (map (\<lambda>v. v * G) (fst (c2r p Z)))"
  proof -
    have "fst (c2r p (map2 cadd (map2 cadd X Y) Z)) =
            map2 (+) (map2 (+) (fst (c2r p X)) (fst (c2r p Y))) (fst (c2r p Z))"
      by (rule c2r_add3 [OF assms(4)]) (simp_all add: X_def Y_def Z_def upd_def)
    then show ?thesis by (intro nth_equalityI) (simp_all add: len distrib_right)
  qed
  have "Diff_xx p c s = Inr (ft p c 1 ((ft p c (-1) s)\<lparr>out := X\<rparr>))"
    and "Diff_yy p c s = Inr (ft p c 1 ((ft p c (-1) s)\<lparr>out := Y\<rparr>))"
    and "Diff_zz p c s = Inr (ft p c 1 ((ft p c (-1) s)\<lparr>out := Z\<rparr>))"
    unfolding Diff_xx_def Diff_yy_def Diff_zz_def X_def Y_def Z_def by (rule op)+
  moreover have "Laplace p c s = Inr (ft p c 1 ((ft p c (-1) s)\<lparr>out := map2 cadd (map2 cadd X Y) Z\<rparr>))"
    unfolding Laplace_def L [symmetric] by (rule op)
  ultimately show ?thesis by (simp add: res sum)
qed

theorem Laplace_decomposition_witness:
  "fst (bin_freq (mk_ctx 2 1 2 1 1 1) 2) = - pi \<and> ctx_wf (mk_ctx 2 1 2 1 1 1) \<and> 2 \<le> dim_z (mk_ctx 2 1 2 1 1 1) \<and>
   plans_wf (mk_ctx 2 1 2 1 1 1) fftw_212 \<and> plans_fftw (mk_ctx 2 1 2 1 1 1) fftw_212 \<and>
   (\<exists>sL sx sy sz.
      Laplace fftw_212 (mk_ctx 2 1 2 1 1 1) \<lparr>in_real = [1, 2, 3, 4], out = [(0, 0), (0, 0), (0, 0), (0, 0)], isign = 0\<rparr> = Inr sL \<and>
      Diff_xx fftw_212 (mk_ctx 2 1 2 1 1 1) \<lparr>in_real = [1, 2, 3, 4], out = [(0, 0), (0, 0), (0, 0), (0, 0)], isign = 0\<rparr> = Inr sx \<and>
      Diff_yy fftw_212 (mk_ctx 2 1 2 1 1 1) \<lparr>in_real = [1, 2, 3, 4], out = [(0, 0), (0, 0), (0, 0), (0, 0)], isign = 0\<rparr> = Inr sy \<and>
      Diff_zz fftw_212 (mk_ctx 2 1 2 1 1 1) \<lparr>in_real = [1, 2, 3, 4], out = [(0, 0), (0, 0), (0, 0), (0, 0)], isign = 0\<rparr> = Inr sz \<and>
      in_real sL = map2 (+) (map2 (+) (in_real sx) (in_real sy)) (in_real sz))"
proof -
  have h1: "ctx_wf (mk_ctx 2 1 2 1 1 1)" by (rule mk_ctx_wf) simp_all
  have h2: "2 \<le> dim_z (mk_ctx 2 1 2 1 1 1)" by (simp add: mk_ctx_def)
  have h34: "plans_wf (mk_ctx 2 1 2 1 1 1) fftw_212 \<and> plans_fftw (mk_ctx 2 1 2 1 1 1) fftw_212"
    by (rule fftw_212_ok)
  have h0: "fst (bin_freq (mk_ctx 2 1 2 1 1 1) 2) = - pi" by (rule bin_freq_212)
  show ?thesis
    using h0 h1 h2 h34 Laplace_decomposition [OF h1 h2 conjunct1 [OF h34] conjunct2 [OF h34]] by blast
qed

text \<open>C3: \<open>Diff_x\<close> refines the spectral first derivative: it returns, and the spectrum it
  hands to the backward transform is the forward spectrum with every bin multiplied by
  \<open>i kx\<close>, \<open>kx\<close> the bin's frequency from \<open>Get_k\<close>.\<close>

theorem Diff_x_spectrum:
  assumes "ctx_wf c" "2 \<le> dim_z c" "plans_wf c p"
  shows "\<exists>z. Diff_x p c s = Inr (ft p c 1 ((ft p c (-1) s)\<lparr>out := z\<rparr>)) \<and>
           map to_complex z = spectral_spec (\<lambda>k. \<i> * of_real (fst k)) c (out (ft p c (-1) s))"
proof (intro exI conjI)
  let ?z = "map (\<lambda>j. bin_first (fst (bin_freq c j)) (out (ft p c (-1) s) ! j)) [0..<nat (dim_fs c)]"
  have len: "length (out (ft p c (-1) s)) = nat (dim_fs c)"
    using assms(3) by (simp add: ft_forward plans_wf_def)
  show "Diff_x p c s = Inr (ft p c 1 ((ft p c (-1) s)\<lparr>out := ?z\<rparr>))"
    by (simp add: Diff_x_def spectral_op_eq [OF assms])
  show "map to_complex ?z = spectral_spec (\<lambda>k. \<i> * of_real (fst k)) c (out (ft p c (-1) s))"
    using len by (simp add: spectral_spec_def bin_first_complex)
qed

theorem Diff_x_spectrum_witness:
  "fst (bin_freq (mk_ctx 2 1 2 1 1 1) 2) = - pi \<and> ctx_wf (mk_ctx 2 1 2 1 1 1) \<and> 2 \<le> dim_z (mk_ctx 2 1 2 1 1 1) \<and> plans_wf (mk_ctx 2 1 2 1 1 1) fftw_212 \<and>
   (\<exists>z. Diff_x fftw_212 (mk_ctx 2 1 2 1 1 1) \<lparr>in_real = [1, 2, 3, 4], out = [(0, 0), (0, 0), (0, 0), (0, 0)], isign = 0\<rparr> =
      Inr (ft fftw_212 (mk_ctx 2 1 2 1 1 1) 1 ((ft fftw_212 (mk_ctx 2 1 2 1 1 1) (-1)
             \<lparr>in_real = [1, 2, 3, 4], out = [(0, 0), (0, 0), (0, 0), (0, 0)], isign = 0\<rparr>)\<lparr>out := z\<rparr>)) \<and>
      map to_complex z = spectral_spec (\<lambda>k. \<i> * of_real (fst k)) (mk_ctx 2 1 2 1 1 1)
        (out (ft fftw_212 (mk_ctx 2 1 2 1 1 1) (-1) \<lparr>in_real = [1, 2, 3, 4], out = [(0, 0), (0, 0), (0, 0), (0, 0)], isign = 0\<rparr>)))"
proof -
  have h1: "ctx_wf (mk_ctx 2 1 2 1 1 1)" by (rule mk_ctx_wf) simp_all
  have h2: "2 \<le> dim_z (mk_ctx 2 1 2 1 1 1)" by (simp add: mk_ctx_def)
  have h3: "plans_wf (mk_ctx 2 1 2 1 1 1) fftw_212" using fftw_212_ok by blast
  have h0: "fst (bin_freq (mk_ctx 2 1 2 1 1 1) 2) = - pi" by (rule bin_freq_212)
  show ?thesis using h0 h1 h2 h3 Diff_x_spectrum [OF h1 h2 h3] by blast
qed

text \<open>C4: \<open>Laplace\<close> refines the spectral Laplacian: it returns, and the spectrum it hands
  to the backward transform is the forward spectrum with every bin multiplied by
  \<open>-|k|\<^sup>2\<close>.\<close>

theorem Laplace_spectrum:
  assumes "ctx_wf c" "2 \<le> dim_z c" "plans_wf c p"
  shows "\<exists>z. Laplace p c s = Inr (ft p c 1 ((ft p c (-1) s)\<lparr>out := z\<rparr>)) \<and>
           map to_complex z = spectral_spec (\<lambda>k. - of_real (dot3 k k)) c (out (ft p c (-1) s))"
proof (intro exI conjI)
  let ?z = "map (\<lambda>j. bin_laplace (bin_freq c j) (out (ft p c (-1) s) ! j)) [0..<nat (dim_fs c)]"
  have len: "length (out (ft p c (-1) s)) = nat (dim_fs c)"
    using assms(3) by (simp add: ft_forward plans_wf_def)
  show "Laplace p c s = Inr (ft p c 1 ((ft p c (-1) s)\<lparr>out := ?z\<rparr>))"
    by (simp add: Laplace_def spectral_op_eq [OF assms])
  show "map to_complex ?z = spectral_spec (\<lambda>k. - of_real (dot3 k k)) c (out (ft p c (-1) s))"
    using len by (simp add: spectral_spec_def bin_laplace_complex)
qed

theorem Laplace_spectrum_witness:
  "fst (bin_freq (mk_ctx 2 1 2 1 1 1) 2) = - pi \<and> ctx_wf (mk_ctx 2 1 2 1 1 1) \<and> 2 \<le> dim_z (mk_ctx 2 1 2 1 1 1) \<and> plans_wf (mk_ctx 2 1 2 1 1 1) fftw_212 \<and>
   (\<exists>z. Laplace fftw_212 (mk_ctx 2 1 2 1 1 1) \<lparr>in_real = [1, 2, 3, 4], out = [(0, 0), (0, 0), (0, 0), (0, 0)], isign = 0\<rparr> =
      Inr (ft fftw_212 (mk_ctx 2 1 2 1 1 1) 1 ((ft fftw_212 (mk_ctx 2 1 2 1 1 1) (-1)
             \<lparr>in_real = [1, 2, 3, 4], out = [(0, 0), (0, 0), (0, 0), (0, 0)], isign = 0\<rparr>)\<lparr>out := z\<rparr>)) \<and>
      map to_complex z = spectral_spec (\<lambda>k. - of_real (dot3 k k)) (mk_ctx 2 1 2 1 1 1)
        (out (ft fftw_212 (mk_ctx 2 1 2 1 1 1) (-1) \<lparr>in_real = [1, 2, 3, 4], out = [(0, 0), (0, 0), (0, 0), (0, 0)], isign = 0\<rparr>)))"
proof -
  have h1: "ctx_wf (mk_ctx 2 1 2 1 1 1)" by (rule mk_ctx_wf) simp_all
  have h2: "2 \<le> dim_z (mk_ctx 2 1 2 1 1 1)" by (simp add: mk_ctx_def)
  have h3: "plans_wf (mk_ctx 2 1 2 1 1 1) fftw_212" using fftw_212_ok by blast
  have h0: "fst (bin_freq (mk_ctx 2 1 2 1 1 1) 2) = - pi" by (rule bin_freq_212)
  show ?thesis using h0 h1 h2 h3 Laplace_spectrum [OF h1 h2 h3] by blast
qed

text \<open>C6: on a grid with \<open>Nz = 1\<close> (so \<open>Rz = 1\<close>), \<open>Get_k\<close> computes \<open>k % 0\<close> and every
  one of the seven operators traps with a division by zero, even \<open>Diff_x\<close> and
  \<open>Diff_y\<close>, which never use \<open>kz\<close>.\<close>

theorem Diff_ops_trap:
  assumes "ctx_wf c" "dim_z c = 1"
  shows "Diff_x p c s = Inl Div_by_zero \<and> Diff_xx p c s = Inl Div_by_zero \<and>
         Diff_y p c s = Inl Div_by_zero \<and> Diff_yy p c s = Inl Div_by_zero \<and>
         Diff_z p c s = Inl Div_by_zero \<and> Diff_zz p c s = Inl Div_by_zero \<and>
         Laplace p c s = Inl Div_by_zero"
  by (simp add: Diff_x_def Diff_xx_def Diff_y_def Diff_yy_def Diff_z_def Diff_zz_def Laplace_def
      spectral_op_fault [OF assms])

theorem Diff_ops_trap_witness:
  "ctx_wf (mk_ctx 4 4 1 1 1 1) \<and> dim_z (mk_ctx 4 4 1 1 1 1) = 1 \<and>
   Diff_x fftw_111 (mk_ctx 4 4 1 1 1 1) \<lparr>in_real = [], out = [], isign = 0\<rparr> = Inl Div_by_zero"
proof -
  have h1: "ctx_wf (mk_ctx 4 4 1 1 1 1)" by (rule mk_ctx_wf) simp_all
  have h2: "dim_z (mk_ctx 4 4 1 1 1 1) = 1" by (simp add: mk_ctx_def)
  show ?thesis using h1 h2 Diff_ops_trap [OF h1 h2] by blast
qed

text \<open>C12: on a grid with \<open>Nz \<ge> 2\<close> every operator returns, leaving \<open>m_isign = 1\<close> (the
  last transform was the backward one) and both buffers at their sizes.\<close>

theorem spectral_op_result:
  assumes "ctx_wf c" "2 \<le> dim_z c" "plans_wf c p"
  shows "\<exists>s'. spectral_op upd p c s = Inr s' \<and> isign s' = 1 \<and> state_wf c s'"
  using assms(3) by (simp add: spectral_op_eq [OF assms] ft_backward plans_wf_def state_wf_def)

theorem spectral_op_result_witness:
  "ctx_wf (mk_ctx 1 1 2 1 1 1) \<and> 2 \<le> dim_z (mk_ctx 1 1 2 1 1 1) \<and> plans_wf (mk_ctx 1 1 2 1 1 1) fftw_112 \<and>
   (\<exists>s'. spectral_op bin_laplace fftw_112 (mk_ctx 1 1 2 1 1 1)
      \<lparr>in_real = [1, 2], out = [(0, 0), (0, 0)], isign = 0\<rparr> = Inr s' \<and> isign s' = 1 \<and>
      state_wf (mk_ctx 1 1 2 1 1 1) s')"
proof -
  have h1: "ctx_wf (mk_ctx 1 1 2 1 1 1)" by (rule mk_ctx_wf) simp_all
  have h2: "2 \<le> dim_z (mk_ctx 1 1 2 1 1 1)" by (simp add: mk_ctx_def)
  have h3: "plans_wf (mk_ctx 1 1 2 1 1 1) fftw_112" using fftw_112_ok by blast
  show ?thesis using h1 h2 h3 spectral_op_result [OF h1 h2 h3] by blast
qed

text \<open>C33: the operators keep no state between calls: each of the seven starts with
  \<open>ft(-1)\<close>, so its result depends on the real field only, not on the spectrum or the
  direction \<open>m_isign\<close> that earlier calls left behind.\<close>

theorem operators_history_free:
  "Diff_x p c (s\<lparr>out := z, isign := d\<rparr>) = Diff_x p c s \<and>
   Diff_xx p c (s\<lparr>out := z, isign := d\<rparr>) = Diff_xx p c s \<and>
   Diff_y p c (s\<lparr>out := z, isign := d\<rparr>) = Diff_y p c s \<and>
   Diff_yy p c (s\<lparr>out := z, isign := d\<rparr>) = Diff_yy p c s \<and>
   Diff_z p c (s\<lparr>out := z, isign := d\<rparr>) = Diff_z p c s \<and>
   Diff_zz p c (s\<lparr>out := z, isign := d\<rparr>) = Diff_zz p c s \<and>
   Laplace p c (s\<lparr>out := z, isign := d\<rparr>) = Laplace p c s"
  by (simp only: Diff_x_def Diff_xx_def Diff_y_def Diff_yy_def Diff_z_def Diff_zz_def Laplace_def
      spectral_op_history simp_thms)

end
