(* ===== verification/Gpo3_Base.thy ===== *)
theory Gpo3_Base
  imports Prelude
begin

text \<open>
  The vocabulary of \<open>src/source/vis/src/gpo3.cpp\<close>, the tool that prints slices of a
  stored field: the file header \<open>generic_header\<close> (declared in \<open>my_structs.h\<close>, not
  among the sources, so modelled from its use), the option bits of the anonymous
  \<open>enum\<close> as \<open>32 word\<close> values (the \<open>int opt\<close> of the display functions), the value
  modes \<open>mode1\<close> \dots \<open>mode4\<close> and their selection, the conversions and the signed
  32-bit arithmetic of the index expressions (an overflow is undefined behaviour, the
  fault \<^const>\<open>Int_overflow\<close>), the array read (out of range: \<^const>\<open>Out_of_bounds\<close>),
  the printed lines, and the printing loop \<open>c = c0; for (i = 0; i < n; i++) { c += d;
  ... }\<close> with its closed form.
\<close>

unbundle bit_operations_syntax

named_theorems opt_simps "option bits as bits of the option word"

section \<open>The file header\<close>

text \<open>\<open>generic_header\<close>: the integer members are \<open>long long\<close> (printed with \<open>%lld\<close>),
  \<open>bAtom\<close> and \<open>bComplex\<close> are printed with \<open>%d\<close>, the rest are doubles.\<close>

record generic_header =
  nDims :: int
  nDimX :: int
  nDimY :: int
  nDimZ :: int
  nDatatyp :: int
  bAtom :: int
  bComplex :: int
  t :: real
  dt :: real
  xMin :: real
  xMax :: real
  yMin :: real
  yMax :: real
  zMin :: real
  zMax :: real
  hdx :: real
  hdy :: real
  hdz :: real
  hdkx :: real
  hdky :: real
  hdkz :: real

section \<open>Option bits and value modes\<close>

text \<open>The anonymous \<open>enum\<close> of \<open>gpo3.cpp\<close> (lines 34--43).\<close>

definition I_CONST :: "32 word" where "I_CONST = 1"
definition J_CONST :: "32 word" where "J_CONST = 2"
definition K_CONST :: "32 word" where "K_CONST = 4"
definition RT :: "32 word" where "RT = 8"
definition IT :: "32 word" where "IT = 16"
definition BW :: "32 word" where "BW = 32"
definition PH :: "32 word" where "PH = 128"

lemmas opt_bits = I_CONST_def J_CONST_def K_CONST_def RT_def IT_def BW_def PH_def

text \<open>C's \<open>atan2(y, x)\<close>: the angle of the point \<open>(x, y)\<close> in \<open>[-\<pi>, \<pi>]\<close>, by the
  case formula of the C standard (doubles as reals: no signed zeros).\<close>

definition atan2 :: "real \<Rightarrow> real \<Rightarrow> real" where
  "atan2 y x =
     (if 0 < x then arctan (y / x)
      else if x < 0 then (if 0 \<le> y then arctan (y / x) + pi else arctan (y / x) - pi)
      else if 0 < y then pi / 2 else if y < 0 then - (pi / 2) else 0)"

text \<open>The four value modes (lines 47--65): real part, imaginary part, squared modulus,
  phase.\<close>

definition mode1 :: "real \<Rightarrow> real \<Rightarrow> real" where "mode1 rt it = rt"
definition mode2 :: "real \<Rightarrow> real \<Rightarrow> real" where "mode2 rt it = it"
definition mode3 :: "real \<Rightarrow> real \<Rightarrow> real" where "mode3 rt it = rt * rt + it * it"
definition mode4 :: "real \<Rightarrow> real \<Rightarrow> real" where "mode4 rt it = atan2 it rt"

text \<open>The choice of \<open>fkt\<close> in the complex display functions: \<open>-re\<close> before \<open>-im\<close>
  before \<open>-ph\<close>, the squared modulus by default.\<close>

definition select_mode :: "32 word \<Rightarrow> real \<Rightarrow> real \<Rightarrow> real" where
  "select_mode opt =
     (if opt AND RT \<noteq> 0 then mode1 else if opt AND IT \<noteq> 0 then mode2
      else if opt AND PH \<noteq> 0 then mode4 else mode3)"

text \<open>The sign of a value, \<open>sign(double)\<close> (declared \<open>extern\<close>, defined outside the
  sources), printed by the \<open>-bw\<close> mode.\<close>

definition sign :: "real \<Rightarrow> real" where "sign v = sgn v"

section \<open>C integers\<close>

text \<open>\<open>const int dimX = header->nDimX\<close>: a \<open>long long\<close> converted to a 32-bit \<open>int\<close>
  keeps the low 32 bits, read as two's complement.\<close>

definition to_int32 :: "int \<Rightarrow> int" where
  "to_int32 v = sint (word_of_int v :: 32 word)"

definition int32_ok :: "int \<Rightarrow> bool" where
  "int32_ok v \<longleftrightarrow> - (2 ^ 31) \<le> v \<and> v < 2 ^ 31"

text \<open>Signed \<open>int\<close> addition and multiplication: a result outside the 32-bit range
  is undefined behaviour.\<close>

definition chk32 :: "int \<Rightarrow> c_fault + int" where
  "chk32 v = (if int32_ok v then Inr v else Inl Int_overflow)"

definition add32 :: "int \<Rightarrow> int \<Rightarrow> c_fault + int" where "add32 a b = chk32 (a + b)"
definition mul32 :: "int \<Rightarrow> int \<Rightarrow> c_fault + int" where "mul32 a b = chk32 (a * b)"

text \<open>The index expressions of the display functions, evaluated in \<open>int\<close>:
  \<open>k+dimZ*(j+dimY*i)\<close> and \<open>j+dimY*i\<close>.\<close>

definition idx3 :: "int \<Rightarrow> int \<Rightarrow> int \<Rightarrow> int \<Rightarrow> int \<Rightarrow> c_fault + int" where
  "idx3 dimY dimZ i j k =
     bind_e (mul32 dimY i) (\<lambda>a. bind_e (add32 j a) (\<lambda>b. bind_e (mul32 dimZ b) (\<lambda>c. add32 k c)))"

definition idx2 :: "int \<Rightarrow> int \<Rightarrow> int \<Rightarrow> c_fault + int" where
  "idx2 dimY i j = bind_e (mul32 dimY i) (\<lambda>a. add32 j a)"

text \<open>\<open>field[ijk]\<close>: a read outside the buffer the file was read into.\<close>

definition fetch :: "'a list \<Rightarrow> int \<Rightarrow> c_fault + 'a" where
  "fetch xs i = (if 0 \<le> i \<and> i < int (length xs) then Inr (xs ! nat i) else Inl Out_of_bounds)"

section \<open>Printed lines and the printing loop\<close>

text \<open>The lines the tool prints: two, three or five numbers separated by tabs, an empty
  line between the blocks of a two-dimensional slice, and the three blocks of \<open>main\<close>:
  the usage text (\<open>printUsage\<close>), the title \<open>### filename\<close> and the echo of the header
  and the fixed indices (the lines \<open># nDims == ...\<close> to \<open># k0 == ...\<close>). The
  \<open>printf\<close> formats (\<open>%e\<close>, \<open>%g\<close>, \<open>%.10e\<close>) and the usage text are not
  modelled.\<close>

datatype line = Row2 real real | Row3 real real real | Row5 real real real real real | Blank
  | Usage | Title string | Header_echo generic_header int int int

text \<open>\<open>c = c0; for (i = 0; i < n; i++) { c += d; body }\<close>: every loop of the display
  functions advances a coordinate before its body prints; the body gets the index and
  the advanced coordinate and returns the lines it prints.\<close>

definition step_iter :: "real \<Rightarrow> (nat \<Rightarrow> real \<Rightarrow> c_fault + line list) \<Rightarrow> nat \<Rightarrow>
    real \<times> line list \<Rightarrow> c_fault + real \<times> line list" where
  "step_iter d body i st = (case st of (c, ls) \<Rightarrow> bind_e (body i (c + d)) (\<lambda>l. Inr (c + d, ls @ l)))"

definition step_loop :: "int \<Rightarrow> real \<Rightarrow> real \<Rightarrow> (nat \<Rightarrow> real \<Rightarrow> c_fault + line list) \<Rightarrow>
    c_fault + line list" where
  "step_loop n c0 d body = bind_e (for_upto_e 0 (nat n) (step_iter d body) (c0, [])) (\<lambda>st. Inr (snd st))"

section \<open>Lemmas\<close>

subsection \<open>Option bits\<close>

text \<open>Every option is one bit; the tests of the display functions read bits of the
  option word and the guards clear them.\<close>

lemma opt_pow2: "I_CONST = 2 ^ 0" "J_CONST = 2 ^ 1" "K_CONST = 2 ^ 2" "RT = 2 ^ 3" "IT = 2 ^ 4"
  "BW = 2 ^ 5" "PH = 2 ^ 7"
  by (simp_all add: opt_bits)

lemma bit_pow2_word: "bit (2 ^ k :: 32 word) n \<longleftrightarrow> k < 32 \<and> n = k"
  by (auto simp: bit_exp_iff)

lemma bit_opt_consts:
  "bit I_CONST n \<longleftrightarrow> n = 0" "bit J_CONST n \<longleftrightarrow> n = 1" "bit K_CONST n \<longleftrightarrow> n = 2"
  "bit RT n \<longleftrightarrow> n = 3" "bit IT n \<longleftrightarrow> n = 4" "bit BW n \<longleftrightarrow> n = 5" "bit PH n \<longleftrightarrow> n = 7"
  unfolding opt_pow2 bit_pow2_word by simp_all

lemma mask_single: "w AND (2 ^ k :: 32 word) \<noteq> 0 \<longleftrightarrow> bit w k"
  by (metis and_exp_eq_0_iff_not_bit)

lemma mask_pair:
  assumes "k < 32" "m < 32"
  shows "w AND (2 ^ k OR 2 ^ m :: 32 word) = (2 ^ k OR 2 ^ m) \<longleftrightarrow> bit w k \<and> bit w m"
proof
  assume a: "w AND (2 ^ k OR 2 ^ m :: 32 word) = (2 ^ k OR 2 ^ m)"
  have "bit (w AND (2 ^ k OR 2 ^ m)) k" "bit (w AND (2 ^ k OR 2 ^ m)) m"
    unfolding a using assms by (simp_all add: bit_or_iff bit_pow2_word)
  then show "bit w k \<and> bit w m" by (simp add: bit_and_iff)
next
  assume "bit w k \<and> bit w m"
  then show "w AND (2 ^ k OR 2 ^ m :: 32 word) = (2 ^ k OR 2 ^ m)"
    by (intro bit_word_eqI) (auto simp: bit_and_iff bit_or_iff bit_pow2_word)
qed

lemma bit_clear: "bit (w AND NOT (2 ^ k :: 32 word)) n \<longleftrightarrow> bit w n \<and> n \<noteq> k"
  by (auto simp: bit_and_iff bit_not_iff bit_pow2_word dest: bit_imp_le_length)

lemma mask_IJ [opt_simps]: "w AND (I_CONST OR J_CONST) = (I_CONST OR J_CONST) \<longleftrightarrow> bit w 0 \<and> bit w 1"
  and mask_IK [opt_simps]: "w AND (I_CONST OR K_CONST) = (I_CONST OR K_CONST) \<longleftrightarrow> bit w 0 \<and> bit w 2"
  and mask_JK [opt_simps]: "w AND (J_CONST OR K_CONST) = (J_CONST OR K_CONST) \<longleftrightarrow> bit w 1 \<and> bit w 2"
  unfolding opt_pow2 by (rule mask_pair; simp)+

lemma mask_I [opt_simps]: "w AND I_CONST = 0 \<longleftrightarrow> \<not> bit w 0"
  and mask_J [opt_simps]: "w AND J_CONST = 0 \<longleftrightarrow> \<not> bit w 1"
  and mask_K [opt_simps]: "w AND K_CONST = 0 \<longleftrightarrow> \<not> bit w 2"
  and mask_RT [opt_simps]: "w AND RT = 0 \<longleftrightarrow> \<not> bit w 3"
  and mask_IT [opt_simps]: "w AND IT = 0 \<longleftrightarrow> \<not> bit w 4"
  and mask_BW [opt_simps]: "w AND BW = 0 \<longleftrightarrow> \<not> bit w 5"
  and mask_PH [opt_simps]: "w AND PH = 0 \<longleftrightarrow> \<not> bit w 7"
  unfolding opt_pow2 using mask_single by blast+

lemma guard_I [opt_simps]: "bit (if c then w AND NOT I_CONST else w) n \<longleftrightarrow> bit w n \<and> (c \<longrightarrow> n \<noteq> 0)"
  and guard_J [opt_simps]: "bit (if c then w AND NOT J_CONST else w) n \<longleftrightarrow> bit w n \<and> (c \<longrightarrow> n \<noteq> 1)"
  and guard_K [opt_simps]: "bit (if c then w AND NOT K_CONST else w) n \<longleftrightarrow> bit w n \<and> (c \<longrightarrow> n \<noteq> 2)"
  unfolding opt_pow2 by (cases c; simp only: if_True if_False bit_clear; simp)+

text \<open>The guards clear slice bits only: the mode and \<open>-bw\<close> bits survive them.\<close>

lemma select_mode_guard:
  "select_mode (if c then w AND NOT I_CONST else w) = select_mode w"
  "select_mode (if c then w AND NOT J_CONST else w) = select_mode w"
  by (simp_all add: select_mode_def opt_simps)

lemma BW_guard:
  "(if c then w AND NOT I_CONST else w) AND BW = 0 \<longleftrightarrow> w AND BW = 0"
  "(if c then w AND NOT J_CONST else w) AND BW = 0 \<longleftrightarrow> w AND BW = 0"
  by (simp_all add: opt_simps)

text \<open>Setting \<open>BW\<close> commutes with the guards and is invisible to every other test.\<close>

lemma guard_or_BW:
  "(if c then (w OR BW) AND NOT I_CONST else w OR BW) = (if c then w AND NOT I_CONST else w) OR BW"
  "(if c then (w OR BW) AND NOT J_CONST else w OR BW) = (if c then w AND NOT J_CONST else w) OR BW"
  "(if c then (w OR BW) AND NOT K_CONST else w OR BW) = (if c then w AND NOT K_CONST else w) OR BW"
  by (cases c; simp only: if_True if_False; rule bit_eqI;
      auto simp: bit_and_iff bit_or_iff bit_not_iff bit_opt_consts)+

lemma mask_or_BW:
  "(w OR BW) AND (I_CONST OR J_CONST) = w AND (I_CONST OR J_CONST)"
  "(w OR BW) AND (I_CONST OR K_CONST) = w AND (I_CONST OR K_CONST)"
  "(w OR BW) AND (J_CONST OR K_CONST) = w AND (J_CONST OR K_CONST)"
  "(w OR BW) AND I_CONST = w AND I_CONST" "(w OR BW) AND J_CONST = w AND J_CONST"
  "(w OR BW) AND K_CONST = w AND K_CONST" "(w OR BW) AND RT = w AND RT"
  "(w OR BW) AND IT = w AND IT" "(w OR BW) AND PH = w AND PH"
  by (rule bit_eqI; auto simp: bit_and_iff bit_or_iff bit_opt_consts)+

lemma select_mode_or_BW: "select_mode (w OR BW) = select_mode w"
  by (simp only: select_mode_def mask_or_BW)

subsection \<open>The phase\<close>

text \<open>The modulus and \<open>atan2\<close> give back the point: \<open>r cos \<phi> = x\<close>, \<open>r sin \<phi> = y\<close>.\<close>

lemma polar_arctan:
  fixes x y :: real
  assumes "x \<noteq> 0"
  shows "sqrt (x * x + y * y) * cos (arctan (y / x)) = \<bar>x\<bar>"
    "sqrt (x * x + y * y) * sin (arctan (y / x)) = \<bar>x\<bar> * (y / x)"
proof -
  define t where "t = y / x"
  have e: "x * x + y * y = x\<^sup>2 * (1 + t\<^sup>2)" using assms by (simp add: t_def field_simps power2_eq_square)
  have s: "sqrt (x * x + y * y) = \<bar>x\<bar> * sqrt (1 + t\<^sup>2)" unfolding e by (simp add: real_sqrt_mult)
  have p: "0 < sqrt (1 + t\<^sup>2)" by (simp add: add_pos_nonneg)
  show "sqrt (x * x + y * y) * cos (arctan (y / x)) = \<bar>x\<bar>"
    using p unfolding s t_def [symmetric] by (simp add: cos_arctan)
  show "sqrt (x * x + y * y) * sin (arctan (y / x)) = \<bar>x\<bar> * (y / x)"
    using p unfolding s t_def [symmetric] by (simp add: sin_arctan)
qed

lemma atan2_polar:
  fixes x y :: real
  shows "sqrt (x * x + y * y) * cos (atan2 y x) = x \<and> sqrt (x * x + y * y) * sin (atan2 y x) = y"
proof (cases "x = 0")
  case True
  then show ?thesis by (auto simp: atan2_def real_sqrt_mult_self)
next
  case False
  note q = polar_arctan [OF False, of y]
  have yx: "\<bar>x\<bar> * (y / x) = (if 0 < x then y else - y)" using False by (simp add: abs_if)
  show ?thesis
    using False q by (auto simp: atan2_def yx abs_if)
qed

subsection \<open>Integers and reads\<close>

lemma chk32_ok [simp]: "int32_ok v \<Longrightarrow> chk32 v = Inr v"
  by (simp add: chk32_def)

lemma chk32_overflow [simp]: "\<not> int32_ok v \<Longrightarrow> chk32 v = Inl Int_overflow"
  by (simp add: chk32_def)

lemma int32_ok_range: "0 \<le> v \<Longrightarrow> v < 2 ^ 31 \<Longrightarrow> int32_ok v"
  by (simp add: int32_ok_def)

lemma fetch_ok [simp]: "0 \<le> i \<Longrightarrow> i < int (length xs) \<Longrightarrow> fetch xs i = Inr (xs ! nat i)"
  by (simp add: fetch_def)

lemma fetch_map: "fetch (map g xs) i = (case fetch xs i of Inl e \<Rightarrow> Inl e | Inr v \<Rightarrow> Inr (g v))"
  by (auto simp: fetch_def nat_less_iff)

lemma fetch_oob: "\<not> (0 \<le> i \<and> i < int (length xs)) \<Longrightarrow> fetch xs i = Inl Out_of_bounds"
  by (simp add: fetch_def)

lemma fetch_result: "fetch xs i = Inl e \<Longrightarrow> e = Out_of_bounds"
  by (simp add: fetch_def split: if_splits)

text \<open>Row-major offsets of an index pair or triple inside the box stay below its
  number of points.\<close>

lemma row_major2_bound:
  fixes i j X Y :: int
  assumes "0 \<le> i" "i < X" "0 \<le> j" "j < Y"
  shows "0 \<le> j + Y * i" "j + Y * i < X * Y"
proof -
  have "Y * i \<le> Y * (X - 1)" using assms by (intro mult_left_mono) simp_all
  then show "j + Y * i < X * Y" using assms by (simp add: algebra_simps)
  show "0 \<le> j + Y * i" using assms by simp
qed

lemma row_major3_bound:
  fixes i j k X Y Z :: int
  assumes "0 \<le> i" "i < X" "0 \<le> j" "j < Y" "0 \<le> k" "k < Z"
  shows "0 \<le> k + Z * (j + Y * i)" "k + Z * (j + Y * i) < X * Y * Z"
proof -
  have b: "0 \<le> j + Y * i" "j + Y * i < X * Y" using row_major2_bound assms(1-4) by auto
  then have "Z * (j + Y * i) \<le> Z * (X * Y - 1)" using assms by (intro mult_left_mono) simp_all
  then show "k + Z * (j + Y * i) < X * Y * Z" using assms by (simp add: algebra_simps)
  show "0 \<le> k + Z * (j + Y * i)" using assms b by simp
qed

text \<open>With fewer than \<open>2^31\<close> points, no intermediate of an index expression inside
  the box overflows.\<close>

lemma idx2_ok:
  assumes "0 \<le> i" "i < X" "0 \<le> j" "j < Y" "X * Y < 2 ^ 31"
  shows "idx2 Y i j = Inr (j + Y * i)"
proof -
  have "0 \<le> Y * i" "Y * i \<le> j + Y * i" using assms by simp_all
  moreover have "j + Y * i < X * Y" using row_major2_bound assms(1-4) by blast
  ultimately show ?thesis using assms
    by (simp add: idx2_def add32_def mul32_def int32_ok_range)
qed

lemma idx3_ok:
  assumes "0 \<le> i" "i < X" "0 \<le> j" "j < Y" "0 \<le> k" "k < Z" "X * Y * Z < 2 ^ 31"
  shows "idx3 Y Z i j k = Inr (k + Z * (j + Y * i))"
proof -
  have Y: "0 < Y" and Z: "0 < Z" using assms by simp_all
  have b: "0 \<le> j + Y * i" "j + Y * i < X * Y" using row_major2_bound assms(1-4) by auto
  have c: "k + Z * (j + Y * i) < X * Y * Z" using row_major3_bound assms(1-6) by blast
  have "1 * (j + Y * i) \<le> Z * (j + Y * i)" using b Z by (intro mult_right_mono) simp_all
  moreover have "Y * i \<le> j + Y * i" "Z * (j + Y * i) \<le> k + Z * (j + Y * i)"
    using assms b Z by simp_all
  ultimately have "Y * i \<le> j + Y * i" "j + Y * i \<le> Z * (j + Y * i)"
      "Z * (j + Y * i) \<le> k + Z * (j + Y * i)"
    by simp_all
  then have "int32_ok (Y * i)" "int32_ok (j + Y * i)" "int32_ok (Z * (j + Y * i))"
      "int32_ok (k + Z * (j + Y * i))"
    using b c assms Y by (simp_all add: int32_ok_range)
  then show ?thesis by (simp add: idx3_def add32_def mul32_def)
qed

text \<open>Conversion of an extent that fits in an \<open>int\<close> keeps it.\<close>

lemma to_int32_id [simp]: "int32_ok v \<Longrightarrow> to_int32 v = v"
  by (simp add: to_int32_def int32_ok_def int_word_sint)

text \<open>An extent of \<open>2^32 + n\<close> points converts to \<open>n\<close>.\<close>

lemma to_int32_wrap:
  assumes "0 \<le> n" "n < 2 ^ 31"
  shows "to_int32 (2 ^ 32 + n) = n"
proof -
  have "(2 ^ 32 + n + 2 ^ 31) mod 2 ^ 32 = ((n + 2 ^ 31) + 1 * 2 ^ 32) mod (2 ^ 32 :: int)"
    by (simp add: algebra_simps)
  also have "\<dots> = n + 2 ^ 31" using assms by (simp only: mod_mult_self1) simp
  finally show ?thesis unfolding to_int32_def int_word_sint by simp
qed

text \<open>With non-negative operands every intermediate of an index expression is at
  most its value, so only the value has to fit.\<close>

lemma idx3_nonneg:
  assumes "0 \<le> i" "0 \<le> j" "0 \<le> k" "0 < Y" "0 < Z" "k + Z * (j + Y * i) < 2 ^ 31"
  shows "idx3 Y Z i j k = Inr (k + Z * (j + Y * i))"
proof -
  have b: "0 \<le> Y * i" "0 \<le> j + Y * i" using assms by simp_all
  have "1 * (j + Y * i) \<le> Z * (j + Y * i)" using b assms by (intro mult_right_mono) simp_all
  then have "Y * i \<le> k + Z * (j + Y * i)" "j + Y * i \<le> k + Z * (j + Y * i)"
      "Z * (j + Y * i) \<le> k + Z * (j + Y * i)"
    using assms b by simp_all
  then have "int32_ok (Y * i)" "int32_ok (j + Y * i)" "int32_ok (Z * (j + Y * i))"
      "int32_ok (k + Z * (j + Y * i))"
    using b assms by (simp_all add: int32_ok_range)
  then show ?thesis by (simp add: idx3_def add32_def mul32_def)
qed

lemma idx2_nonneg:
  assumes "0 \<le> i" "0 \<le> j" "0 < Y" "j + Y * i < 2 ^ 31"
  shows "idx2 Y i j = Inr (j + Y * i)"
proof -
  have "0 \<le> Y * i" "Y * i \<le> j + Y * i" using assms by simp_all
  then show ?thesis using assms by (simp add: idx2_def add32_def mul32_def int32_ok_range)
qed

text \<open>Every fault of an index expression is an overflow.\<close>

lemma idx3_result: "idx3 Y Z i j k = Inl e \<Longrightarrow> e = Int_overflow"
  by (simp add: idx3_def add32_def mul32_def chk32_def bind_e_def split: if_splits sum.splits)

lemma idx3_overflow: "\<not> int32_ok (Z * (j + Y * i)) \<Longrightarrow> idx3 Y Z i j k = Inl Int_overflow"
  by (auto simp: idx3_def add32_def mul32_def chk32_def)

lemma idx2_result: "idx2 Y i j = Inl e \<Longrightarrow> e = Int_overflow"
  by (simp add: idx2_def add32_def mul32_def chk32_def bind_e_def split: if_splits sum.splits)

subsection \<open>The printing loop\<close>

text \<open>When no iteration faults, iteration \<open>j\<close> sees the coordinate \<open>c0 + (j+1) d\<close>
  and the loop prints the concatenation of what the iterations print.\<close>

lemma step_iter_run:
  assumes "\<And>j. i \<le> j \<Longrightarrow> j < m \<Longrightarrow> body j (c0 + real (Suc j) * d) = Inr (f j)" "i \<le> m"
  shows "for_upto_e i m (step_iter d body) (c0 + real i * d, ls) =
           Inr (c0 + real m * d, ls @ concat (map f [i..<m]))"
  using assms
proof (induction "m - i" arbitrary: i ls)
  case 0
  then have "m = i" by simp
  then show ?case by (simp add: for_upto_e.simps [of i i])
next
  case (Suc k)
  then have i: "i < m" by simp
  have c: "c0 + real i * d + d = c0 + real (Suc i) * d" by (simp add: algebra_simps)
  have "for_upto_e (Suc i) m (step_iter d body) (c0 + real (Suc i) * d, ls @ f i) =
          Inr (c0 + real m * d, (ls @ f i) @ concat (map f [Suc i..<m]))"
    using Suc.hyps(2) Suc.prems i by (intro Suc.hyps(1)) simp_all
  moreover have "body i (c0 + real i * d + d) = Inr (f i)"
    unfolding c using Suc.prems(1) i by blast
  ultimately show ?case using i
    by (simp add: for_upto_e.simps [of i m] step_iter_def upt_conv_Cons c)
qed

lemma step_loop_ok:
  assumes "\<And>j. j < nat n \<Longrightarrow> body j (c0 + real (Suc j) * d) = Inr (f j)"
  shows "step_loop n c0 d body = Inr (concat (map f [0..<nat n]))"
  using step_iter_run [of 0 "nat n" body c0 d f "[]"] assms by (simp add: step_loop_def)

text \<open>When every iteration either prints or faults with \<open>e\<close>, and one of them
  faults, the loop faults with \<open>e\<close>.\<close>

lemma step_iter_fault:
  assumes "\<And>j c. i \<le> j \<Longrightarrow> j < m \<Longrightarrow> (\<exists>l. body j c = Inr l) \<or> body j c = Inl e"
    and "i \<le> jf" "jf < m" "\<And>c. body jf c = Inl e"
  shows "for_upto_e i m (step_iter d body) st = Inl e"
  using assms
proof (induction "m - i" arbitrary: i st)
  case 0
  then show ?case by simp
next
  case (Suc k)
  obtain c ls where st: "st = (c, ls)" by (cases st)
  have i: "i < m" using Suc.prems by simp
  consider (ok) l where "body i (c + d) = Inr l" | (err) "body i (c + d) = Inl e"
    using Suc.prems(1) [of i "c + d"] i by auto
  then show ?case
  proof cases
    case ok
    then have "jf \<noteq> i" using Suc.prems(4) [of "c + d"] by auto
    then have "for_upto_e (Suc i) m (step_iter d body) (c + d, ls @ l) = Inl e"
      using Suc.hyps(2) Suc.prems by (intro Suc.hyps(1)) simp_all
    then show ?thesis using ok i st by (simp add: for_upto_e.simps [of i m] step_iter_def)
  next
    case err
    then show ?thesis using i st by (simp add: for_upto_e.simps [of i m] step_iter_def)
  qed
qed

lemma step_loop_fault:
  assumes "\<And>j c. j < nat n \<Longrightarrow> (\<exists>l. body j c = Inr l) \<or> body j c = Inl e"
    and "jf < nat n" "\<And>c. body jf c = Inl e"
  shows "step_loop n c0 d body = Inl e"
  using step_iter_fault [of 0 "nat n" body e jf d "(c0, [])"] assms by (simp add: step_loop_def)

lemma step_loop_cases:
  assumes "\<And>j c. j < nat n \<Longrightarrow> (\<exists>l. body j c = Inr l) \<or> body j c = Inl e"
  shows "(\<exists>l. step_loop n c0 d body = Inr l) \<or> step_loop n c0 d body = Inl e"
proof -
  have "(\<exists>st. for_upto_e 0 (nat n) (step_iter d body) (c0, []) = Inr st) \<or>
        for_upto_e 0 (nat n) (step_iter d body) (c0, []) = Inl e"
  proof (rule for_upto_e_cases)
    fix j :: nat and st :: "real \<times> line list" assume j: "0 \<le> j" "j < nat n"
    obtain c ls where st: "st = (c, ls)" by (cases st)
    show "(\<exists>s'. step_iter d body j st = Inr s') \<or> step_iter d body j st = Inl e"
      using assms [OF j(2), of "c + d"] st by (auto simp: step_iter_def)
  qed
  then show ?thesis by (auto simp: step_loop_def)
qed

lemma step_loop_Inr:
  assumes "\<And>j c. j < nat n \<Longrightarrow> \<exists>l. body j c = Inr l"
  shows "\<exists>l. step_loop n c0 d body = Inr l"
proof -
  have "\<exists>st. for_upto_e 0 (nat n) (step_iter d body) (c0, []) = Inr st"
  proof (rule for_upto_e_Inr)
    fix j :: nat and st :: "real \<times> line list" assume j: "0 \<le> j" "j < nat n"
    obtain c ls where st: "st = (c, ls)" by (cases st)
    show "\<exists>s'. step_iter d body j st = Inr s'"
      using assms [OF j(2), of "c + d"] st by (auto simp: step_iter_def)
  qed
  then show ?thesis by (auto simp: step_loop_def)
qed

lemma step_loop_first_fault:
  assumes "0 < n" "\<And>c. body 0 c = Inl e"
  shows "step_loop n c0 d body = Inl e"
proof -
  have "for_upto_e 0 (nat n) (step_iter d body) (c0, []) = Inl e"
    using assms by (intro for_upto_e_fault) (simp_all add: step_iter_def)
  then show ?thesis by (simp add: step_loop_def)
qed

end
