(* ===== verification/Gpo3_Display.thy ===== *)
theory Gpo3_Display
  imports Gpo3_Base
begin

text \<open>
  The display functions of \<open>gpo3.cpp\<close>: the overloads of \<open>display_3D\<close>, \<open>display_2D\<close>
  and \<open>display_1D\<close> for a complex (\<open>fftw_complex *\<close>) and a real (\<open>double *\<close>) field.
  Each reads the grid from the header (converting the \<open>long long\<close> extents to
  \<open>int\<close>), clears the slice bits whose index is out of its guard, and prints either a
  line or a plane of the field through the fixed indices, or the whole field. A
  display returns the lines it prints, or the first fault: an \<open>int\<close> overflow in an
  index expression or a read outside the field.
\<close>

unbundle bit_operations_syntax

section \<open>Shared pieces\<close>

text \<open>\<open>printf(..., (*fkt)(field[ijk][0], field[ijk][1]))\<close> and \<open>printf(..., field[ijk])\<close>:
  the index expression is evaluated, the element read, the value computed from it and
  one line printed.\<close>

definition print_at :: "'a list \<Rightarrow> ('a \<Rightarrow> real) \<Rightarrow> c_fault + int \<Rightarrow> (real \<Rightarrow> line) \<Rightarrow>
    c_fault + line list" where
  "print_at field val ijk mk = bind_e ijk (\<lambda>n. bind_e (fetch field n) (\<lambda>v. Inr [mk (val v)]))"

text \<open>\<open>printf("\n")\<close> after the inner loop of a plane.\<close>

definition with_blank :: "c_fault + line list \<Rightarrow> c_fault + line list" where
  "with_blank m = bind_e m (\<lambda>ls. Inr (ls @ [Blank]))"

section \<open>\<open>display_3D\<close>\<close>

text \<open>The body of both overloads of \<open>display_3D\<close> (lines 68--185 and 188--299); they
  differ only in the value printed for an element, the parameter \<open>val\<close>. The guard of
  \<open>k0\<close> compares with \<open>dimY\<close>, and every guard admits the index equal to the extent,
  as in the source.\<close>

definition display_3D_gen :: "'a list \<Rightarrow> ('a \<Rightarrow> real) \<Rightarrow> generic_header \<Rightarrow> 32 word \<Rightarrow>
    int \<Rightarrow> int \<Rightarrow> int \<Rightarrow> c_fault + line list" where
  "display_3D_gen field val header opt i0 j0 k0 =
     (let dimX = to_int32 (nDimX header); dimY = to_int32 (nDimY header);
          dimZ = to_int32 (nDimZ header);
          dx = hdx header; dy = hdy header; dz = hdz header;
          x0 = xMin header - hdx header; y0 = yMin header - hdy header;
          z0 = zMin header - hdz header;
          opt = (if i0 < 0 \<or> i0 > dimX then opt AND NOT I_CONST else opt);
          opt = (if j0 < 0 \<or> j0 > dimY then opt AND NOT J_CONST else opt);
          opt = (if k0 < 0 \<or> k0 > dimY then opt AND NOT K_CONST else opt);
          pr = (\<lambda>i j k. print_at field val (idx3 dimY dimZ i j k))
      in if opt AND (I_CONST OR J_CONST) = (I_CONST OR J_CONST) then
           step_loop dimZ z0 dz (\<lambda>k z. pr i0 j0 (int k) (Row2 z))
         else if opt AND (I_CONST OR K_CONST) = (I_CONST OR K_CONST) then
           step_loop dimY y0 dy (\<lambda>j y. pr i0 (int j) k0 (Row2 y))
         else if opt AND (J_CONST OR K_CONST) = (J_CONST OR K_CONST) then
           step_loop dimX x0 dx (\<lambda>i x. pr (int i) j0 k0 (Row2 x))
         else if opt AND K_CONST \<noteq> 0 then
           step_loop dimX x0 dx (\<lambda>i x. with_blank
             (step_loop dimY y0 dy (\<lambda>j y. pr (int i) (int j) k0 (Row3 x y))))
         else if opt AND J_CONST \<noteq> 0 then
           step_loop dimX x0 dx (\<lambda>i x. with_blank
             (step_loop dimZ z0 dz (\<lambda>k z. pr (int i) j0 (int k) (Row3 x z))))
         else if opt AND I_CONST \<noteq> 0 then
           step_loop dimY y0 dy (\<lambda>j y. with_blank
             (step_loop dimZ z0 dz (\<lambda>k z. pr i0 (int j) (int k) (Row3 y z))))
         else Inr [])"

text \<open>\<open>display_3D(fftw_complex *, ...)\<close>: the value is \<open>fkt\<close> of the element, \<open>fkt\<close>
  chosen from the options before the guards (lines 83--86).\<close>

definition display_3D_c :: "cplx list \<Rightarrow> generic_header \<Rightarrow> 32 word \<Rightarrow> int \<Rightarrow> int \<Rightarrow> int \<Rightarrow>
    c_fault + line list" where
  "display_3D_c field header opt i0 j0 k0 =
     display_3D_gen field (\<lambda>z. select_mode opt (re z) (im z)) header opt i0 j0 k0"

text \<open>\<open>display_3D(double *, ...)\<close>: the value is the element.\<close>

definition display_3D_r :: "real list \<Rightarrow> generic_header \<Rightarrow> 32 word \<Rightarrow> int \<Rightarrow> int \<Rightarrow> int \<Rightarrow>
    c_fault + line list" where
  "display_3D_r field header opt i0 j0 k0 = display_3D_gen field (\<lambda>v. v) header opt i0 j0 k0"

section \<open>\<open>display_2D\<close>\<close>

text \<open>\<open>display_2D(fftw_complex *, ...)\<close> (lines 302--363). The coordinate \<open>x\<close> (resp.
  \<open>y\<close>) the slice branches compute before their loop is never printed and is left
  out.\<close>

definition display_2D_c :: "cplx list \<Rightarrow> generic_header \<Rightarrow> 32 word \<Rightarrow> int \<Rightarrow> int \<Rightarrow>
    c_fault + line list" where
  "display_2D_c field header opt i0 j0 =
     (let dimX = to_int32 (nDimX header); dimY = to_int32 (nDimY header);
          dx = hdx header; dy = hdy header;
          x0 = xMin header - hdx header; y0 = yMin header - hdy header;
          opt = (if i0 < 0 \<or> i0 > dimX then opt AND NOT I_CONST else opt);
          opt = (if j0 < 0 \<or> j0 > dimY then opt AND NOT J_CONST else opt);
          fkt = select_mode opt;
          pr = (\<lambda>i j. print_at field (\<lambda>z. fkt (re z) (im z)) (idx2 dimY i j))
      in if opt AND I_CONST \<noteq> 0 then
           step_loop dimY y0 dy (\<lambda>j y. pr i0 (int j) (Row2 y))
         else if opt AND J_CONST \<noteq> 0 then
           step_loop dimX x0 dx (\<lambda>i x. pr (int i) j0 (Row2 x))
         else
           step_loop dimX x0 dx (\<lambda>i x. with_blank
             (step_loop dimY y0 dy (\<lambda>j y. pr (int i) (int j) (Row3 x y)))))"

text \<open>\<open>display_2D(double *, ...)\<close> (lines 366--442): the whole plane prints the sign of
  each element under \<open>-bw\<close>.\<close>

definition display_2D_r :: "real list \<Rightarrow> generic_header \<Rightarrow> 32 word \<Rightarrow> int \<Rightarrow> int \<Rightarrow>
    c_fault + line list" where
  "display_2D_r field header opt i0 j0 =
     (let dimX = to_int32 (nDimX header); dimY = to_int32 (nDimY header);
          dx = hdx header; dy = hdy header;
          x0 = xMin header - hdx header; y0 = yMin header - hdy header;
          opt = (if i0 < 0 \<or> i0 > dimX then opt AND NOT I_CONST else opt);
          opt = (if j0 < 0 \<or> j0 > dimY then opt AND NOT J_CONST else opt);
          pr = (\<lambda>f i j. print_at field f (idx2 dimY i j))
      in if opt AND I_CONST \<noteq> 0 then
           step_loop dimY y0 dy (\<lambda>j y. pr (\<lambda>v. v) i0 (int j) (Row2 y))
         else if opt AND J_CONST \<noteq> 0 then
           step_loop dimX x0 dx (\<lambda>i x. pr (\<lambda>v. v) (int i) j0 (Row2 x))
         else if opt AND BW \<noteq> 0 then
           step_loop dimX x0 dx (\<lambda>i x. with_blank
             (step_loop dimY y0 dy (\<lambda>j y. pr sign (int i) (int j) (Row3 x y))))
         else
           step_loop dimX x0 dx (\<lambda>i x. with_blank
             (step_loop dimY y0 dy (\<lambda>j y. pr (\<lambda>v. v) (int i) (int j) (Row3 x y)))))"

section \<open>\<open>display_1D\<close>\<close>

text \<open>\<open>display_1D(fftw_complex *, ...)\<close> (lines 445--460): position, squared modulus,
  real part, imaginary part and phase of every element.\<close>

definition display_1D_c :: "cplx list \<Rightarrow> generic_header \<Rightarrow> c_fault + line list" where
  "display_1D_c field header =
     step_loop (to_int32 (nDimX header)) (xMin header - hdx header) (hdx header)
       (\<lambda>i x. bind_e (fetch field (int i))
          (\<lambda>z. let rt = re z; it = im z in Inr [Row5 x (rt * rt + it * it) rt it (atan2 it rt)]))"

text \<open>\<open>display_1D(double *, ...)\<close> (lines 463--474).\<close>

definition display_1D_r :: "real list \<Rightarrow> generic_header \<Rightarrow> c_fault + line list" where
  "display_1D_r field header =
     step_loop (to_int32 (nDimX header)) (xMin header - hdx header) (hdx header)
       (\<lambda>i x. bind_e (fetch field (int i)) (\<lambda>v. Inr [Row2 x v]))"

text \<open>A header whose extents are positive and whose grid has fewer than \<open>2^31\<close>
  points: every extent fits in an \<open>int\<close> and so does every row-major offset.\<close>

definition grid3_fits :: "generic_header \<Rightarrow> bool" where
  "grid3_fits h \<longleftrightarrow> 0 < nDimX h \<and> 0 < nDimY h \<and> 0 < nDimZ h \<and> nDimX h * nDimY h * nDimZ h < 2 ^ 31"

text \<open>The same for a two-dimensional grid: positive extents and fewer than \<open>2^31\<close>
  points.\<close>

definition grid2_fits :: "generic_header \<Rightarrow> bool" where
  "grid2_fits h \<longleftrightarrow> 0 < nDimX h \<and> 0 < nDimY h \<and> nDimX h * nDimY h < 2 ^ 31"

text \<open>A header for the concrete instances: extents \<open>x, y, z\<close>, unit spacings,
  minima at the origin.\<close>

definition sample_header :: "int \<Rightarrow> int \<Rightarrow> int \<Rightarrow> int \<Rightarrow> generic_header" where
  "sample_header n x y z = \<lparr>nDims = n, nDimX = x, nDimY = y, nDimZ = z, nDatatyp = 0, bAtom = 0,
     bComplex = 0, t = 0, dt = 0, xMin = 0, xMax = real_of_int x, yMin = 0, yMax = real_of_int y,
     zMin = 0, zMax = real_of_int z, hdx = 1, hdy = 1, hdz = 1, hdkx = 1, hdky = 1, hdkz = 1\<rparr>"

section \<open>Lemmas\<close>

lemma print_at_ok [simp]:
  "0 \<le> n \<Longrightarrow> n < int (length field) \<Longrightarrow> print_at field val (Inr n) mk = Inr [mk (val (field ! nat n))]"
  by (simp add: print_at_def)

lemma print_at_oob:
  "\<not> (0 \<le> n \<and> n < int (length field)) \<Longrightarrow> print_at field val (Inr n) mk = Inl Out_of_bounds"
  by (simp add: print_at_def fetch_oob)

lemma print_at_cases:
  "(\<exists>l. print_at field val (Inr n) mk = Inr l) \<or> print_at field val (Inr n) mk = Inl Out_of_bounds"
  by (cases "0 \<le> n \<and> n < int (length field)") (simp_all add: print_at_oob)

text \<open>Reading a mapped field is reading the field and mapping the value.\<close>

lemma print_at_map: "print_at (map g field) val = print_at field (\<lambda>v. val (g v))"
  by (intro ext) (simp add: print_at_def bind_e_def fetch_map split: sum.splits)

lemma print_at_Inl [simp]: "print_at field val (Inl e) mk = Inl e"
  by (simp add: print_at_def)

lemma with_blank_Inr [simp]: "with_blank (Inr ls) = Inr (ls @ [Blank])"
  and with_blank_Inl [simp]: "with_blank (Inl e) = Inl e"
  by (simp_all add: with_blank_def)

lemma with_blank_ex: "\<exists>l. m = Inr l \<Longrightarrow> \<exists>l. with_blank m = Inr l"
  by auto

text \<open>A plane loop faults when one cell faults and every other cell prints or
  faults the same way.\<close>

lemma plane_loop_fault:
  assumes "\<And>i j x y. i < nat n \<Longrightarrow> j < nat m \<Longrightarrow> (\<exists>l. cell i j x y = Inr l) \<or> cell i j x y = Inl e"
    "ia < nat n" "ja < nat m" "\<And>x y. cell ia ja x y = Inl e"
  shows "step_loop n a0 da (\<lambda>i x. with_blank (step_loop m b0 db (\<lambda>j y. cell i j x y))) = Inl e"
proof (rule step_loop_fault [where jf = ia])
  show "(\<exists>l. with_blank (step_loop m b0 db (\<lambda>j y. cell i j x y)) = Inr l) \<or>
      with_blank (step_loop m b0 db (\<lambda>j y. cell i j x y)) = Inl e" if "i < nat n" for i x
  proof -
    have "(\<exists>l. step_loop m b0 db (\<lambda>j y. cell i j x y) = Inr l) \<or> step_loop m b0 db (\<lambda>j y. cell i j x y) = Inl e"
      by (rule step_loop_cases) (use assms(1) that in blast)
    then show ?thesis by auto
  qed
  show "with_blank (step_loop m b0 db (\<lambda>j y. cell ia j x y)) = Inl e" for x
  proof -
    have "step_loop m b0 db (\<lambda>j y. cell ia j x y) = Inl e"
      by (rule step_loop_fault [where jf = ja]) (use assms in blast)+
    then show ?thesis by simp
  qed
qed (rule assms(2))

lemma grid3_fits_dims:
  assumes "grid3_fits h"
  shows "to_int32 (nDimX h) = nDimX h" "to_int32 (nDimY h) = nDimY h" "to_int32 (nDimZ h) = nDimZ h"
proof -
  have p: "0 < nDimX h" "0 < nDimY h" "0 < nDimZ h" "nDimX h * nDimY h * nDimZ h < 2 ^ 31"
    using assms by (simp_all add: grid3_fits_def)
  have xy: "1 \<le> nDimX h * nDimY h" using p by (simp add: int_one_le_iff_zero_less)
  have a: "nDimX h * 1 \<le> nDimX h * nDimY h" "1 * nDimY h \<le> nDimX h * nDimY h"
    using p by (intro mult_left_mono mult_right_mono; simp)+
  have b: "nDimX h * nDimY h * 1 \<le> nDimX h * nDimY h * nDimZ h"
      "1 * nDimZ h \<le> nDimX h * nDimY h * nDimZ h"
    using p xy by (intro mult_left_mono mult_right_mono; simp)+
  have "nDimX h < 2 ^ 31" "nDimY h < 2 ^ 31" "nDimZ h < 2 ^ 31"
    using a b p(4) by simp_all
  then show "to_int32 (nDimX h) = nDimX h" "to_int32 (nDimY h) = nDimY h"
      "to_int32 (nDimZ h) = nDimZ h"
    using p by (simp_all add: int32_ok_def)
qed

text \<open>The coordinate printed by iteration \<open>k\<close> of a loop that starts one step before
  the minimum.\<close>

lemma coord_step: "m - d + real (Suc k) * d = m + real k * d"
  by (simp add: algebra_simps)

text \<open>\<open>display_1D(double *, ...)\<close> prints one row per element, at \<open>xMin + i dx\<close>.\<close>

lemma display_1D_r_rows:
  assumes "to_int32 (nDimX h) = m" "0 \<le> m" "nat m \<le> length field"
  shows "display_1D_r field h = Inr (map (\<lambda>i. Row2 (xMin h + real i * hdx h) (field ! i)) [0..<nat m])"
proof -
  have "display_1D_r field h =
      Inr (concat (map (\<lambda>i. [Row2 (xMin h + real i * hdx h) (field ! i)]) [0..<nat m]))"
    unfolding display_1D_r_def assms(1)
  proof (rule step_loop_ok)
    fix j assume "j < nat m"
    then show "bind_e (fetch field (int j)) (\<lambda>v. Inr [Row2 (xMin h - hdx h + real (Suc j) * hdx h) v]) =
        Inr [Row2 (xMin h + real j * hdx h) (field ! j)]"
      using assms(3) unfolding coord_step by simp
  qed
  then show ?thesis by simp
qed

lemma display_1D_r_eq:
  assumes "int32_ok (nDimX h)" "0 \<le> nDimX h" "nat (nDimX h) \<le> length field"
  shows "display_1D_r field h = Inr (map (\<lambda>i. Row2 (xMin h + real i * hdx h) (field ! i)) [0..<nat (nDimX h)])"
  using display_1D_r_rows [OF to_int32_id [OF assms(1)] assms(2,3)] .

text \<open>\<open>display_1D(fftw_complex *, ...)\<close> prints one row per element.\<close>

lemma display_1D_c_eq:
  assumes "int32_ok (nDimX h)" "0 \<le> nDimX h" "nat (nDimX h) \<le> length field"
  shows "display_1D_c field h = Inr (map (\<lambda>i. Row5 (xMin h + real i * hdx h)
      (re (field ! i) * re (field ! i) + im (field ! i) * im (field ! i)) (re (field ! i)) (im (field ! i))
      (atan2 (im (field ! i)) (re (field ! i)))) [0..<nat (nDimX h)])"
proof -
  have "display_1D_c field h = Inr (concat (map (\<lambda>i. [Row5 (xMin h + real i * hdx h)
      (re (field ! i) * re (field ! i) + im (field ! i) * im (field ! i)) (re (field ! i)) (im (field ! i))
      (atan2 (im (field ! i)) (re (field ! i)))]) [0..<nat (nDimX h)]))"
    unfolding display_1D_c_def to_int32_id [OF assms(1)]
  proof (rule step_loop_ok)
    fix j assume "j < nat (nDimX h)"
    then show "bind_e (fetch field (int j)) (\<lambda>z. let rt = re z; it = im z
          in Inr [Row5 (xMin h - hdx h + real (Suc j) * hdx h) (rt * rt + it * it) rt it (atan2 it rt)]) =
        Inr [Row5 (xMin h + real j * hdx h)
          (re (field ! j) * re (field ! j) + im (field ! j) * im (field ! j)) (re (field ! j)) (im (field ! j))
          (atan2 (im (field ! j)) (re (field ! j)))]"
      using assms(3) unfolding coord_step by (simp add: Let_def)
  qed
  then show ?thesis by simp
qed

subsection \<open>Two-dimensional grids\<close>

lemma grid2_fits_dims:
  assumes "grid2_fits h"
  shows "to_int32 (nDimX h) = nDimX h" "to_int32 (nDimY h) = nDimY h"
proof -
  have p: "0 < nDimX h" "0 < nDimY h" "nDimX h * nDimY h < 2 ^ 31"
    using assms by (simp_all add: grid2_fits_def)
  have a: "nDimX h * 1 \<le> nDimX h * nDimY h" "1 * nDimY h \<le> nDimX h * nDimY h"
    using p by (intro mult_left_mono mult_right_mono; simp)+
  have "nDimX h < 2 ^ 31" using a(1) p(3) by linarith
  moreover have "nDimY h < 2 ^ 31" using a(2) p(3) by linarith
  ultimately show "to_int32 (nDimX h) = nDimX h" "to_int32 (nDimY h) = nDimY h"
    using p by (simp_all add: int32_ok_def)
qed

text \<open>A cell \<open>field[j+dimY*i]\<close> inside the grid prints its element.\<close>

lemma cell2_ok:
  assumes "0 \<le> i" "i < X" "0 \<le> j" "j < Y" "X * Y < 2 ^ 31" "nat (X * Y) \<le> length field"
  shows "print_at field val (idx2 Y i j) mk = Inr [mk (val (field ! nat (j + Y * i)))]"
proof -
  have "0 \<le> j + Y * i" "j + Y * i < X * Y" using row_major2_bound assms(1-4) by blast+
  then show ?thesis using assms idx2_ok [OF assms(1-5)] by simp
qed

lemma cell2_ex:
  assumes "0 \<le> i" "i < X" "0 \<le> j" "j < Y" "X * Y < 2 ^ 31" "nat (X * Y) \<le> length field"
  shows "\<exists>l. print_at field val (idx2 Y i j) mk = Inr l"
  using cell2_ok [OF assms] by blast

lemma nat_row_major2: "0 \<le> Y \<Longrightarrow> nat (int j + Y * int i) = j + nat Y * i"
  by (simp add: nat_add_distrib nat_mult_distrib)

text \<open>A plane loop whose cells all print one row prints those rows, a blank line after
  each outer iteration.\<close>

lemma plane_loop_ok:
  assumes "\<And>i j. i < nat n \<Longrightarrow> j < nat m \<Longrightarrow>
      cell i j (a0 + real (Suc i) * da) (b0 + real (Suc j) * db) = Inr [row i j]"
  shows "step_loop n a0 da (\<lambda>i x. with_blank (step_loop m b0 db (\<lambda>j y. cell i j x y))) =
     Inr (concat (map (\<lambda>i. map (row i) [0..<nat m] @ [Blank]) [0..<nat n]))"
proof (rule step_loop_ok)
  fix i assume i: "i < nat n"
  have "step_loop m b0 db (\<lambda>j y. cell i j (a0 + real (Suc i) * da) y) =
      Inr (concat (map (\<lambda>j. [row i j]) [0..<nat m]))"
    by (rule step_loop_ok) (rule assms [OF i])
  then show "with_blank (step_loop m b0 db (\<lambda>j y. cell i j (a0 + real (Suc i) * da) y)) =
      Inr (map (row i) [0..<nat m] @ [Blank])" by (simp add: map_concat)
qed

text \<open>Away from the off-by-one boundaries of the guards both overloads of
  \<open>display_2D\<close> print without a fault on a grid that fits, whatever the options.\<close>

lemma display_2D_safe:
  assumes "grid2_fits h" "i0 \<noteq> nDimX h" "j0 \<noteq> nDimY h"
  shows "nat (nDimX h * nDimY h) \<le> length field \<Longrightarrow> \<exists>ls. display_2D_r field h opt i0 j0 = Inr ls"
    and "nat (nDimX h * nDimY h) \<le> length cfield \<Longrightarrow> \<exists>ls. display_2D_c cfield h opt i0 j0 = Inr ls"
proof -
  have p: "0 < nDimX h" "0 < nDimY h" "nDimX h * nDimY h < 2 ^ 31" using assms(1) by (simp_all add: grid2_fits_def)
  have gi: "\<not> (i0 < 0 \<or> i0 > nDimX h) \<Longrightarrow> 0 \<le> i0 \<and> i0 < nDimX h" using assms(2) by auto
  have gj: "\<not> (j0 < 0 \<or> j0 > nDimY h) \<Longrightarrow> 0 \<le> j0 \<and> j0 < nDimY h" using assms(3) by auto
  show "\<exists>ls. display_2D_r field h opt i0 j0 = Inr ls" if "nat (nDimX h * nDimY h) \<le> length field"
    unfolding display_2D_r_def Let_def grid2_fits_dims [OF assms(1)]
    using gi gj p that
    by (simp add: opt_simps; intro conjI impI step_loop_Inr with_blank_ex cell2_ex; simp)
  show "\<exists>ls. display_2D_c cfield h opt i0 j0 = Inr ls" if "nat (nDimX h * nDimY h) \<le> length cfield"
    unfolding display_2D_c_def Let_def grid2_fits_dims [OF assms(1)]
    using gi gj p that
    by (simp add: opt_simps; intro conjI impI step_loop_Inr with_blank_ex cell2_ex; simp)
qed

subsection \<open>The \<open>-bw\<close> bit\<close>

lemma display_3D_gen_or_BW:
  "display_3D_gen field val h (opt OR BW) i0 j0 k0 = display_3D_gen field val h opt i0 j0 k0"
  by (simp only: display_3D_gen_def Let_def guard_or_BW mask_or_BW)

section \<open>Properties\<close>

text \<open>C14: with both \<open>-i\<close> and \<open>-j\<close> inside the grid, \<open>display_3D\<close> prints the line
  of the field through \<open>(i0, j0)\<close> along \<open>z\<close>: one row per \<open>k\<close>, its position
  \<open>zMin + k dz\<close> and the value of the element at the row-major offset of
  \<open>(i0, j0, k)\<close>, and does not fault.\<close>

theorem display_3D_line_ij:
  assumes "grid3_fits header" "length field = nat (nDimX header * nDimY header * nDimZ header)"
    "0 \<le> i0" "i0 < nDimX header" "0 \<le> j0" "j0 < nDimY header"
    "opt AND (I_CONST OR J_CONST) = (I_CONST OR J_CONST)"
  shows "display_3D_gen field val header opt i0 j0 k0 =
           Inr (map (\<lambda>k. Row2 (zMin header + real k * hdz header)
                   (val (field ! nat (int k + nDimZ header * (j0 + nDimY header * i0)))))
                 [0..<nat (nDimZ header)])"
proof -
  let ?X = "nDimX header" and ?Y = "nDimY header" and ?Z = "nDimZ header"
  have p: "0 < ?Z" "?X * ?Y * ?Z < 2 ^ 31" using assms(1) by (simp_all add: grid3_fits_def)
  have row: "print_at field val (idx3 ?Y ?Z i0 j0 (int k))
               (Row2 (zMin header - hdz header + real (Suc k) * hdz header)) =
             Inr [Row2 (zMin header + real k * hdz header)
                    (val (field ! nat (int k + ?Z * (j0 + ?Y * i0))))]" if "k < nat ?Z" for k
  proof -
    have "int k < ?Z" using that by simp
    then have "idx3 ?Y ?Z i0 j0 (int k) = Inr (int k + ?Z * (j0 + ?Y * i0))"
      "int k + ?Z * (j0 + ?Y * i0) < ?X * ?Y * ?Z" "0 \<le> int k + ?Z * (j0 + ?Y * i0)"
      using assms(3-6) p idx3_ok row_major3_bound by auto
    then show ?thesis using assms(2) unfolding coord_step by simp
  qed
  have "step_loop ?Z (zMin header - hdz header) (hdz header)
      (\<lambda>k z. print_at field val (idx3 ?Y ?Z i0 j0 (int k)) (Row2 z)) =
      Inr (concat (map (\<lambda>k. [Row2 (zMin header + real k * hdz header)
                   (val (field ! nat (int k + ?Z * (j0 + ?Y * i0))))]) [0..<nat ?Z]))"
    by (rule step_loop_ok, rule row)
  then have loop: "step_loop ?Z (zMin header - hdz header) (hdz header)
      (\<lambda>k z. print_at field val (idx3 ?Y ?Z i0 j0 (int k)) (Row2 z)) =
      Inr (map (\<lambda>k. Row2 (zMin header + real k * hdz header)
                   (val (field ! nat (int k + ?Z * (j0 + ?Y * i0))))) [0..<nat ?Z])"
    by simp
  show ?thesis
    using assms(3-7) loop by (simp add: display_3D_gen_def Let_def grid3_fits_dims [OF assms(1)] opt_simps)
qed

theorem display_3D_line_ij_witness:
  "grid3_fits (sample_header 3 2 2 2) \<and>
   display_3D_gen [0, 1, 2, 3, 4, 5, 6, 7 :: real] (\<lambda>v. v) (sample_header 3 2 2 2) 3 1 0 (-1) =
     Inr [Row2 0 4, Row2 1 5]"
proof -
  have h1: "grid3_fits (sample_header 3 2 2 2)" by (simp add: grid3_fits_def sample_header_def)
  have h2: "length [0, 1, 2, 3, 4, 5, 6, 7 :: real] =
      nat (nDimX (sample_header 3 2 2 2) * nDimY (sample_header 3 2 2 2) * nDimZ (sample_header 3 2 2 2))"
    by (simp add: sample_header_def)
  have h7: "(3::32 word) AND (I_CONST OR J_CONST) = (I_CONST OR J_CONST)" by (simp add: opt_bits)
  have "display_3D_gen [0, 1, 2, 3, 4, 5, 6, 7 :: real] (\<lambda>v. v) (sample_header 3 2 2 2) 3 1 0 (-1) =
     Inr (map (\<lambda>k. Row2 (zMin (sample_header 3 2 2 2) + real k * hdz (sample_header 3 2 2 2))
                   ([0, 1, 2, 3, 4, 5, 6, 7 :: real] ! nat (int k + nDimZ (sample_header 3 2 2 2) *
                       (0 + nDimY (sample_header 3 2 2 2) * 1))))
                 [0..<nat (nDimZ (sample_header 3 2 2 2))])"
    by (rule display_3D_line_ij [OF h1 h2 _ _ _ _ h7]) (simp_all add: sample_header_def)
  then show ?thesis using h1 by (simp add: sample_header_def upt_conv_Cons)
qed

text \<open>C15: the guard \<open>i0 > dimX\<close> admits \<open>i0 = dimX\<close>, one past the last plane:
  with \<open>-i\<close> at the extent and \<open>-j\<close> inside the grid, \<open>display_3D\<close> reads beyond the field
  at its first element (an out-of-bounds read), on every grid whose offsets fit in an
  \<open>int\<close>.\<close>

theorem display_3D_i0_off_by_one:
  assumes "grid3_fits header" "length field = nat (nDimX header * nDimY header * nDimZ header)"
    "(nDimX header + 1) * nDimY header * nDimZ header < 2 ^ 31"
    "0 \<le> j0" "j0 < nDimY header" "opt AND (I_CONST OR J_CONST) = (I_CONST OR J_CONST)"
  shows "display_3D_gen field val header opt (nDimX header) j0 k0 = Inl Out_of_bounds"
proof -
  let ?X = "nDimX header" and ?Y = "nDimY header" and ?Z = "nDimZ header"
  have p: "0 < ?X" "0 < ?Y" "0 < ?Z" using assms(1) by (simp_all add: grid3_fits_def)
  have oob: "print_at field val (idx3 ?Y ?Z ?X j0 (int k)) mk = Inl Out_of_bounds" if "k < nat ?Z" for k mk
  proof -
    have lo: "?X * ?Y * ?Z \<le> int k + ?Z * (j0 + ?Y * ?X)"
      using assms(4) p by (simp add: algebra_simps)
    have "int k + ?Z * (j0 + ?Y * ?X) \<le> (?Z - 1) + ?Z * ((?Y - 1) + ?Y * ?X)"
      using that assms(4,5) p by (intro add_mono mult_left_mono) simp_all
    also have "\<dots> < (?X + 1) * ?Y * ?Z" by (simp add: algebra_simps)
    finally have "int k + ?Z * (j0 + ?Y * ?X) < 2 ^ 31" using assms(3) by simp
    then have "idx3 ?Y ?Z ?X j0 (int k) = Inr (int k + ?Z * (j0 + ?Y * ?X))"
      using assms(4) p by (intro idx3_nonneg) simp_all
    then show ?thesis using lo assms(2) p by (simp add: print_at_oob)
  qed
  have "step_loop ?Z (zMin header - hdz header) (hdz header)
      (\<lambda>k z. print_at field val (idx3 ?Y ?Z ?X j0 (int k)) (Row2 z)) = Inl Out_of_bounds"
    using p(3) oob [of 0] by (intro step_loop_first_fault) simp_all
  then show ?thesis
    using assms(4-6) p by (simp add: display_3D_gen_def Let_def grid3_fits_dims [OF assms(1)] opt_simps)
qed

theorem display_3D_i0_off_by_one_witness:
  "grid3_fits (sample_header 3 2 2 2) \<and>
   display_3D_gen [0, 1, 2, 3, 4, 5, 6, 7 :: real] (\<lambda>v. v) (sample_header 3 2 2 2) 3 2 0 (-1) =
     Inl Out_of_bounds"
proof -
  have h1: "grid3_fits (sample_header 3 2 2 2)" by (simp add: grid3_fits_def sample_header_def)
  have "display_3D_gen [0, 1, 2, 3, 4, 5, 6, 7 :: real] (\<lambda>v. v) (sample_header 3 2 2 2) 3
      (nDimX (sample_header 3 2 2 2)) 0 (-1) = Inl Out_of_bounds"
    by (rule display_3D_i0_off_by_one [OF h1]) (simp_all add: sample_header_def opt_bits)
  then show ?thesis using h1 by (simp add: sample_header_def)
qed

text \<open>C16: the guard of \<open>k0\<close> compares with \<open>dimY\<close> instead of \<open>dimZ\<close>: with only
  \<open>-k\<close> set and \<open>dimZ \<le> k0 \<le> dimY\<close>, the plane branch runs and its last row reads
  beyond the field.\<close>

theorem display_3D_k_guard:
  assumes "grid3_fits header" "length field = nat (nDimX header * nDimY header * nDimZ header)"
    "nDimX header * nDimY header * nDimZ header + nDimY header < 2 ^ 31"
    "nDimZ header \<le> k0" "k0 \<le> nDimY header"
    "opt AND K_CONST \<noteq> 0" "opt AND I_CONST = 0" "opt AND J_CONST = 0"
  shows "display_3D_gen field val header opt i0 j0 k0 = Inl Out_of_bounds"
proof -
  let ?X = "nDimX header" and ?Y = "nDimY header" and ?Z = "nDimZ header"
  have p: "0 < ?X" "0 < ?Y" "0 < ?Z" using assms(1) by (simp_all add: grid3_fits_def)
  have idx: "idx3 ?Y ?Z (int i) (int j) k0 = Inr (k0 + ?Z * (int j + ?Y * int i))"
    if "i < nat ?X" "j < nat ?Y" for i j
  proof -
    have "int j + ?Y * int i < ?X * ?Y" using that row_major2_bound [of "int i" ?X "int j" ?Y] by simp
    then have "?Z * (int j + ?Y * int i) \<le> ?Z * (?X * ?Y - 1)" using p by (intro mult_left_mono) simp_all
    then have "?Z + ?Z * (int j + ?Y * int i) \<le> ?X * ?Y * ?Z" by (simp add: algebra_simps)
    then have "k0 + ?Z * (int j + ?Y * int i) < 2 ^ 31" using assms(3,5) p(3) by linarith
    then show ?thesis using p assms(4) by (intro idx3_nonneg) simp_all
  qed
  have last: "?X * ?Y * ?Z \<le> k0 + ?Z * (int (nat ?Y - 1) + ?Y * int (nat ?X - 1))"
  proof -
    have e: "int (nat ?Y - 1) = ?Y - 1" "int (nat ?X - 1) = ?X - 1" using p by simp_all
    have "?Z * ((?Y - 1) + ?Y * (?X - 1)) = ?Z * (?X * ?Y - 1)" by (simp add: algebra_simps)
    moreover have "?X * ?Y * ?Z \<le> k0 + ?Z * (?X * ?Y - 1)" using assms(4) by (simp add: algebra_simps)
    ultimately show ?thesis unfolding e by linarith
  qed
  have "step_loop ?X (xMin header - hdx header) (hdx header) (\<lambda>i x. with_blank
      (step_loop ?Y (yMin header - hdy header) (hdy header)
        (\<lambda>j y. print_at field val (idx3 ?Y ?Z (int i) (int j) k0) (Row3 x y)))) = Inl Out_of_bounds"
  proof (rule plane_loop_fault [where ia = "nat ?X - 1" and ja = "nat ?Y - 1"])
    show "(\<exists>l. print_at field val (idx3 ?Y ?Z (int i) (int j) k0) (Row3 x y) = Inr l) \<or>
        print_at field val (idx3 ?Y ?Z (int i) (int j) k0) (Row3 x y) = Inl Out_of_bounds"
      if "i < nat ?X" "j < nat ?Y" for i j x y
      using idx [OF that] by (simp add: print_at_cases)
    show "print_at field val (idx3 ?Y ?Z (int (nat ?X - 1)) (int (nat ?Y - 1)) k0) (Row3 x y) =
        Inl Out_of_bounds" for x y
      using idx [of "nat ?X - 1" "nat ?Y - 1"] last p assms(2) by (simp only:) (simp add: print_at_oob)
  qed (use p in simp_all)
  then show ?thesis
    using assms(4-8) p by (simp add: display_3D_gen_def Let_def grid3_fits_dims [OF assms(1)] opt_simps)
qed

theorem display_3D_k_guard_witness:
  "grid3_fits (sample_header 3 2 4 2) \<and>
   display_3D_gen (replicate 16 (0::real)) (\<lambda>v. v) (sample_header 3 2 4 2) 4 (-1) (-1) 3 =
     Inl Out_of_bounds"
proof -
  have h1: "grid3_fits (sample_header 3 2 4 2)" by (simp add: grid3_fits_def sample_header_def)
  have "display_3D_gen (replicate 16 (0::real)) (\<lambda>v. v) (sample_header 3 2 4 2) 4 (-1) (-1) 3 =
      Inl Out_of_bounds"
    by (rule display_3D_k_guard [OF h1]) (simp_all add: sample_header_def opt_bits)
  then show ?thesis using h1 by simp
qed

text \<open>C17: the index \<open>k+dimZ*(j0+dimY*i0)\<close> is computed in 32-bit \<open>int\<close>: on a grid
  whose offset \<open>dimZ*(j0+dimY*i0)\<close> reaches \<open>2^31\<close> (a valid file of more than
  \<open>2^31\<close> points), \<open>display_3D\<close> overflows at its first row, before any read.\<close>

theorem display_3D_index_overflow:
  assumes "int32_ok (nDimX header)" "int32_ok (nDimY header)" "int32_ok (nDimZ header)"
    "0 < nDimZ header" "0 \<le> i0" "i0 \<le> nDimX header" "0 \<le> j0" "j0 \<le> nDimY header"
    "opt AND (I_CONST OR J_CONST) = (I_CONST OR J_CONST)"
    "2 ^ 31 \<le> nDimZ header * (j0 + nDimY header * i0)"
  shows "display_3D_gen field val header opt i0 j0 k0 = Inl Int_overflow"
proof -
  have "\<not> int32_ok (nDimZ header * (j0 + nDimY header * i0))" using assms(10) by (simp add: int32_ok_def)
  then have "step_loop (nDimZ header) (zMin header - hdz header) (hdz header)
      (\<lambda>k z. print_at field val (idx3 (nDimY header) (nDimZ header) i0 j0 (int k)) (Row2 z)) = Inl Int_overflow"
    using assms(4) by (intro step_loop_first_fault) (simp_all add: idx3_overflow)
  then show ?thesis
    using assms by (simp add: display_3D_gen_def Let_def opt_simps)
qed

theorem display_3D_index_overflow_witness:
  "int32_ok (nDimX (sample_header 3 2048 2048 2048)) \<and>
   display_3D_gen ([] :: real list) (\<lambda>v. v) (sample_header 3 2048 2048 2048) 3 2047 2047 (-1) =
     Inl Int_overflow"
proof -
  have h: "int32_ok (nDimX (sample_header 3 2048 2048 2048))"
    "int32_ok (nDimY (sample_header 3 2048 2048 2048))"
    "int32_ok (nDimZ (sample_header 3 2048 2048 2048))"
    by (simp_all add: int32_ok_def sample_header_def)
  have "display_3D_gen ([] :: real list) (\<lambda>v. v) (sample_header 3 2048 2048 2048) 3 2047 2047 (-1) =
      Inl Int_overflow"
    by (rule display_3D_index_overflow [OF h]) (simp_all add: sample_header_def opt_bits)
  then show ?thesis using h by simp
qed

text \<open>C18: away from the two flawed boundaries of the guards (\<open>i0 = dimX\<close>,
  \<open>j0 = dimY\<close>, \<open>dimZ \<le> k0 \<le> dimY\<close>), \<open>display_3D\<close> never faults on a grid
  whose offsets fit in an \<open>int\<close>, whatever the options: every branch reads inside the
  field and no index overflows.\<close>

theorem display_3D_safe:
  assumes "grid3_fits header" "length field = nat (nDimX header * nDimY header * nDimZ header)"
    "i0 \<noteq> nDimX header" "j0 \<noteq> nDimY header" "\<not> (nDimZ header \<le> k0 \<and> k0 \<le> nDimY header)"
  shows "\<exists>ls. display_3D_gen field val header opt i0 j0 k0 = Inr ls"
proof -
  let ?X = "nDimX header" and ?Y = "nDimY header" and ?Z = "nDimZ header"
  have p: "0 < ?X" "0 < ?Y" "0 < ?Z" "?X * ?Y * ?Z < 2 ^ 31" using assms(1) by (simp_all add: grid3_fits_def)
  have cell: "\<exists>l. print_at field val (idx3 ?Y ?Z i j k) mk = Inr l"
    if "0 \<le> i" "i < ?X" "0 \<le> j" "j < ?Y" "0 \<le> k" "k < ?Z" for i j k mk
  proof -
    have "idx3 ?Y ?Z i j k = Inr (k + ?Z * (j + ?Y * i))" using that p(4) by (rule idx3_ok)
    moreover have "0 \<le> k + ?Z * (j + ?Y * i)" "k + ?Z * (j + ?Y * i) < ?X * ?Y * ?Z"
      using that row_major3_bound by blast+
    ultimately show ?thesis using assms(2) by simp
  qed
  have gi: "\<not> (i0 < 0 \<or> i0 > ?X) \<Longrightarrow> 0 \<le> i0 \<and> i0 < ?X" using assms(3) by auto
  have gj: "\<not> (j0 < 0 \<or> j0 > ?Y) \<Longrightarrow> 0 \<le> j0 \<and> j0 < ?Y" using assms(4) by auto
  have gk: "\<not> (k0 < 0 \<or> k0 > ?Y) \<Longrightarrow> 0 \<le> k0 \<and> k0 < ?Z" using assms(5) by auto
  show ?thesis
    unfolding display_3D_gen_def Let_def grid3_fits_dims [OF assms(1)]
    using gi gj gk p
    by (simp add: opt_simps; intro conjI impI step_loop_Inr with_blank_ex cell; simp)
qed

theorem display_3D_safe_witness:
  "grid3_fits (sample_header 3 2 2 2) \<and>
   (\<exists>ls. display_3D_gen [0, 1, 2, 3, 4, 5, 6, 7 :: real] (\<lambda>v. v) (sample_header 3 2 2 2) 4 0 0 1 = Inr ls)"
proof -
  have h1: "grid3_fits (sample_header 3 2 2 2)" by (simp add: grid3_fits_def sample_header_def)
  have "\<exists>ls. display_3D_gen [0, 1, 2, 3, 4, 5, 6, 7 :: real] (\<lambda>v. v) (sample_header 3 2 2 2) 4 0 0 1 = Inr ls"
    by (rule display_3D_safe [OF h1]) (simp_all add: sample_header_def)
  then show ?thesis using h1 by simp
qed

text \<open>C19: without \<open>-bw\<close> the complex overload of \<open>display_2D\<close> prints what the real
  overload prints for the field of the selected mode's values; with \<open>-bw\<close> the real
  overload prints signs, which the complex one ignores.\<close>

theorem display_2D_c_refines_r:
  assumes "opt AND BW = 0"
  shows "display_2D_c field header opt i0 j0 =
     display_2D_r (map (\<lambda>z. select_mode opt (re z) (im z)) field) header opt i0 j0"
  by (simp only: display_2D_c_def display_2D_r_def Let_def print_at_map select_mode_guard BW_guard
      assms simp_thms if_False)

theorem display_2D_c_refines_r_witness:
  "(1::32 word) AND BW = 0 \<and>
   display_2D_c [(1, 2), (3, 4)] (sample_header 2 2 1 1) 1 1 0 =
     display_2D_r (map (\<lambda>z. select_mode 1 (re z) (im z)) [(1, 2), (3, 4)]) (sample_header 2 2 1 1) 1 1 0"
  using display_2D_c_refines_r [of 1 "[(1, 2), (3, 4)]" "sample_header 2 2 1 1" 1 0]
  by (simp add: opt_bits)

text \<open>C25: each row \<open>display_1D\<close> prints for a complex field determines its element: it
  carries the real and imaginary parts, and the square root of its second column
  times \<open>cis\<close> of its phase column is the element again.\<close>

theorem display_1D_c_polar:
  assumes "int32_ok (nDimX h)" "0 \<le> nDimX h" "nat (nDimX h) \<le> length field"
  shows "\<exists>ls. display_1D_c field h = Inr ls \<and> length ls = nat (nDimX h) \<and>
     (\<forall>i < length ls. \<exists>m ph. ls ! i = Row5 (xMin h + real i * hdx h) m (re (field ! i)) (im (field ! i)) ph \<and>
        complex_of_real (sqrt m) * cis ph = to_complex (field ! i))"
proof -
  have pol: "complex_of_real (sqrt (a * a + b * b)) * cis (atan2 b a) = Complex a b" for a b :: real
    using atan2_polar [of a b] by (simp add: complex_eq_iff)
  show ?thesis
    using assms by (auto simp: display_1D_c_eq pol to_complex_def)
qed

theorem display_1D_c_polar_witness:
  "\<exists>ls. display_1D_c [(3, 4)] (sample_header 1 1 1 1) = Inr ls \<and> length ls = 1 \<and>
     (\<forall>i < length ls. \<exists>m ph. ls ! i = Row5 (xMin (sample_header 1 1 1 1) + real i * hdx (sample_header 1 1 1 1))
        m (re ([(3, 4)] ! i)) (im ([(3, 4)] ! i)) ph \<and>
        complex_of_real (sqrt m) * cis ph = to_complex ([(3, 4)] ! i))"
  using display_1D_c_polar [of "sample_header 1 1 1 1" "[(3, 4)]"] by (simp add: sample_header_def int32_ok_def)

text \<open>C26: \<open>display_2D\<close> has the same off-by-one guard: with \<open>-i\<close> equal to \<open>dimX\<close>
  its line branch reads beyond the field at its first row.\<close>

theorem display_2D_r_i0_off_by_one:
  assumes "0 < nDimX h" "0 < nDimY h" "(nDimX h + 1) * nDimY h < 2 ^ 31"
    "length field = nat (nDimX h * nDimY h)" "opt AND I_CONST \<noteq> 0"
  shows "display_2D_r field h opt (nDimX h) j0 = Inl Out_of_bounds"
proof -
  let ?X = "nDimX h" and ?Y = "nDimY h"
  have xy: "?X * ?Y < (?X + 1) * ?Y" "?Y \<le> (?X + 1) * ?Y" using assms(1,2) by (simp_all add: algebra_simps)
  have "?X \<le> ?X * ?Y" using assms(1,2) by simp
  then have "?X < 2 ^ 31" "?Y < 2 ^ 31" using assms(3) xy by linarith+
  then have ok: "int32_ok ?X" "int32_ok ?Y" using assms(1,2) by (simp_all add: int32_ok_def)
  have oob: "print_at field (\<lambda>v. v) (idx2 ?Y ?X (int 0)) mk = Inl Out_of_bounds" for mk
  proof -
    have "idx2 ?Y ?X 0 = Inr (?Y * ?X)" using assms(1-3) xy by (intro idx2_nonneg [THEN trans]) (simp_all add: algebra_simps)
    then show ?thesis using assms(4) by (simp add: print_at_oob algebra_simps)
  qed
  have "step_loop ?Y (yMin h - hdy h) (hdy h) (\<lambda>j y. print_at field (\<lambda>v. v) (idx2 ?Y ?X (int j)) (Row2 y))
      = Inl Out_of_bounds"
    using assms(2) oob by (intro step_loop_first_fault) simp_all
  then show ?thesis
    using assms(1,5) ok by (simp add: display_2D_r_def Let_def opt_simps)
qed

theorem display_2D_r_i0_off_by_one_witness:
  "display_2D_r [1, 2, 3, 4] (sample_header 2 2 2 1) 1 2 0 = Inl Out_of_bounds"
  using display_2D_r_i0_off_by_one [of "sample_header 2 2 2 1" "[1, 2, 3, 4]" 1 0]
  by (simp add: sample_header_def opt_bits)

text \<open>C28: under \<open>-bw\<close>, with neither \<open>-i\<close> nor \<open>-j\<close> in force, \<open>display_2D\<close> of a
  real field prints the whole plane as the sign of each element: the rows run over
  \<open>i\<close>, then \<open>j\<close>, at \<open>(xMin + i dx, yMin + j dy)\<close>, with a blank line after each row
  of the plane.\<close>

theorem display_2D_bw_plane:
  assumes "grid2_fits h" "length field = nat (nDimX h * nDimY h)"
    "opt AND I_CONST = 0" "opt AND J_CONST = 0" "opt AND BW \<noteq> 0"
  shows "display_2D_r field h opt i0 j0 =
     Inr (concat (map (\<lambda>i. map (\<lambda>j. Row3 (xMin h + real i * hdx h) (yMin h + real j * hdy h)
       (sign (field ! (j + nat (nDimY h) * i)))) [0..<nat (nDimY h)] @ [Blank]) [0..<nat (nDimX h)]))"
proof -
  have p: "0 < nDimX h" "0 < nDimY h" "nDimX h * nDimY h < 2 ^ 31" using assms(1) by (simp_all add: grid2_fits_def)
  have b: "\<not> bit opt 0" "\<not> bit opt 1" "bit opt 5" using assms(3-5) by (simp_all add: opt_simps)
  show ?thesis
    unfolding display_2D_r_def Let_def grid2_fits_dims [OF assms(1)]
    apply (simp only: opt_simps b simp_thms if_False if_True)
    apply simp
    apply (rule plane_loop_ok)
    subgoal for i j
      using p assms(2) cell2_ok [of "int i" "nDimX h" "int j" "nDimY h" field]
      by (simp only: coord_step) (simp add: zless_nat_eq_int_zless nat_row_major2)
    done
qed

theorem display_2D_bw_plane_witness:
  "display_2D_r [1, -2, 0, 3] (sample_header 2 2 2 1) 32 (-1) (-1) =
     Inr [Row3 0 0 1, Row3 0 1 (-1), Blank, Row3 1 0 0, Row3 1 1 1, Blank]"
proof -
  have h1: "grid2_fits (sample_header 2 2 2 1)" by (simp add: grid2_fits_def sample_header_def)
  have h2: "length [1, -2, 0, 3 :: real] = nat (nDimX (sample_header 2 2 2 1) * nDimY (sample_header 2 2 2 1))"
    by (simp add: sample_header_def)
  have h3: "(32::32 word) AND I_CONST = 0" "(32::32 word) AND J_CONST = 0" "(32::32 word) AND BW \<noteq> 0"
    by (simp_all add: opt_bits)
  show ?thesis
    using display_2D_bw_plane [OF h1 h2 h3, of "-1" "-1"]
    by (simp add: sample_header_def sign_def upt_rec)
qed

text \<open>C34: \<open>-bw\<close> is honoured by the real overload of \<open>display_2D\<close> only: setting the
  \<open>BW\<close> bit changes nothing that \<open>display_3D\<close> (either overload) or the complex
  overload of \<open>display_2D\<close> prints.\<close>

theorem display_bw_ignored:
  "display_3D_c field h (opt OR BW) i0 j0 k0 = display_3D_c field h opt i0 j0 k0 \<and>
   display_3D_r rfield h (opt OR BW) i0 j0 k0 = display_3D_r rfield h opt i0 j0 k0 \<and>
   display_2D_c field h (opt OR BW) i0 j0 = display_2D_c field h opt i0 j0"
  by (simp only: display_3D_c_def display_3D_r_def display_3D_gen_or_BW select_mode_or_BW
      display_2D_c_def Let_def guard_or_BW mask_or_BW simp_thms)

text \<open>C24: the display functions convert the \<open>long long\<close> extents to \<open>int\<close>: a
  one-dimensional header declaring \<open>2^32 + n\<close> points (\<open>n < 2^31\<close>) makes \<open>display_1D\<close>
  print \<open>n\<close> rows only, the first \<open>n\<close> elements, although \<open>main\<close> allocates and reads
  \<open>2^32 + n\<close>.\<close>

theorem display_1D_extent_truncated:
  assumes "nDimX h = 2 ^ 32 + n" "0 \<le> n" "n < 2 ^ 31" "nat n \<le> length field"
  shows "display_1D_r field h = Inr (map (\<lambda>i. Row2 (xMin h + real i * hdx h) (field ! i)) [0..<nat n])"
proof -
  have "to_int32 (nDimX h) = n"
    using assms(1-3) by (simp only: to_int32_wrap)
  then show ?thesis using assms(2,4) by (rule display_1D_r_rows)
qed

theorem display_1D_extent_truncated_witness:
  "display_1D_r [5, 6] (sample_header 1 (2 ^ 32 + 2) 1 1) = Inr [Row2 0 5, Row2 1 6]"
  using display_1D_extent_truncated [of "sample_header 1 (2 ^ 32 + 2) 1 1" 2 "[5, 6]"]
  by (simp add: sample_header_def upt_rec)

end
