(* ===== verification/Gpo3_Main.thy ===== *)
theory Gpo3_Main
  imports Gpo3_Display
begin

text \<open>
  \<open>main\<close> of \<open>gpo3.cpp\<close> (lines 476--653): the options AnyOption hands back are turned
  into the fixed indices and the option word, the file named by the first argument is
  opened (a failure ends the program with \<open>EXIT_FAILURE\<close>), its header is echoed, and
  the field is read into a buffer sized by the header and handed to the display
  function that the dimension and the complex flag select. AnyOption itself, the
  parsing of the option strings by \<open>atof\<close> and the thread count taken from the
  environment (which changes no output) are not modelled: the command line is the
  record of what \<open>getFlag\<close>, \<open>getValue\<close> (after \<open>atof\<close>) and \<open>getArgv\<close> return.
\<close>

unbundle bit_operations_syntax

section \<open>The command line\<close>

text \<open>What the AnyOption object answers after \<open>processCommandArgs\<close>: the flags, the
  values of \<open>-i\<close>, \<open>-j\<close>, \<open>-k\<close> as \<open>atof\<close> converts them (absent: \<open>nullptr\<close>), and the
  remaining arguments.\<close>

record cli =
  fl_help :: bool
  val_i :: "real option"
  val_j :: "real option"
  val_k :: "real option"
  fl_re :: bool
  fl_im :: bool
  fl_bw :: bool
  fl_ph :: bool
  argv :: "string list"

text \<open>\<open>i0 = atof(...)\<close>: a \<open>double\<close> assigned to an \<open>int\<close> is truncated towards zero; a
  value outside the \<open>int\<close> range is undefined behaviour.\<close>

definition c_trunc :: "real \<Rightarrow> int" where
  "c_trunc r = (if 0 \<le> r then \<lfloor>r\<rfloor> else \<lceil>r\<rceil>)"

definition double_to_int :: "real \<Rightarrow> c_fault + int" where
  "double_to_int r = chk32 (c_trunc r)"

text \<open>\<open>if (opt->getValue("i") != nullptr) { i0 = atof(...); options |= I_CONST; }\<close>: the
  index (\<open>-1\<close> when absent) and the option word after the test.\<close>

definition opt_index :: "real option \<Rightarrow> 32 word \<Rightarrow> 32 word \<Rightarrow> c_fault + int \<times> 32 word" where
  "opt_index v b options =
     (case v of None \<Rightarrow> Inr (-1, options)
      | Some r \<Rightarrow> bind_e (double_to_int r) (\<lambda>n. Inr (n, options OR b)))"

text \<open>\<open>if (opt->getFlag("re")) options |= RT;\<close>\<close>

definition opt_flag :: "bool \<Rightarrow> 32 word \<Rightarrow> 32 word \<Rightarrow> 32 word" where
  "opt_flag f b options = (if f then options OR b else options)"

text \<open>Lines 514--533: the three indices in order, then the four flags.\<close>

definition main_options :: "cli \<Rightarrow> c_fault + 32 word \<times> int \<times> int \<times> int" where
  "main_options c =
     bind_e (opt_index (val_i c) I_CONST 0) (\<lambda>(i0, o1).
     bind_e (opt_index (val_j c) J_CONST o1) (\<lambda>(j0, o2).
     bind_e (opt_index (val_k c) K_CONST o2) (\<lambda>(k0, o3).
     Inr (opt_flag (fl_ph c) PH (opt_flag (fl_bw c) BW (opt_flag (fl_im c) IT (opt_flag (fl_re c) RT o3))),
          i0, j0, k0))))"

section \<open>The file\<close>

text \<open>A field file: the header, then the doubles of the field (two per complex
  element).\<close>

record gpo_file =
  f_header :: generic_header
  f_payload :: "real list"

text \<open>The element counts are products of the \<open>long long\<close> extents: an overflow is
  undefined behaviour. A negative count converted to \<open>size_t\<close> asks for an
  allocation that fails, and the read then writes through the null pointer.\<close>

definition int64_ok :: "int \<Rightarrow> bool" where
  "int64_ok v \<longleftrightarrow> - (2 ^ 63) \<le> v \<and> v < 2 ^ 63"

definition mul64 :: "int \<Rightarrow> int \<Rightarrow> c_fault + int" where
  "mul64 a b = (if int64_ok (a * b) then Inr (a * b) else Inl Int_overflow)"

definition alloc_count :: "int \<Rightarrow> c_fault + nat" where
  "alloc_count n = (if 0 \<le> n then Inr (nat n) else Inl Out_of_bounds)"

text \<open>\<open>in.read((char *)field, total_no_bytes)\<close> into a fresh buffer of \<open>n\<close> doubles: the
  doubles the file still holds, then whatever the allocation held (\<open>junk\<close>); the
  count of bytes read is never checked.\<close>

definition read_doubles :: "real list \<Rightarrow> (nat \<Rightarrow> real) \<Rightarrow> nat \<Rightarrow> real list" where
  "read_doubles payload junk n = map (\<lambda>i. if i < length payload then payload ! i else junk i) [0..<n]"

definition read_cplx :: "real list \<Rightarrow> (nat \<Rightarrow> real) \<Rightarrow> nat \<Rightarrow> cplx list" where
  "read_cplx payload junk n =
     (let d = read_doubles payload junk (2 * n) in map (\<lambda>e. (d ! (2 * e), d ! (2 * e + 1))) [0..<n])"

section \<open>Dispatch and \<open>main\<close>\<close>

text \<open>Two statements in sequence: the output of the first, then of the second.\<close>

definition seq_e :: "c_fault + line list \<Rightarrow> c_fault + line list \<Rightarrow> c_fault + line list" where
  "seq_e m1 m2 = bind_e m1 (\<lambda>a. bind_e m2 (\<lambda>b. Inr (a @ b)))"

text \<open>Lines 579--652: six independent tests on \<open>nDims\<close> and \<open>bComplex\<close>, each of which
  allocates the buffer, reads the field and displays it.\<close>

definition dispatch :: "gpo_file \<Rightarrow> (nat \<Rightarrow> real) \<Rightarrow> 32 word \<Rightarrow> int \<Rightarrow> int \<Rightarrow> int \<Rightarrow>
    c_fault + line list" where
  "dispatch f junk options i0 j0 k0 =
     (let h = f_header f; p = f_payload f;
          n1 = alloc_count (nDimX h);
          n2 = bind_e (mul64 (nDimX h) (nDimY h)) alloc_count;
          n3 = bind_e (mul64 (nDimX h) (nDimY h)) (\<lambda>a. bind_e (mul64 a (nDimZ h)) alloc_count)
      in seq_e (if nDims h = 1 \<and> bComplex h = 1
                then bind_e n1 (\<lambda>n. display_1D_c (read_cplx p junk n) h) else Inr [])
        (seq_e (if nDims h = 1 \<and> bComplex h = 0
                then bind_e n1 (\<lambda>n. display_1D_r (read_doubles p junk n) h) else Inr [])
        (seq_e (if nDims h = 2 \<and> bComplex h = 1
                then bind_e n2 (\<lambda>n. display_2D_c (read_cplx p junk n) h options i0 j0) else Inr [])
        (seq_e (if nDims h = 2 \<and> bComplex h = 0
                then bind_e n2 (\<lambda>n. display_2D_r (read_doubles p junk n) h options i0 j0) else Inr [])
        (seq_e (if nDims h = 3 \<and> bComplex h = 1
                then bind_e n3 (\<lambda>n. display_3D_c (read_cplx p junk n) h options i0 j0 k0) else Inr [])
               (if nDims h = 3 \<and> bComplex h = 0
                then bind_e n3 (\<lambda>n. display_3D_r (read_doubles p junk n) h options i0 j0 k0)
                else Inr []))))))"

text \<open>\<open>main\<close>: the exit status and the lines printed, given the file system \<open>files\<close>
  (a name to the contents of the file it opens, \<open>None\<close> when \<open>in.open\<close> fails) and the
  contents \<open>junk\<close> of fresh allocations. The usage text is printed for \<open>-h\<close> and
  again when no file is named, in which case the empty name is opened.\<close>

definition gpo3_main :: "cli \<Rightarrow> (string \<Rightarrow> gpo_file option) \<Rightarrow> (nat \<Rightarrow> real) \<Rightarrow>
    c_fault + int \<times> line list" where
  "gpo3_main c files junk =
     (let out0 = (if fl_help c then [Usage] else [])
      in bind_e (main_options c) (\<lambda>(options, i0, j0, k0).
           let filename = (if argv c \<noteq> [] then hd (argv c) else '''');
               out1 = out0 @ (if argv c \<noteq> [] then [] else [Usage])
           in case files filename of
                None \<Rightarrow> Inr (1, out1)
              | Some f \<Rightarrow> bind_e (dispatch f junk options i0 j0 k0)
                  (\<lambda>ls. Inr (0, out1 @ [Title filename, Header_echo (f_header f) i0 j0 k0] @ ls))))"

section \<open>Reference definitions\<close>

text \<open>A command line whose index values all truncate into the \<open>int\<close> range, and the
  index \<open>main\<close> should take from an option value.\<close>

definition cli_ok :: "cli \<Rightarrow> bool" where
  "cli_ok c \<longleftrightarrow> (\<forall>r. (val_i c = Some r \<or> val_j c = Some r \<or> val_k c = Some r) \<longrightarrow> int32_ok (c_trunc r))"

definition opt_value :: "real option \<Rightarrow> int" where
  "opt_value v = (case v of None \<Rightarrow> -1 | Some r \<Rightarrow> c_trunc r)"

section \<open>Lemmas\<close>

text \<open>What evaluates \<open>main_options\<close> on a concrete command line.\<close>

lemmas main_options_simps = main_options_def opt_index_def double_to_int_def c_trunc_def int32_ok_def
  opt_flag_def opt_bits

lemma bit_opt_flag: "bit (opt_flag f b w) n \<longleftrightarrow> bit w n \<or> (f \<and> bit b n)"
  by (auto simp: opt_flag_def bit_or_iff)

lemma opt_index_ok:
  "(\<And>r. v = Some r \<Longrightarrow> int32_ok (c_trunc r)) \<Longrightarrow>
   opt_index v b w = Inr (opt_value v, if v = None then w else w OR b)"
  by (cases v) (simp_all add: opt_index_def opt_value_def double_to_int_def)

lemma seq_e_Nil [simp]: "seq_e (Inr []) m = m" "seq_e m (Inr []) = m"
  by (cases m; simp add: seq_e_def)+

text \<open>A buffer the file fills completely holds the file's doubles.\<close>

lemma read_doubles_take: "n \<le> length p \<Longrightarrow> read_doubles p junk n = take n p"
  by (simp add: read_doubles_def list_eq_iff_nth_eq)

text \<open>On a grid of fewer than \<open>2^31\<close> points the \<open>long long\<close> counts do not overflow
  and the allocation succeeds.\<close>

lemma grid3_fits_counts:
  assumes "grid3_fits h"
  shows "mul64 (nDimX h) (nDimY h) = Inr (nDimX h * nDimY h)"
    "mul64 (nDimX h * nDimY h) (nDimZ h) = Inr (nDimX h * nDimY h * nDimZ h)"
    "alloc_count (nDimX h * nDimY h * nDimZ h) = Inr (nat (nDimX h * nDimY h * nDimZ h))"
proof -
  have p: "0 < nDimX h" "0 < nDimY h" "0 < nDimZ h" "nDimX h * nDimY h * nDimZ h < 2 ^ 31"
    using assms by (simp_all add: grid3_fits_def)
  have xy: "0 < nDimX h * nDimY h" using p by simp
  have "nDimX h * nDimY h * 1 \<le> nDimX h * nDimY h * nDimZ h" using p xy by (intro mult_left_mono) simp_all
  then have "nDimX h * nDimY h \<le> nDimX h * nDimY h * nDimZ h" by simp
  then have b: "nDimX h * nDimY h < 2 ^ 63" "0 \<le> nDimX h * nDimY h * nDimZ h"
      "nDimX h * nDimY h * nDimZ h < 2 ^ 63"
    using p(4) xy by simp_all
  then show "mul64 (nDimX h) (nDimY h) = Inr (nDimX h * nDimY h)"
      "mul64 (nDimX h * nDimY h) (nDimZ h) = Inr (nDimX h * nDimY h * nDimZ h)"
      "alloc_count (nDimX h * nDimY h * nDimZ h) = Inr (nat (nDimX h * nDimY h * nDimZ h))"
    using xy by (simp_all add: mul64_def int64_ok_def alloc_count_def)
qed

lemma length_read_doubles [simp]: "length (read_doubles p junk n) = n"
  by (simp add: read_doubles_def)

lemma length_read_cplx [simp]: "length (read_cplx p junk n) = n"
  by (simp add: read_cplx_def Let_def)

text \<open>A complex buffer the file fills completely holds the file's doubles in pairs,
  real part first.\<close>

lemma read_cplx_pairs:
  "2 * n \<le> length p \<Longrightarrow> read_cplx p junk n = map (\<lambda>e. (p ! (2 * e), p ! (2 * e + 1))) [0..<n]"
  by (simp add: read_cplx_def Let_def read_doubles_take)

lemma grid2_fits_counts:
  assumes "grid2_fits h"
  shows "mul64 (nDimX h) (nDimY h) = Inr (nDimX h * nDimY h)"
    "alloc_count (nDimX h * nDimY h) = Inr (nat (nDimX h * nDimY h))"
proof -
  have "0 < nDimX h * nDimY h" "nDimX h * nDimY h < 2 ^ 31" using assms by (simp_all add: grid2_fits_def)
  then show "mul64 (nDimX h) (nDimY h) = Inr (nDimX h * nDimY h)"
      "alloc_count (nDimX h * nDimY h) = Inr (nat (nDimX h * nDimY h))"
    by (simp_all add: mul64_def int64_ok_def alloc_count_def)
qed

section \<open>Properties\<close>

text \<open>C20: the option word \<open>main\<close> builds encodes the command line exactly: with index
  values inside the \<open>int\<close> range, \<open>main_options\<close> returns the truncated values (\<open>-1\<close>
  for an absent option), and the bits of the word are exactly those of the options
  given (\<open>I_CONST\<close>, \<open>J_CONST\<close>, \<open>K_CONST\<close> for \<open>-i\<close>, \<open>-j\<close>, \<open>-k\<close>, then \<open>RT\<close>,
  \<open>IT\<close>, \<open>BW\<close>, \<open>PH\<close> for the flags).\<close>

theorem main_options_roundtrip:
  assumes "cli_ok c"
  shows "\<exists>options. main_options c = Inr (options, opt_value (val_i c), opt_value (val_j c), opt_value (val_k c)) \<and>
     (\<forall>n. bit options n \<longleftrightarrow>
        (n = 0 \<and> val_i c \<noteq> None) \<or> (n = 1 \<and> val_j c \<noteq> None) \<or> (n = 2 \<and> val_k c \<noteq> None) \<or>
        (n = 3 \<and> fl_re c) \<or> (n = 4 \<and> fl_im c) \<or> (n = 5 \<and> fl_bw c) \<or> (n = 7 \<and> fl_ph c))"
proof -
  have r: "\<And>r. val_i c = Some r \<Longrightarrow> int32_ok (c_trunc r)" "\<And>r. val_j c = Some r \<Longrightarrow> int32_ok (c_trunc r)"
    "\<And>r. val_k c = Some r \<Longrightarrow> int32_ok (c_trunc r)" using assms by (auto simp: cli_ok_def)
  show ?thesis
    by (simp add: main_options_def opt_index_ok [OF r(1)] opt_index_ok [OF r(2)] opt_index_ok [OF r(3)]
        bit_opt_flag bit_or_iff bit_opt_consts) blast
qed

theorem main_options_roundtrip_witness:
  "cli_ok \<lparr>fl_help = False, val_i = Some 2, val_j = None, val_k = Some 3, fl_re = True,
      fl_im = False, fl_bw = False, fl_ph = True, argv = [''f.bin'']\<rparr> \<and>
   (\<exists>options. main_options \<lparr>fl_help = False, val_i = Some 2, val_j = None, val_k = Some 3, fl_re = True,
      fl_im = False, fl_bw = False, fl_ph = True, argv = [''f.bin'']\<rparr> = Inr (options, 2, -1, 3) \<and>
     bit options 0 \<and> \<not> bit options 1 \<and> bit options 2 \<and> bit options 3 \<and> bit options 7)"
proof -
  let ?c = "\<lparr>fl_help = False, val_i = Some 2, val_j = None, val_k = Some 3, fl_re = True,
      fl_im = False, fl_bw = False, fl_ph = True, argv = [''f.bin'']\<rparr>"
  have h: "cli_ok ?c" by (simp add: cli_ok_def c_trunc_def int32_ok_def)
  show ?thesis using h main_options_roundtrip [OF h] by (auto simp: opt_value_def c_trunc_def)
qed

text \<open>C21: \<open>main\<close> composes with \<open>display_3D\<close>: for a named, readable file of a real
  three-dimensional field that holds the whole grid, \<open>main\<close> prints the title and the
  header echo, then exactly what \<open>display_3D(double *, ...)\<close> prints for the file's
  doubles, and exits with 0; the contents of fresh memory play no role.\<close>

theorem main_dispatch_3D_r:
  assumes "argv c = fn # rest" "\<not> fl_help c" "main_options c = Inr (options, i0, j0, k0)"
    "files fn = Some f" "nDims (f_header f) = 3" "bComplex (f_header f) = 0" "grid3_fits (f_header f)"
    "nat (nDimX (f_header f) * nDimY (f_header f) * nDimZ (f_header f)) \<le> length (f_payload f)"
  shows "gpo3_main c files junk =
     bind_e (display_3D_r (take (nat (nDimX (f_header f) * nDimY (f_header f) * nDimZ (f_header f))) (f_payload f))
               (f_header f) options i0 j0 k0)
       (\<lambda>ls. Inr (0, [Title fn, Header_echo (f_header f) i0 j0 k0] @ ls))"
  using assms by (simp add: gpo3_main_def dispatch_def Let_def grid3_fits_counts read_doubles_take)

theorem main_dispatch_3D_r_witness:
  "gpo3_main \<lparr>fl_help = False, val_i = Some 1, val_j = Some 0, val_k = None, fl_re = False,
      fl_im = False, fl_bw = False, fl_ph = False, argv = [''f.bin'']\<rparr>
     (\<lambda>n. if n = ''f.bin'' then Some \<lparr>f_header = sample_header 3 2 2 2, f_payload = [0, 1, 2, 3, 4, 5, 6, 7]\<rparr>
          else None) (\<lambda>_. 0) =
   bind_e (display_3D_r [0, 1, 2, 3, 4, 5, 6, 7] (sample_header 3 2 2 2) 3 1 0 (-1))
     (\<lambda>ls. Inr (0, [Title ''f.bin'', Header_echo (sample_header 3 2 2 2) 1 0 (-1)] @ ls))"
proof -
  let ?c = "\<lparr>fl_help = False, val_i = Some 1, val_j = Some 0, val_k = None, fl_re = False,
      fl_im = False, fl_bw = False, fl_ph = False, argv = [''f.bin'']\<rparr>"
  let ?f = "\<lparr>f_header = sample_header 3 2 2 2, f_payload = [0, 1, 2, 3, 4, 5, 6, 7 :: real]\<rparr>"
  have h3: "main_options ?c = Inr (3, 1, 0, -1)"
    by (simp add: main_options_simps)
  have h7: "grid3_fits (f_header ?f)" by (simp add: grid3_fits_def sample_header_def)
  show ?thesis
    using main_dispatch_3D_r [of ?c "''f.bin''" "[]" 3 1 0 "-1" "\<lambda>n. if n = ''f.bin'' then Some ?f else None" ?f
        "\<lambda>_. 0", OF _ _ h3 _ _ _ h7]
    by (simp add: sample_header_def)
qed

text \<open>C22: when the file cannot be opened, \<open>main\<close> exits with \<open>EXIT_FAILURE\<close> having
  printed only the usage text (for \<open>-h\<close>, and again when no file was named).\<close>

theorem main_no_file:
  assumes "main_options c = Inr (options, i0, j0, k0)"
    "files (if argv c \<noteq> [] then hd (argv c) else '''') = None"
  shows "gpo3_main c files junk =
     Inr (1, (if fl_help c then [Usage] else []) @ (if argv c = [] then [Usage] else []))"
  using assms by (simp add: gpo3_main_def Let_def)

theorem main_no_file_witness:
  "gpo3_main \<lparr>fl_help = False, val_i = None, val_j = None, val_k = None, fl_re = False,
      fl_im = False, fl_bw = False, fl_ph = False, argv = []\<rparr> (\<lambda>_. None) (\<lambda>_. 0) = Inr (1, [Usage])"
proof -
  let ?c = "\<lparr>fl_help = False, val_i = None, val_j = None, val_k = None, fl_re = False,
      fl_im = False, fl_bw = False, fl_ph = False, argv = []\<rparr>"
  have h: "main_options ?c = Inr (0, -1, -1, -1)"
    by (simp add: main_options_simps)
  show ?thesis using main_no_file [OF h, of "\<lambda>_. None" "\<lambda>_. 0"] by simp
qed

text \<open>C23: the read of the field is never checked: for a real one-dimensional file that
  holds fewer doubles than its header declares, \<open>main\<close> still exits with 0 and prints,
  as the first missing element, whatever fresh memory held.\<close>

theorem main_short_read:
  assumes "argv c = fn # rest" "main_options c = Inr (options, i0, j0, k0)" "files fn = Some f"
    "nDims (f_header f) = 1" "bComplex (f_header f) = 0" "int32_ok (nDimX (f_header f))"
    "length (f_payload f) < nat (nDimX (f_header f))"
  shows "\<exists>out. gpo3_main c files junk = Inr (0, out) \<and>
    Row2 (xMin (f_header f) + real (length (f_payload f)) * hdx (f_header f)) (junk (length (f_payload f)))
      \<in> set out"
proof -
  let ?h = "f_header f" and ?p = "f_payload f"
  let ?buf = "read_doubles ?p junk (nat (nDimX ?h))"
  have x: "0 \<le> nDimX ?h" using assms(7) by simp
  have d: "display_1D_r ?buf ?h = Inr (map (\<lambda>i. Row2 (xMin ?h + real i * hdx ?h) (?buf ! i)) [0..<nat (nDimX ?h)])"
    using assms(6) x by (intro display_1D_r_eq) (simp_all add: read_doubles_def)
  have "?buf ! length ?p = junk (length ?p)" using assms(7) by (simp add: read_doubles_def)
  then have "Row2 (xMin ?h + real (length ?p) * hdx ?h) (junk (length ?p)) \<in>
      set (map (\<lambda>i. Row2 (xMin ?h + real i * hdx ?h) (?buf ! i)) [0..<nat (nDimX ?h)])"
    using assms(7) by (auto simp: image_iff intro!: bexI [of _ "length ?p"])
  moreover have "gpo3_main c files junk = Inr (0, (if fl_help c then [Usage] else []) @
      [Title fn, Header_echo ?h i0 j0 k0] @ map (\<lambda>i. Row2 (xMin ?h + real i * hdx ?h) (?buf ! i)) [0..<nat (nDimX ?h)])"
    using assms x d by (simp add: gpo3_main_def dispatch_def Let_def alloc_count_def)
  ultimately show ?thesis by auto
qed

theorem main_short_read_witness:
  "\<exists>out. gpo3_main \<lparr>fl_help = False, val_i = None, val_j = None, val_k = None, fl_re = False,
      fl_im = False, fl_bw = False, fl_ph = False, argv = [''f.bin'']\<rparr>
     (\<lambda>n. if n = ''f.bin'' then Some \<lparr>f_header = sample_header 1 2 1 1, f_payload = [5]\<rparr> else None)
     (\<lambda>_. 42) = Inr (0, out) \<and> Row2 1 42 \<in> set out"
proof -
  let ?c = "\<lparr>fl_help = False, val_i = None, val_j = None, val_k = None, fl_re = False,
      fl_im = False, fl_bw = False, fl_ph = False, argv = [''f.bin'']\<rparr>"
  let ?f = "\<lparr>f_header = sample_header 1 2 1 1, f_payload = [5 :: real]\<rparr>"
  have h: "main_options ?c = Inr (0, -1, -1, -1)" by (simp add: main_options_simps)
  show ?thesis
    using main_short_read [OF _ h, of "''f.bin''" "[]" "\<lambda>n. if n = ''f.bin'' then Some ?f else None" ?f "\<lambda>_. 42"]
    by (simp add: sample_header_def int32_ok_def)
qed

text \<open>C29: \<open>main\<close> composed with \<open>display_2D\<close> never faults on a two-dimensional
  file whose grid fits, real or complex, whatever its flags, unless \<open>-i\<close> or \<open>-j\<close> sits
  exactly on the extent: it exits with 0, also when the file holds fewer doubles than
  the header declares.\<close>

theorem main_2D_safe:
  assumes "argv c = fn # rest" "main_options c = Inr (options, i0, j0, k0)" "files fn = Some f"
    "nDims (f_header f) = 2" "bComplex (f_header f) \<in> {0, 1}" "grid2_fits (f_header f)"
    "i0 \<noteq> nDimX (f_header f)" "j0 \<noteq> nDimY (f_header f)"
  shows "\<exists>out. gpo3_main c files junk = Inr (0, out)"
proof -
  let ?h = "f_header f" and ?p = "f_payload f"
  let ?n = "nat (nDimX ?h * nDimY ?h)"
  obtain lr where r: "display_2D_r (read_doubles ?p junk ?n) ?h options i0 j0 = Inr lr"
    using display_2D_safe(1) [OF assms(6-8)] by fastforce
  obtain lc where cx: "display_2D_c (read_cplx ?p junk ?n) ?h options i0 j0 = Inr lc"
    using display_2D_safe(2) [OF assms(6-8)] by fastforce
  show ?thesis
    using assms(5) r cx assms(1-4)
    by (auto simp: gpo3_main_def dispatch_def Let_def grid2_fits_counts [OF assms(6)])
qed

theorem main_2D_safe_witness:
  "\<exists>out. gpo3_main \<lparr>fl_help = False, val_i = None, val_j = Some 7, val_k = None, fl_re = False,
      fl_im = False, fl_bw = True, fl_ph = False, argv = [''f.bin'']\<rparr>
     (\<lambda>n. if n = ''f.bin'' then Some \<lparr>f_header = sample_header 2 2 2 1, f_payload = [1]\<rparr> else None)
     (\<lambda>_. 0) = Inr (0, out)"
proof -
  let ?c = "\<lparr>fl_help = False, val_i = None, val_j = Some 7, val_k = None, fl_re = False,
      fl_im = False, fl_bw = True, fl_ph = False, argv = [''f.bin'']\<rparr>"
  let ?f = "\<lparr>f_header = sample_header 2 2 2 1, f_payload = [1 :: real]\<rparr>"
  have h: "main_options ?c = Inr (34, -1, 7, -1)"
    by (simp add: main_options_simps)
  have g: "grid2_fits (f_header ?f)" by (simp add: grid2_fits_def sample_header_def)
  show ?thesis
    using main_2D_safe [OF _ h, of "''f.bin''" "[]" "\<lambda>n. if n = ''f.bin'' then Some ?f else None" ?f, OF _ _ _ _ g]
    by (simp add: sample_header_def)
qed

text \<open>C30: the element count of a three-dimensional file is the \<open>long long\<close> product
  \<open>nDimX*nDimY*nDimZ\<close> of the header's extents, never checked: when it leaves the
  64-bit range, \<open>main\<close> reaches a signed overflow, whichever the complex flag.\<close>

theorem main_count_overflow:
  assumes "argv c = fn # rest" "main_options c = Inr (options, i0, j0, k0)" "files fn = Some f"
    "nDims (f_header f) = 3" "bComplex (f_header f) \<in> {0, 1}"
    "\<not> int64_ok (nDimX (f_header f) * nDimY (f_header f) * nDimZ (f_header f))"
  shows "gpo3_main c files junk = Inl Int_overflow"
proof -
  let ?h = "f_header f"
  have "bind_e (mul64 (nDimX ?h) (nDimY ?h)) (\<lambda>a. bind_e (mul64 a (nDimZ ?h)) alloc_count) = Inl Int_overflow"
    using assms(6) by (simp add: mul64_def)
  then show ?thesis using assms(1-5) by (auto simp: gpo3_main_def dispatch_def Let_def)
qed

theorem main_count_overflow_witness:
  "gpo3_main \<lparr>fl_help = False, val_i = None, val_j = None, val_k = None, fl_re = False,
      fl_im = False, fl_bw = False, fl_ph = False, argv = [''f.bin'']\<rparr>
     (\<lambda>n. if n = ''f.bin'' then Some \<lparr>f_header = sample_header 3 (2 ^ 32) (2 ^ 32) 1, f_payload = []\<rparr>
          else None) (\<lambda>_. 0) = Inl Int_overflow"
proof -
  let ?c = "\<lparr>fl_help = False, val_i = None, val_j = None, val_k = None, fl_re = False,
      fl_im = False, fl_bw = False, fl_ph = False, argv = [''f.bin'']\<rparr>"
  let ?f = "\<lparr>f_header = sample_header 3 (2 ^ 32) (2 ^ 32) 1, f_payload = [] :: real list\<rparr>"
  have h: "main_options ?c = Inr (0, -1, -1, -1)" by (simp add: main_options_simps)
  have o: "\<not> int64_ok (nDimX (f_header ?f) * nDimY (f_header ?f) * nDimZ (f_header ?f))"
    by (simp add: int64_ok_def sample_header_def)
  show ?thesis
    using main_count_overflow [OF _ h, of "''f.bin''" "[]" "\<lambda>n. if n = ''f.bin'' then Some ?f else None" ?f,
        OF _ _ _ _ o]
    by (simp add: sample_header_def)
qed

text \<open>C31: a file whose header names no known kind (\<open>nDims\<close> other than 1, 2, 3, or
  \<open>bComplex\<close> other than 0, 1) is accepted: \<open>main\<close> prints the title and the header
  echo, no field, and exits with 0.\<close>

theorem main_unknown_kind:
  assumes "argv c = fn # rest" "main_options c = Inr (options, i0, j0, k0)" "files fn = Some f"
    "nDims (f_header f) \<notin> {1, 2, 3} \<or> bComplex (f_header f) \<notin> {0, 1}"
  shows "gpo3_main c files junk =
     Inr (0, (if fl_help c then [Usage] else []) @ [Title fn, Header_echo (f_header f) i0 j0 k0])"
  using assms by (auto simp: gpo3_main_def dispatch_def Let_def)

theorem main_unknown_kind_witness:
  "gpo3_main \<lparr>fl_help = False, val_i = None, val_j = None, val_k = None, fl_re = False,
      fl_im = False, fl_bw = False, fl_ph = False, argv = [''f.bin'']\<rparr>
     (\<lambda>n. if n = ''f.bin'' then Some \<lparr>f_header = sample_header 4 2 2 2, f_payload = [1, 2]\<rparr> else None)
     (\<lambda>_. 0) = Inr (0, [Title ''f.bin'', Header_echo (sample_header 4 2 2 2) (-1) (-1) (-1)])"
proof -
  let ?c = "\<lparr>fl_help = False, val_i = None, val_j = None, val_k = None, fl_re = False,
      fl_im = False, fl_bw = False, fl_ph = False, argv = [''f.bin'']\<rparr>"
  let ?f = "\<lparr>f_header = sample_header 4 2 2 2, f_payload = [1, 2 :: real]\<rparr>"
  have h: "main_options ?c = Inr (0, -1, -1, -1)" by (simp add: main_options_simps)
  show ?thesis
    using main_unknown_kind [OF _ h, of "''f.bin''" "[]" "\<lambda>n. if n = ''f.bin'' then Some ?f else None" ?f]
    by (simp add: sample_header_def)
qed

text \<open>C32: \<open>main\<close> composes with the complex overload of \<open>display_2D\<close>: for a named,
  readable two-dimensional complex file that holds the whole grid, it prints the title
  and the header echo, then what \<open>display_2D(fftw_complex *, ...)\<close> prints for the
  file's doubles taken in pairs (real part, imaginary part), and exits with 0.\<close>

theorem main_dispatch_2D_c:
  assumes "argv c = fn # rest" "\<not> fl_help c" "main_options c = Inr (options, i0, j0, k0)"
    "files fn = Some f" "nDims (f_header f) = 2" "bComplex (f_header f) = 1" "grid2_fits (f_header f)"
    "2 * nat (nDimX (f_header f) * nDimY (f_header f)) \<le> length (f_payload f)"
  shows "gpo3_main c files junk =
     bind_e (display_2D_c (map (\<lambda>e. (f_payload f ! (2 * e), f_payload f ! (2 * e + 1)))
               [0..<nat (nDimX (f_header f) * nDimY (f_header f))]) (f_header f) options i0 j0)
       (\<lambda>ls. Inr (0, [Title fn, Header_echo (f_header f) i0 j0 k0] @ ls))"
  using assms by (simp add: gpo3_main_def dispatch_def Let_def grid2_fits_counts read_cplx_pairs)

theorem main_dispatch_2D_c_witness:
  "gpo3_main \<lparr>fl_help = False, val_i = None, val_j = None, val_k = None, fl_re = True,
      fl_im = False, fl_bw = False, fl_ph = False, argv = [''f.bin'']\<rparr>
     (\<lambda>n. if n = ''f.bin'' then Some \<lparr>f_header = (sample_header 2 1 2 1)\<lparr>bComplex := 1\<rparr>,
          f_payload = [1, 2, 3, 4]\<rparr> else None) (\<lambda>_. 0) =
   bind_e (display_2D_c [(1, 2), (3, 4)] ((sample_header 2 1 2 1)\<lparr>bComplex := 1\<rparr>) 8 (-1) (-1))
     (\<lambda>ls. Inr (0, [Title ''f.bin'', Header_echo ((sample_header 2 1 2 1)\<lparr>bComplex := 1\<rparr>) (-1) (-1) (-1)] @ ls))"
proof -
  let ?c = "\<lparr>fl_help = False, val_i = None, val_j = None, val_k = None, fl_re = True,
      fl_im = False, fl_bw = False, fl_ph = False, argv = [''f.bin'']\<rparr>"
  let ?f = "\<lparr>f_header = (sample_header 2 1 2 1)\<lparr>bComplex := 1\<rparr>, f_payload = [1, 2, 3, 4 :: real]\<rparr>"
  have h: "main_options ?c = Inr (8, -1, -1, -1)"
    by (simp add: main_options_simps)
  have g: "grid2_fits (f_header ?f)" by (simp add: grid2_fits_def sample_header_def)
  show ?thesis
    using main_dispatch_2D_c [OF _ _ h, of "''f.bin''" "[]" "\<lambda>n. if n = ''f.bin'' then Some ?f else None" ?f
        "\<lambda>_. 0", OF _ _ _ _ _ g]
    by (simp add: sample_header_def upt_rec)
qed

end
