(* ===== verification/Spec2Isabelle.thy ===== *)
theory Spec2Isabelle
  imports Diff_Ops Gpo3_Main
begin

text \<open>
  \<^bold>\<open>ATUS2: the spectral differentiation kernel \<open>Fourier::rft_3d\<close>.\<close>

  \<^bold>\<open>The program.\<close> \<open>src/source/libs/lib_myutils/rft_3d.cpp\<close> differentiates a real field
  sampled on an \<open>Nx \<times> Ny \<times> Nz\<close> grid spectrally: a forward real-to-complex FFT into the
  Hermitian-packed spectrum (\<open>Rz = Nz/2 + 1\<close> bins on the last axis), a multiplication of
  every bin by a polynomial in its frequency, and a backward FFT. Its parts are
  \<^item> the grid and buffer context, inherited from \<open>cft_base\<close> (not among the sources): the
    geometry, the buffers \<open>m_in_real\<close> and \<open>m_out\<close>, the direction flag \<open>m_isign\<close> and the
    two FFTW plans;
  \<^item> the index/coordinate mapper \<open>Get_k\<close> and \<open>Get_x\<close>;
  \<^item> transform and normalisation, \<open>ft\<close> and \<open>scale\<close>;
  \<^item> the seven differential operators \<open>Diff_x\<close> \dots \<open>Laplace\<close>, which call \<open>ft\<close> and, in
    an OpenMP loop, \<open>Get_k\<close>.
  \<open>src/source/vis/src/gpo3.cpp\<close>, a command-line tool that prints slices of a stored
  field, shares only the row-major layout with the kernel. Its \<open>main\<close> parses options
  into a bit set (\<open>I_CONST\<close> \dots \<open>PH\<close>), reads a \<open>generic_header\<close> and the field, and
  calls one of six display functions (1-, 2- or 3-dimensional, complex or real field),
  which clear the slice bits whose index fails a guard and print a line, a plane or
  the whole field, the value of a complex element chosen by \<open>mode1\<close> \dots \<open>mode4\<close>.

  \<^bold>\<open>The theories.\<close>
  \<^item> \<open>Prelude\<close>: doubles as reals, \<open>fftw_complex\<close> as a pair, \<open>CPoint<3>\<close> as a triple;
    C's truncating \<open>/\<close> and \<open>%\<close> with a trap on a zero divisor (\<open>c_div_chk\<close>,
    \<open>c_mod_chk\<close>, results in \<open>c_fault + _\<close>); the C \<open>for\<close> loop (\<open>for_upto\<close>,
    \<open>for_upto_e\<close> when an iteration may trap) proved equal to \<open>fold\<close>; \<open>pointwise_upd\<close>,
    the shape of every OpenMP loop body of the file, with the lemma that updates at
    distinct indices commute.
  \<^item> \<open>Grid\<close>: \<open>cft_base\<close>'s state, modelled from the specification: the geometry record
    \<open>rft_ctx\<close> with its invariant \<open>ctx_wf\<close> (positive extents, \<open>Rz = Nz/2 + 1\<close>, the two
    element counts, non-negative shifts, counts below \<open>2^63\<close>) and the reciprocity
    \<open>ctx_reciprocal\<close> (\<open>dk = 2\<pi>/(N d)\<close>); the state record \<open>rft_state\<close> (\<open>m_in_real\<close>,
    \<open>m_out\<close>, \<open>m_isign\<close>) with \<open>state_wf\<close> (buffer sizes); the FFTW plans as an interface
    \<open>fftw_plans\<close> with its contract \<open>plans_wf\<close> (output sizes) and \<open>plans_fftw\<close>
    (unnormalised: c2r after r2c multiplies by \<open>Nx Ny Nz\<close>; c2r linear); and the exact
    FFTW transforms on the \<open>1\<times>1\<times>1\<close>, \<open>1\<times>1\<times>2\<close> and \<open>2\<times>1\<times>2\<close> grids, which meet the
    contract and serve the concrete instances (on the last one the \<open>x\<close> frequency of half
    the bins is \<open>-\<pi>\<close>, so the operators' witnesses multiply by non-zero frequencies).
  \<^item> \<open>Index_Map\<close>: \<open>k_index\<close>/\<open>Get_k\<close> (lines 72--82) and \<open>x_index\<close>/\<open>Get_x\<close>
    (lines 84--94), with the reference split \<open>split3\<close> and the centred fold.
  \<^item> \<open>Transform\<close>: \<open>scale\<close> (lines 256--275, its two loops as \<open>for_upto\<close> over
    \<open>scale_real_body\<close>/\<open>scale_cplx_body\<close>), \<open>ft\<close> (lines 55--70) and the constructor
    \<open>rft_3d_plans\<close> (lines 39--43) over FFTW's planner, the interface \<open>fftw_planner\<close>
    with its documented sizes \<open>planner_wf\<close>.
  \<^item> \<open>Diff_Ops\<close>: the per-bin updates \<open>bin_first\<close>, \<open>bin_second\<close>, \<open>bin_laplace\<close>, the
    loop \<open>spectral_loop\<close> over \<open>spectral_body\<close>, the template \<open>spectral_op\<close> and the seven
    operators (lines 101--249), with the spectral specification \<open>spectral_spec\<close>.
  \<^item> \<open>Gpo3_Base\<close>: the vocabulary of \<open>gpo3.cpp\<close>: \<open>generic_header\<close> (modelled from its
    use), the option bits as \<open>32 word\<close> values with the lemmas \<open>opt_simps\<close> that turn
    every mask test and guard into bits of the option word, the modes and
    \<open>select_mode\<close>, the \<open>long long\<close> to \<open>int\<close> conversion \<open>to_int32\<close>, the index
    expressions \<open>idx3\<close>/\<open>idx2\<close> in checked 32-bit arithmetic (an overflow is the fault
    \<open>Int_overflow\<close>), the read \<open>fetch\<close> (\<open>Out_of_bounds\<close> outside the field), the printed
    \<open>line\<close>s, and \<open>step_loop\<close>, the loop \<open>c = c0; for (...) { c += d; ... }\<close> with its
    closed form and fault rules.
  \<^item> \<open>Gpo3_Display\<close>: \<open>display_3D_gen\<close> (the body both \<open>display_3D\<close> overloads share,
    lines 68--299) with \<open>display_3D_c\<close>/\<open>display_3D_r\<close>, \<open>display_2D_c\<close>/\<open>display_2D_r\<close>
    (lines 302--442) and \<open>display_1D_c\<close>/\<open>display_1D_r\<close> (lines 445--474); the
    grids that fit an \<open>int\<close> (\<open>grid3_fits\<close>, \<open>grid2_fits\<close>) and the closed forms of
    the line and plane loops.
  \<^item> \<open>Gpo3_Main\<close>: \<open>main\<close> (lines 476--653) from the answers of AnyOption on: the
    command line \<open>cli\<close>, the indices and option word \<open>main_options\<close>, the field file
    \<open>gpo_file\<close> (header and doubles), the unchecked read \<open>read_doubles\<close>/\<open>read_cplx\<close>
    (missing doubles come from fresh memory, the parameter \<open>junk\<close>), \<open>dispatch\<close> and
    \<open>gpo3_main\<close>, which returns the exit status and the printed lines.
  \<^item> this theory: this overview. The public methods of \<open>rft_3d\<close> are the definitions
    \<open>ft\<close> and \<open>Diff_x\<close> \<open>\<dots>\<close> \<open>Laplace\<close>; a client's sequence of calls is their
    composition, and C33 shows that no call depends on what earlier calls left in the
    spectrum or in \<open>m_isign\<close>.

  \<^bold>\<open>What is proved\<close> (claim ids in brackets). Transform: the round trip
  \<open>ft(-1); ft(1)\<close> restores the real field exactly [C1]; a direction other than
  \<open>\<plusminus>1\<close> leaves both buffers unchanged, and the direction it records does not
  disable a later \<open>scale\<close>, which then multiplies the stale spectrum [C7]; the
  constructor's plans fit the buffers [C27]. Operators: the Laplacian is the sum of the
  three second derivatives [C2]; \<open>Diff_x\<close> and \<open>Laplace\<close> multiply the spectrum by
  \<open>i kx\<close> and \<open>-|k|\<^sup>2\<close> [C3, C4]; every operator traps when \<open>Nz = 1\<close> [C6]; every
  operator returns with \<open>m_isign = 1\<close> and well-formed buffers [C12]; each of the seven
  forgets the spectrum and direction that earlier calls left, so its result depends on
  the real field only [C33]. Mapper: exactly which offsets share a frequency [C5], the
  centred fold of \<open>Get_k\<close> [C8], the split is a bijection onto the index box [C9, C10]
  whose intermediates never overflow \<open>int64_t\<close> [C11], \<open>Get_x\<close> is injective [C13].
  Display tool: the line through two fixed indices is printed exactly [C14]; the guard
  \<open>i0 > dimX\<close> lets \<open>i0 = dimX\<close> through to an out-of-bounds read [C15], in
  \<open>display_2D\<close> too [C26]; the guard of \<open>k0\<close> tests \<open>dimY\<close> instead of \<open>dimZ\<close> and lets
  a plane read past the field [C16]; the 32-bit index overflows on grids of more than
  \<open>2^31\<close> points [C17]; away from those cases \<open>display_3D\<close> never faults [C18]; without
  \<open>-bw\<close> the complex \<open>display_2D\<close> prints what the real one prints for the selected
  mode's values [C19]; an extent of \<open>2^32 + n\<close> points is displayed as \<open>n\<close> [C24];
  \<open>display_1D\<close> of a complex field prints rows from which each element is recovered
  [C25]; under \<open>-bw\<close> the real \<open>display_2D\<close> prints the sign of every element of the
  plane [C28], while \<open>display_3D\<close> and the complex \<open>display_2D\<close> ignore the flag [C34].
  \<open>main\<close>: the option word encodes the command line exactly [C20]; a readable real 3-D
  file is displayed by \<open>display_3D\<close> after the header echo [C21]; a file that cannot be
  opened ends the program with \<open>EXIT_FAILURE\<close> [C22]; a file shorter than its header
  declares is displayed with fresh memory as its missing values [C23]; on a 2-D file
  that fits, real or complex, \<open>main\<close> never faults unless an index sits on the extent
  [C29]; a 3-D header whose \<open>long long\<close> element count overflows makes \<open>main\<close>
  overflow [C30]; a header of no known kind is echoed and accepted with exit status 0
  [C31]; a complex 2-D file is read in (real, imaginary) pairs and displayed by
  \<open>display_2D\<close> [C32].

  \<^bold>\<open>Bounds and choices.\<close> Doubles are exact reals, so the results hold for the
  algorithm, not for its rounding. Integer members are \<open>int\<close> bounded by \<open>2^63\<close> in
  \<open>ctx_wf\<close>; C11 shows that this bound keeps every intermediate of the split in range.
  \<open>m_isign\<close> is an unbounded \<open>int\<close>; the only difference from C's \<open>int\<close> would be
  \<open>abs(INT_MIN)\<close>, which is not \<open>1\<close> either way. No loop needs fuel: every loop of the
  file is a bounded \<open>for\<close>, modelled by structural or measured recursion.

  \<^bold>\<open>Not modelled.\<close> Every function of the two source files has a definition in the
  theories of this development; the lines the map leaves out are the licence header,
  includes, comments, \<open>using\<close> declarations and closing braces, so no further code
  can be added to the model. Left out within and beyond the sources: FFTW itself (only its planner's and plans' contracts, and its
  exact transforms on three tiny grids); \<open>cft_base\<close>, which is not among the sources,
  beyond the invariant and the constructor \<open>mk_ctx\<close> (its allocation of the buffers and
  its destructor); floating-point
  rounding; in \<open>gpo3.cpp\<close>, AnyOption (the model starts from its answers), the parsing
  of option strings by \<open>atof\<close>, the thread count read from the environment (it changes
  no output), the usage text and header echo beyond one abstract line each, and the
  \<open>printf\<close> formats.
  The \<open>int\<close> operations of the index expressions are checked against the 32-bit range
  because a signed overflow is undefined behaviour; the grids of the display lemmas
  have fewer than \<open>2^31\<close> points (\<open>grid3_fits\<close>, \<open>grid2_fits\<close>), the bound under which the
  conversion of the extents and every offset inside the grid are exact.
\<close>

end
